theory Spec2Isabelle
  imports Main
begin

section \<open>The execution model of the contracts\<close>

text \<open>
  The development embeds two Clarity contracts, \<open>agent-launchpad\<close> (the bonding-curve
  ledger) and \<open>x402-curve-router\<close> (the nonce-indexed payment router), together with
  the part of \<open>agent-registry\<close> they read.

  A public function either returns \<open>(ok v)\<close> and commits its writes, or returns
  \<open>(err uN)\<close> and every write of the call is rolled back, or hits a runtime error
  (an unsigned overflow, an underflow or a division by zero) that aborts the whole
  transaction without producing a response value. The three outcomes are kept apart:
  \<open>Inr\<close> carries the value and the new state, \<open>Inl (Err n)\<close> is the response
  \<open>(err un)\<close>, and \<open>Inl (Abort e)\<close> is the runtime error.
\<close>

datatype principal = Wallet nat | LaunchpadContract | RouterContract

datatype runtime_error = ArithmeticOverflow | ArithmeticUnderflow | DivisionByZero

datatype failure = Err nat | Abort runtime_error

type_synonym 'a response = "failure + 'a"

definition bind_r :: "'a response \<Rightarrow> ('a \<Rightarrow> 'b response) \<Rightarrow> 'b response" where
  "bind_r m f = (case m of Inl e \<Rightarrow> Inl e | Inr v \<Rightarrow> f v)"

subsection \<open>Unsigned 128-bit arithmetic\<close>

text \<open>
  Clarity's \<open>uint\<close> is an unsigned 128-bit integer with checked arithmetic: nothing
  wraps around, an out-of-range result is a runtime error.
\<close>

definition uint_max :: nat where
  "uint_max = 340282366920938463463374607431768211455"

definition add_u :: "nat \<Rightarrow> nat \<Rightarrow> nat response" where
  "add_u a b = (if a + b > uint_max then Inl (Abort ArithmeticOverflow) else Inr (a + b))"

definition sub_u :: "nat \<Rightarrow> nat \<Rightarrow> nat response" where
  "sub_u a b = (if a < b then Inl (Abort ArithmeticUnderflow) else Inr (a - b))"

definition mul_u :: "nat \<Rightarrow> nat \<Rightarrow> nat response" where
  "mul_u a b = (if a * b > uint_max then Inl (Abort ArithmeticOverflow) else Inr (a * b))"

definition div_u :: "nat \<Rightarrow> nat \<Rightarrow> nat response" where
  "div_u a b = (if b = 0 then Inl (Abort DivisionByZero) else Inr (a div b))"

subsection \<open>Constants of the two contracts\<close>

definition ERR_NOT_REGISTERED :: failure where "ERR_NOT_REGISTERED = Err 1400"
definition ERR_ALREADY_LAUNCHED :: failure where "ERR_ALREADY_LAUNCHED = Err 1401"
definition ERR_CURVE_NOT_FOUND :: failure where "ERR_CURVE_NOT_FOUND = Err 1402"
definition ERR_GRADUATED :: failure where "ERR_GRADUATED = Err 1403"
definition ERR_ZERO_AMOUNT :: failure where "ERR_ZERO_AMOUNT = Err 1404"
definition ERR_INSUFFICIENT_BALANCE :: failure where "ERR_INSUFFICIENT_BALANCE = Err 1405"
definition ERR_SLIPPAGE :: failure where "ERR_SLIPPAGE = Err 1406"
definition ERR_NOT_ADMIN :: failure where "ERR_NOT_ADMIN = Err 1407"
definition ERR_OVERFLOW :: failure where "ERR_OVERFLOW = Err 1408"
definition ERR_SELF_TRANSFER :: failure where "ERR_SELF_TRANSFER = Err 1409"
definition ERR_INVALID_PARAMS :: failure where "ERR_INVALID_PARAMS = Err 1411"
definition ERR_NOT_GRADUATED :: failure where "ERR_NOT_GRADUATED = Err 1412"
definition ERR_SOLD_OUT :: failure where "ERR_SOLD_OUT = Err 1413"
definition ERR_INVALID_FEE :: failure where "ERR_INVALID_FEE = Err 1414"

definition MAX_FEE_BPS :: nat where "MAX_FEE_BPS = 500"
definition MAX_CREATOR_SHARE_BPS :: nat where "MAX_CREATOR_SHARE_BPS = 10000"
definition BPS_DENOM :: nat where "BPS_DENOM = 10000"
definition PRICE_SCALE :: nat where "PRICE_SCALE = 1000000000000"

definition ERR_NONCE_USED :: failure where "ERR_NONCE_USED = Err 1500"
definition ROUTER_ERR_ZERO_AMOUNT :: failure where "ROUTER_ERR_ZERO_AMOUNT = Err 1501"
definition ERR_UNAUTHORIZED :: failure where "ERR_UNAUTHORIZED = Err 1503"

definition ERR_ALREADY_REGISTERED :: failure where "ERR_ALREADY_REGISTERED = Err 1000"
definition ERR_NAME_TOO_LONG :: failure where "ERR_NAME_TOO_LONG = Err 1003"
definition REGISTRY_MAX_NAME_LEN :: nat where "REGISTRY_MAX_NAME_LEN = 64"
definition STATUS_ACTIVE :: nat where "STATUS_ACTIVE = 1"

subsection \<open>Data\<close>

text \<open>The curve tuple of the map \<open>curves\<close>; the field \<open>k\<close> is \<open>curve_k\<close> here.\<close>

record curve =
  creator :: principal
  curve_name :: string
  curve_symbol :: string
  total_supply :: nat
  virtual_stx :: nat
  curve_k :: nat
  stx_reserve :: nat
  tokens_sold :: nat
  graduation_stx :: nat
  fee_bps :: nat
  accrued_fees :: nat
  graduated :: bool
  created_at :: nat
  creator_share_bps :: nat

text \<open>The receipt tuple of the router's map \<open>receipts\<close>.\<close>

record receipt =
  payer :: principal
  receipt_curve_id :: nat
  receipt_stx_amount :: nat
  tokens_received :: nat
  receipt_fee :: nat
  receipt_block :: nat

text \<open>The agent tuple of the registry's map \<open>agents\<close>.\<close>

record agent =
  agent_name :: string
  description_url :: string
  status :: nat
  registered_at :: nat
  total_tasks :: nat
  total_earned :: nat
  price_per_task :: nat
  accepts_stx :: bool
  accepts_sip010 :: bool

type_synonym buff = "nat list"

text \<open>
  One record holds the chain state the contracts see: the STX ledger, the registry's
  agents and count, the data variables and maps of the launchpad, and those of the
  router. The \<open>balances\<close> map is an association list with one entry per key, so that
  the holders of a curve can be summed.
\<close>

record state =
  stx :: "principal \<Rightarrow> nat"
  agents :: "principal \<rightharpoonup> agent"
  total_agents :: nat
  total_curves :: nat
  admin :: principal
  pending_admin :: "principal option"
  protocol_fee_recipient :: principal
  default_total_supply :: nat
  default_virtual_stx :: nat
  default_graduation_stx :: nat
  default_fee_bps :: nat
  default_creator_share_bps :: nat
  curves :: "nat \<rightharpoonup> curve"
  balances :: "((nat \<times> principal) \<times> nat) list"
  agent_curve :: "principal \<rightharpoonup> nat"
  router_admin :: principal
  router_pending_admin :: "principal option"
  total_payments :: nat
  total_volume_stx :: nat
  receipts :: "buff \<rightharpoonup> receipt"

text \<open>The state right after the three contracts are deployed by \<open>deployer\<close>.\<close>

definition initial_state :: "(principal \<Rightarrow> nat) \<Rightarrow> principal \<Rightarrow> state" where
  "initial_state ledger deployer =
     \<lparr> stx = ledger, agents = Map.empty, total_agents = 0,
       total_curves = 0, admin = deployer, pending_admin = None,
       protocol_fee_recipient = deployer,
       default_total_supply = 1000000000000000,
       default_virtual_stx = 10000000000,
       default_graduation_stx = 16667000000,
       default_fee_bps = 100,
       default_creator_share_bps = 8000,
       curves = Map.empty, balances = [], agent_curve = Map.empty,
       router_admin = deployer, router_pending_admin = None,
       total_payments = 0, total_volume_stx = 0, receipts = Map.empty \<rparr>"

subsection \<open>Map and ledger primitives\<close>

fun balance_get :: "((nat \<times> principal) \<times> nat) list \<Rightarrow> nat \<times> principal \<Rightarrow> nat option" where
  "balance_get [] key = None"
| "balance_get ((k', v) # rest) key = (if k' = key then Some v else balance_get rest key)"

fun balance_set :: "((nat \<times> principal) \<times> nat) list \<Rightarrow> nat \<times> principal \<Rightarrow> nat
    \<Rightarrow> ((nat \<times> principal) \<times> nat) list" where
  "balance_set [] key v = [(key, v)]"
| "balance_set ((k', v') # rest) key v =
     (if k' = key then (key, v) # rest else (k', v') # balance_set rest key v)"

text \<open>
  \<open>stx-transfer?\<close>: \<open>(err u3)\<close> for a zero amount, \<open>(err u2)\<close> when sender and
  recipient coincide, \<open>(err u1)\<close> when the sender's balance is too low. The sender is
  the current \<open>tx-sender\<close> at each call site, so \<open>(err u4)\<close> does not arise.
\<close>

definition stx_transfer :: "nat \<Rightarrow> principal \<Rightarrow> principal \<Rightarrow> state \<Rightarrow> state response" where
  "stx_transfer amount sender recipient s =
     (if amount = 0 then Inl (Err 3)
      else if sender = recipient then Inl (Err 2)
      else if stx s sender < amount then Inl (Err 1)
      else Inr (s\<lparr>stx := (stx s)(sender := stx s sender - amount,
                                  recipient := stx s recipient + amount)\<rparr>))"

subsection \<open>The registry\<close>

definition is_registered :: "state \<Rightarrow> principal \<Rightarrow> bool" where
  "is_registered s owner = (agents s owner \<noteq> None)"

definition register_agent :: "state \<Rightarrow> principal \<Rightarrow> nat \<Rightarrow> string \<Rightarrow> string \<Rightarrow> nat \<Rightarrow> bool \<Rightarrow> bool
    \<Rightarrow> (principal \<times> state) response" where
  "register_agent s tx_sender height nm url price astx asip =
     (if agents s tx_sender \<noteq> None then Inl ERR_ALREADY_REGISTERED
      else if \<not> length nm \<le> REGISTRY_MAX_NAME_LEN then Inl ERR_NAME_TOO_LONG
      else bind_r (add_u (total_agents s) 1) (\<lambda>n.
        Inr (tx_sender,
          s\<lparr>agents := (agents s)(tx_sender \<mapsto>
                \<lparr> agent_name = nm, description_url = url, status = STATUS_ACTIVE,
                  registered_at = height, total_tasks = 0, total_earned = 0,
                  price_per_task = price, accepts_stx = astx, accepts_sip010 = asip \<rparr>),
            total_agents := n\<rparr>)))"

subsection \<open>The launchpad\<close>

text \<open>\<open>asserts!\<close>: continue when the condition holds, return the error otherwise.\<close>

definition asserts :: "bool \<Rightarrow> failure \<Rightarrow> 'a response \<Rightarrow> 'a response" where
  "asserts b e cont = (if b then cont else Inl e)"

definition get_balance :: "state \<Rightarrow> nat \<Rightarrow> principal \<Rightarrow> nat" where
  "get_balance s curve_id holder =
     (case balance_get (balances s) (curve_id, holder) of None \<Rightarrow> 0 | Some a \<Rightarrow> a)"

definition launch :: "state \<Rightarrow> principal \<Rightarrow> nat \<Rightarrow> string \<Rightarrow> string \<Rightarrow> (nat \<times> state) response" where
  "launch s tx_sender height nm symb =
     (let curve_id = total_curves s;
          ts = default_total_supply s;
          vs = default_virtual_stx s
      in bind_r (mul_u vs ts) (\<lambda>kk.
         asserts (is_registered s tx_sender) ERR_NOT_REGISTERED
        (asserts (agent_curve s tx_sender = None) ERR_ALREADY_LAUNCHED
        (asserts (length nm > 0) ERR_INVALID_PARAMS
        (asserts (length symb > 0) ERR_INVALID_PARAMS
        (asserts (ts > 0) ERR_INVALID_PARAMS
        (asserts (vs > 0) ERR_INVALID_PARAMS
        (bind_r (add_u curve_id 1) (\<lambda>n.
           Inr (curve_id,
             s\<lparr>curves := (curves s)(curve_id \<mapsto>
                   \<lparr> creator = tx_sender, curve_name = nm, curve_symbol = symb,
                     total_supply = ts, virtual_stx = vs, curve_k = kk,
                     stx_reserve = 0, tokens_sold = 0,
                     graduation_stx = default_graduation_stx s,
                     fee_bps = default_fee_bps s, accrued_fees = 0,
                     graduated = False, created_at = height,
                     creator_share_bps = default_creator_share_bps s \<rparr>),
               agent_curve := (agent_curve s)(tx_sender \<mapsto> curve_id),
               total_curves := n\<rparr>))))))))))"

text \<open>
  \<open>graduate-internal\<close>. The two payouts run inside \<open>as-contract?\<close>, with the
  contract as sender and an allowance equal to the amount sent, so the allowance
  check never fails and only the transfer's own error can leave the function.
\<close>

definition graduate_internal :: "state \<Rightarrow> nat \<Rightarrow> (bool \<times> state) response" where
  "graduate_internal s curve_id =
     (case curves s curve_id of
        None \<Rightarrow> Inl ERR_CURVE_NOT_FOUND
      | Some c \<Rightarrow>
          (let fees = accrued_fees c in
           bind_r (mul_u fees (creator_share_bps c)) (\<lambda>m.
           bind_r (div_u m BPS_DENOM) (\<lambda>creator_share.
           bind_r (sub_u fees creator_share) (\<lambda>protocol_share.
           let recipient = protocol_fee_recipient s in
           asserts (stx_reserve c \<ge> graduation_stx c) ERR_NOT_GRADUATED
          (asserts (\<not> graduated c) ERR_GRADUATED
          (bind_r (if creator_share > 0
                   then stx_transfer creator_share LaunchpadContract (creator c) s
                   else Inr s) (\<lambda>s1.
           bind_r (if protocol_share > 0
                   then stx_transfer protocol_share LaunchpadContract recipient s1
                   else Inr s1) (\<lambda>s2.
           Inr (True,
             s2\<lparr>curves := (curves s2)(curve_id \<mapsto>
                    c\<lparr>graduated := True, accrued_fees := 0\<rparr>)\<rparr>))))))))))"

definition graduate :: "state \<Rightarrow> nat \<Rightarrow> (bool \<times> state) response" where
  "graduate s curve_id = bind_r (graduate_internal s curve_id) (\<lambda>(_, s'). Inr (True, s'))"

definition buy :: "state \<Rightarrow> principal \<Rightarrow> nat \<Rightarrow> nat \<Rightarrow> nat \<Rightarrow> ((nat \<times> nat) \<times> state) response" where
  "buy s tx_sender curve_id stx_amount min_tokens_out =
     (case curves s curve_id of
        None \<Rightarrow> Inl ERR_CURVE_NOT_FOUND
      | Some c \<Rightarrow>
          (let caller = tx_sender; self = LaunchpadContract in
           bind_r (mul_u stx_amount (fee_bps c)) (\<lambda>m.
           bind_r (div_u m BPS_DENOM) (\<lambda>fee.
           bind_r (sub_u stx_amount fee) (\<lambda>net_stx.
           bind_r (sub_u (total_supply c) (tokens_sold c)) (\<lambda>token_reserve.
           bind_r (add_u (stx_reserve c) net_stx) (\<lambda>new_stx_reserve.
           bind_r (add_u (virtual_stx c) new_stx_reserve) (\<lambda>d.
           bind_r (div_u (curve_k c) d) (\<lambda>new_token_reserve.
           bind_r (sub_u token_reserve new_token_reserve) (\<lambda>tokens_out.
           let existing_bal = get_balance s curve_id caller;
               updated_stx_reserve = new_stx_reserve in
           asserts (\<not> graduated c) ERR_GRADUATED
          (asserts (stx_amount > 0) ERR_ZERO_AMOUNT
          (asserts (token_reserve > 0) ERR_SOLD_OUT
          (asserts (tokens_out > 0) ERR_OVERFLOW
          (asserts (tokens_out \<ge> min_tokens_out) ERR_SLIPPAGE
          (bind_r (stx_transfer stx_amount caller self s) (\<lambda>s1.
           bind_r (add_u (tokens_sold c) tokens_out) (\<lambda>sold.
           bind_r (add_u (accrued_fees c) fee) (\<lambda>fees.
           let s2 = s1\<lparr>curves := (curves s1)(curve_id \<mapsto>
                        c\<lparr>stx_reserve := updated_stx_reserve,
                          tokens_sold := sold,
                          accrued_fees := fees\<rparr>)\<rparr> in
           bind_r (add_u existing_bal tokens_out) (\<lambda>bal.
           let s3 = s2\<lparr>balances := balance_set (balances s2) (curve_id, caller) bal\<rparr> in
           bind_r (if updated_stx_reserve \<ge> graduation_stx c
                   then graduate_internal s3 curve_id
                   else Inr (True, s3)) (\<lambda>(_, s4).
           Inr ((tokens_out, fee), s4)))))))))))))))))))))"

definition sell :: "state \<Rightarrow> principal \<Rightarrow> nat \<Rightarrow> nat \<Rightarrow> nat \<Rightarrow> ((nat \<times> nat) \<times> state) response" where
  "sell s tx_sender curve_id token_amount min_stx_out =
     (case curves s curve_id of
        None \<Rightarrow> Inl ERR_CURVE_NOT_FOUND
      | Some c \<Rightarrow>
          (let caller = tx_sender in
           case balance_get (balances s) (curve_id, caller) of
             None \<Rightarrow> Inl ERR_INSUFFICIENT_BALANCE
           | Some seller_bal \<Rightarrow>
               bind_r (sub_u (total_supply c) (tokens_sold c)) (\<lambda>token_reserve.
               bind_r (add_u token_reserve token_amount) (\<lambda>new_token_reserve.
               bind_r (div_u (curve_k c) new_token_reserve) (\<lambda>q.
               bind_r (sub_u q (virtual_stx c)) (\<lambda>new_stx_reserve.
               bind_r (sub_u (stx_reserve c) new_stx_reserve) (\<lambda>gross_stx.
               bind_r (mul_u gross_stx (fee_bps c)) (\<lambda>m.
               bind_r (div_u m BPS_DENOM) (\<lambda>fee.
               bind_r (sub_u gross_stx fee) (\<lambda>stx_out.
               asserts (\<not> graduated c) ERR_GRADUATED
              (asserts (token_amount > 0) ERR_ZERO_AMOUNT
              (asserts (seller_bal \<ge> token_amount) ERR_INSUFFICIENT_BALANCE
              (asserts (stx_out > 0) ERR_OVERFLOW
              (asserts (stx_out \<ge> min_stx_out) ERR_SLIPPAGE
              (bind_r (stx_transfer stx_out LaunchpadContract caller s) (\<lambda>s1.
               bind_r (sub_u (tokens_sold c) token_amount) (\<lambda>sold.
               bind_r (add_u (accrued_fees c) fee) (\<lambda>fees.
               let s2 = s1\<lparr>curves := (curves s1)(curve_id \<mapsto>
                            c\<lparr>stx_reserve := new_stx_reserve,
                              tokens_sold := sold,
                              accrued_fees := fees\<rparr>)\<rparr> in
               bind_r (sub_u seller_bal token_amount) (\<lambda>bal.
               Inr ((stx_out, fee),
                 s2\<lparr>balances := balance_set (balances s2) (curve_id, caller) bal\<rparr>))))))))))))))))))))"

definition transfer :: "state \<Rightarrow> principal \<Rightarrow> nat \<Rightarrow> nat \<Rightarrow> principal \<Rightarrow> (bool \<times> state) response" where
  "transfer s tx_sender curve_id amount recipient =
     (case balance_get (balances s) (curve_id, tx_sender) of
        None \<Rightarrow> Inl ERR_INSUFFICIENT_BALANCE
      | Some sender_bal \<Rightarrow>
          (let recipient_bal = get_balance s curve_id recipient in
           asserts (curves s curve_id \<noteq> None) ERR_CURVE_NOT_FOUND
          (asserts (amount > 0) ERR_ZERO_AMOUNT
          (asserts (tx_sender \<noteq> recipient) ERR_SELF_TRANSFER
          (asserts (sender_bal \<ge> amount) ERR_INSUFFICIENT_BALANCE
          (bind_r (sub_u sender_bal amount) (\<lambda>b1.
           let bs1 = balance_set (balances s) (curve_id, tx_sender) b1 in
           bind_r (add_u recipient_bal amount) (\<lambda>b2.
           Inr (True, s\<lparr>balances := balance_set bs1 (curve_id, recipient) b2\<rparr>)))))))))"

definition set_defaults :: "state \<Rightarrow> principal \<Rightarrow> nat \<Rightarrow> nat \<Rightarrow> nat \<Rightarrow> nat \<Rightarrow> nat
    \<Rightarrow> (bool \<times> state) response" where
  "set_defaults s tx_sender new_total_supply new_virtual_stx new_graduation_stx
       new_fee_bps new_creator_share_bps =
     asserts (tx_sender = admin s) ERR_NOT_ADMIN
    (asserts (new_total_supply > 0) ERR_INVALID_PARAMS
    (asserts (new_virtual_stx > 0) ERR_INVALID_PARAMS
    (asserts (new_graduation_stx > 0) ERR_INVALID_PARAMS
    (asserts (new_fee_bps \<le> MAX_FEE_BPS) ERR_INVALID_FEE
    (asserts (new_creator_share_bps \<le> MAX_CREATOR_SHARE_BPS) ERR_INVALID_PARAMS
    (Inr (True,
       s\<lparr>default_total_supply := new_total_supply,
         default_virtual_stx := new_virtual_stx,
         default_graduation_stx := new_graduation_stx,
         default_fee_bps := new_fee_bps,
         default_creator_share_bps := new_creator_share_bps\<rparr>)))))))"

definition set_protocol_fee_recipient :: "state \<Rightarrow> principal \<Rightarrow> principal
    \<Rightarrow> (principal \<times> state) response" where
  "set_protocol_fee_recipient s tx_sender new_recipient =
     asserts (tx_sender = admin s) ERR_NOT_ADMIN
       (Inr (new_recipient, s\<lparr>protocol_fee_recipient := new_recipient\<rparr>))"

definition transfer_admin :: "state \<Rightarrow> principal \<Rightarrow> principal \<Rightarrow> (principal \<times> state) response" where
  "transfer_admin s tx_sender new_admin =
     asserts (tx_sender = admin s) ERR_NOT_ADMIN
       (Inr (new_admin, s\<lparr>pending_admin := Some new_admin\<rparr>))"

definition accept_admin :: "state \<Rightarrow> principal \<Rightarrow> (principal \<times> state) response" where
  "accept_admin s tx_sender =
     (case pending_admin s of
        None \<Rightarrow> Inl ERR_NOT_ADMIN
      | Some pending \<Rightarrow>
          asserts (tx_sender = pending) ERR_NOT_ADMIN
            (Inr (pending, s\<lparr>admin := pending, pending_admin := None\<rparr>)))"

text \<open>The read-only quotes and the price: the same \<open>let\<close> bindings, no write.\<close>

definition get_buy_quote :: "state \<Rightarrow> nat \<Rightarrow> nat \<Rightarrow> (nat \<times> nat) response" where
  "get_buy_quote s curve_id stx_amount =
     (case curves s curve_id of
        None \<Rightarrow> Inl ERR_CURVE_NOT_FOUND
      | Some c \<Rightarrow>
           bind_r (mul_u stx_amount (fee_bps c)) (\<lambda>m.
           bind_r (div_u m BPS_DENOM) (\<lambda>fee.
           bind_r (sub_u stx_amount fee) (\<lambda>net_stx.
           bind_r (sub_u (total_supply c) (tokens_sold c)) (\<lambda>token_reserve.
           bind_r (add_u (stx_reserve c) net_stx) (\<lambda>new_stx_reserve.
           bind_r (add_u (virtual_stx c) new_stx_reserve) (\<lambda>d.
           bind_r (div_u (curve_k c) d) (\<lambda>new_token_reserve.
           bind_r (sub_u token_reserve new_token_reserve) (\<lambda>tokens_out.
           Inr (tokens_out, fee))))))))))"

definition get_sell_quote :: "state \<Rightarrow> nat \<Rightarrow> nat \<Rightarrow> (nat \<times> nat) response" where
  "get_sell_quote s curve_id token_amount =
     (case curves s curve_id of
        None \<Rightarrow> Inl ERR_CURVE_NOT_FOUND
      | Some c \<Rightarrow>
           bind_r (sub_u (total_supply c) (tokens_sold c)) (\<lambda>token_reserve.
           bind_r (add_u token_reserve token_amount) (\<lambda>new_token_reserve.
           bind_r (div_u (curve_k c) new_token_reserve) (\<lambda>q.
           bind_r (sub_u q (virtual_stx c)) (\<lambda>new_stx_reserve.
           bind_r (sub_u (stx_reserve c) new_stx_reserve) (\<lambda>gross_stx.
           bind_r (mul_u gross_stx (fee_bps c)) (\<lambda>m.
           bind_r (div_u m BPS_DENOM) (\<lambda>fee.
           bind_r (sub_u gross_stx fee) (\<lambda>stx_out.
           Inr (stx_out, fee))))))))))"


subsection \<open>The router\<close>

text \<open>
  \<open>pay-via-curve\<close>. The \<open>contract-call?\<close> keeps \<open>tx-sender\<close>, so the launchpad's
  \<open>buy\<close> runs for the payer; \<open>try!\<close> passes an error of \<open>buy\<close> on unchanged.
\<close>

definition pay_via_curve :: "state \<Rightarrow> principal \<Rightarrow> nat \<Rightarrow> nat \<Rightarrow> nat \<Rightarrow> buff \<Rightarrow> nat
    \<Rightarrow> ((nat \<times> nat) \<times> state) response" where
  "pay_via_curve s tx_sender height curve_id stx_amount nonce min_tokens_out =
     asserts (receipts s nonce = None) ERR_NONCE_USED
    (asserts (stx_amount > 0) ROUTER_ERR_ZERO_AMOUNT
    (bind_r (buy s tx_sender curve_id stx_amount min_tokens_out) (\<lambda>((tokens_out, trade_fee), s1).
     let s2 = s1\<lparr>receipts := (receipts s1)(nonce \<mapsto>
                  \<lparr> payer = tx_sender, receipt_curve_id = curve_id,
                    receipt_stx_amount = stx_amount, tokens_received = tokens_out,
                    receipt_fee = trade_fee, receipt_block = height \<rparr>)\<rparr> in
     bind_r (add_u (total_payments s2) 1) (\<lambda>n.
     bind_r (add_u (total_volume_stx s2) stx_amount) (\<lambda>v.
     Inr ((tokens_out, trade_fee),
       s2\<lparr>total_payments := n, total_volume_stx := v\<rparr>))))))"

definition router_transfer_admin :: "state \<Rightarrow> principal \<Rightarrow> principal
    \<Rightarrow> (principal \<times> state) response" where
  "router_transfer_admin s tx_sender new_admin =
     asserts (tx_sender = router_admin s) ERR_UNAUTHORIZED
       (Inr (new_admin, s\<lparr>router_pending_admin := Some new_admin\<rparr>))"

definition router_accept_admin :: "state \<Rightarrow> principal \<Rightarrow> (principal \<times> state) response" where
  "router_accept_admin s tx_sender =
     (case router_pending_admin s of
        None \<Rightarrow> Inl ERR_UNAUTHORIZED
      | Some pending \<Rightarrow>
          asserts (tx_sender = pending) ERR_UNAUTHORIZED
            (Inr (pending, s\<lparr>router_admin := pending, router_pending_admin := None\<rparr>)))"

definition verify_payment :: "state \<Rightarrow> buff \<Rightarrow> receipt option" where
  "verify_payment s nonce = receipts s nonce"

definition is_nonce_available :: "state \<Rightarrow> buff \<Rightarrow> bool" where
  "is_nonce_available s nonce = (receipts s nonce = None)"

subsection \<open>Transactions\<close>

text \<open>
  A transaction is one public call by a sender at a block height. \<open>run\<close> gives its
  outcome; \<open>exec\<close> gives the state afterwards, which is the state before whenever the
  call did not return \<open>ok\<close>.
\<close>

datatype call =
    RegisterAgent string string nat bool bool
  | Launch string string
  | Buy nat nat nat
  | Sell nat nat nat
  | Transfer nat nat principal
  | Graduate nat
  | SetDefaults nat nat nat nat nat
  | SetProtocolFeeRecipient principal
  | TransferAdmin principal
  | AcceptAdmin
  | PayViaCurve nat nat buff nat
  | RouterTransferAdmin principal
  | RouterAcceptAdmin

definition committed :: "('a \<times> state) response \<Rightarrow> state response" where
  "committed r = bind_r r (\<lambda>(_, s'). Inr s')"

fun run :: "state \<Rightarrow> principal \<Rightarrow> nat \<Rightarrow> call \<Rightarrow> state response" where
  "run s p h (RegisterAgent nm url price astx asip) =
     committed (register_agent s p h nm url price astx asip)"
| "run s p h (Launch nm symb) = committed (launch s p h nm symb)"
| "run s p h (Buy cid amt mn) = committed (buy s p cid amt mn)"
| "run s p h (Sell cid amt mn) = committed (sell s p cid amt mn)"
| "run s p h (Transfer cid amt rcp) = committed (transfer s p cid amt rcp)"
| "run s p h (Graduate cid) = committed (graduate s cid)"
| "run s p h (SetDefaults a b c d e) = committed (set_defaults s p a b c d e)"
| "run s p h (SetProtocolFeeRecipient r) = committed (set_protocol_fee_recipient s p r)"
| "run s p h (TransferAdmin a) = committed (transfer_admin s p a)"
| "run s p h AcceptAdmin = committed (accept_admin s p)"
| "run s p h (PayViaCurve cid amt n mn) = committed (pay_via_curve s p h cid amt n mn)"
| "run s p h (RouterTransferAdmin a) = committed (router_transfer_admin s p a)"
| "run s p h RouterAcceptAdmin = committed (router_accept_admin s p)"

definition exec :: "state \<Rightarrow> principal \<Rightarrow> nat \<Rightarrow> call \<Rightarrow> state" where
  "exec s p h c = (case run s p h c of Inl _ \<Rightarrow> s | Inr s' \<Rightarrow> s')"

inductive reachable :: "state \<Rightarrow> bool" where
  init: "reachable (initial_state ledger deployer)"
| step: "reachable s \<Longrightarrow> reachable (exec s p h c)"

subsection \<open>Holder sums and the state invariant\<close>

text \<open>
  \<open>curve_total\<close> adds up the entries of the balance list that belong to one curve;
  \<open>holders\<close> lists the principals that have an entry for it.
\<close>

definition curve_total :: "((nat \<times> principal) \<times> nat) list \<Rightarrow> nat \<Rightarrow> nat" where
  "curve_total bs cid = sum_list (map snd (filter (\<lambda>e. fst (fst e) = cid) bs))"

definition holders :: "state \<Rightarrow> nat \<Rightarrow> principal list" where
  "holders s cid = map (\<lambda>e. snd (fst e)) (filter (\<lambda>e. fst (fst e) = cid) (balances s))"

text \<open>
  The facts about one curve, and about the whole state, that every public call
  preserves: \<open>k\<close> is the launch product, the sold tokens never exceed the supply, one
  side of the pool is the floor quotient of \<open>k\<close> by the other, a graduated curve has
  reached its threshold and has an empty fee pool; curve ids lie below \<open>total-curves\<close>,
  the balance list has one entry per key, only for existing curves, and the entries of
  each curve sum to its \<open>tokens-sold\<close>.
\<close>

definition curve_ok :: "curve \<Rightarrow> bool" where
  "curve_ok c \<longleftrightarrow>
     curve_k c = virtual_stx c * total_supply c \<and> 0 < virtual_stx c \<and> 0 < total_supply c \<and>
     tokens_sold c \<le> total_supply c \<and>
     (total_supply c - tokens_sold c = curve_k c div (virtual_stx c + stx_reserve c) \<or>
      virtual_stx c + stx_reserve c = curve_k c div (total_supply c - tokens_sold c)) \<and>
     (graduated c \<longrightarrow> graduation_stx c \<le> stx_reserve c \<and> accrued_fees c = 0)"

definition state_ok :: "state \<Rightarrow> bool" where
  "state_ok s \<longleftrightarrow>
     (\<forall>cid c. curves s cid = Some c \<longrightarrow>
        cid < total_curves s \<and> curve_ok c \<and> curve_total (balances s) cid = tokens_sold c) \<and>
     distinct (map fst (balances s)) \<and>
     (\<forall>e \<in> set (balances s). fst (fst e) < total_curves s)"


text \<open>
  A curve that is not graduated has not reached its threshold: the threshold default
  is positive, a curve starts with reserve 0, a buy that reaches the threshold
  graduates the curve in the same call, and a sell only lowers the reserve.
\<close>

definition threshold_ok :: "state \<Rightarrow> bool" where
  "threshold_ok s \<longleftrightarrow>
     0 < default_graduation_stx s \<and>
     (\<forall>cid c. curves s cid = Some c \<longrightarrow> \<not> graduated c \<longrightarrow>
        stx_reserve c < graduation_stx c)"

text \<open>
  The parameters of a curve stay within the bounds \<open>set-defaults\<close> enforces, and its
  \<open>k\<close> was computed by a checked multiplication.
\<close>

definition params_ok :: "state \<Rightarrow> bool" where
  "params_ok s \<longleftrightarrow>
     default_fee_bps s \<le> MAX_FEE_BPS \<and>
     default_creator_share_bps s \<le> MAX_CREATOR_SHARE_BPS \<and>
     (\<forall>cid c. curves s cid = Some c \<longrightarrow>
        fee_bps c \<le> MAX_FEE_BPS \<and> creator_share_bps c \<le> MAX_CREATOR_SHARE_BPS \<and>
        curve_k c \<le> uint_max)"

subsection \<open>Concrete histories\<close>

text \<open>
  A deployment in the style of the repository's test suite: every wallet starts with
  \<open>100000000000000\<close> micro-STX, \<open>Wallet 0\<close> deploys, \<open>Wallet 1\<close> registers as an
  agent (price per task \<open>1000000\<close>) and launches a curve, \<open>Wallet 2\<close> trades.
\<close>

definition wallet_funds :: "principal \<Rightarrow> nat" where
  "wallet_funds p = (case p of Wallet n \<Rightarrow> 100000000000000 | _ \<Rightarrow> 0)"

definition registered_state :: state where
  "registered_state =
     exec (initial_state wallet_funds (Wallet 0)) (Wallet 1) 1
       (RegisterAgent ''TestAgent'' ''https://example.com/agent'' 1000000 True False)"

definition launched_state :: state where
  "launched_state = exec registered_state (Wallet 1) 2 (Launch ''TestToken'' ''TST'')"

definition traded_state :: state where
  "traded_state =
     exec (exec launched_state (Wallet 2) 3 (Buy 0 1000000 0))
       (Wallet 2) 4 (Transfer 0 1000 (Wallet 3))"

definition bought_state :: state where
  "bought_state = exec launched_state (Wallet 2) 3 (Buy 0 1000000 0)"

text \<open>
  Scenario A of the specification, set up as the test suite does: the admin lowers the
  graduation threshold to \<open>100000000\<close> before the agent launches.
\<close>

definition scenario_A_state :: state where
  "scenario_A_state =
     exec (exec registered_state (Wallet 0) 2
             (SetDefaults 1000000000000000 10000000000 100000000 100 8000))
       (Wallet 1) 3 (Launch ''TestToken'' ''TST'')"

text \<open>
  A curve with the smallest parameters \<open>set-defaults\<close> accepts: total supply 1, virtual
  reserve 1, no fee, graduation threshold \<open>1000000\<close>.
\<close>

definition tiny_state :: state where
  "tiny_state =
     exec (exec registered_state (Wallet 0) 2 (SetDefaults 1 1 1000000 0 0))
       (Wallet 1) 3 (Launch ''TestToken'' ''TST'')"



subsection \<open>Later states\<close>

text \<open>\<open>evolves s s'\<close>: \<open>s'\<close> is \<open>s\<close> after any number of further transactions.\<close>

inductive evolves :: "state \<Rightarrow> state \<Rightarrow> bool" where
  here: "evolves s s"
| later: "evolves s s' \<Longrightarrow> evolves s (exec s' p h c)"

definition paid_state :: state where
  "paid_state = exec launched_state (Wallet 2) 3 (PayViaCurve 0 1000000 [0, 0, 0, 100] 0)"

text \<open>The state after the graduating buy of Scenario A.\<close>

definition graduated_state :: state where
  "graduated_state = exec scenario_A_state (Wallet 2) 4 (Buy 0 200000000 0)"

text \<open>
  Scenario A with the protocol fee recipient set to the launchpad contract itself
  (\<open>set-protocol-fee-recipient\<close> accepts any principal from the admin).
\<close>

definition self_recipient_state :: state where
  "self_recipient_state =
     exec (exec (exec registered_state (Wallet 0) 2
                   (SetDefaults 1000000000000000 10000000000 100000000 100 8000))
             (Wallet 0) 3 (SetProtocolFeeRecipient LaunchpadContract))
       (Wallet 1) 4 (Launch ''TestToken'' ''TST'')"

text \<open>
  The state in which the buy of \<open>200000000\<close> calls \<open>graduate-internal\<close> there: payment
  taken, curve and buyer balance written, the curve at its threshold and not graduated.
\<close>

definition self_recipient_mid_state :: state where
  "self_recipient_mid_state =
     self_recipient_state\<lparr>
       stx := (stx self_recipient_state)(Wallet 2 := 99999800000000,
                LaunchpadContract := 200000000),
       curves := (curves self_recipient_state)(0 \<mapsto>
         \<lparr>creator = Wallet 1, curve_name = ''TestToken'', curve_symbol = ''TST'',
           total_supply = 1000000000000000, virtual_stx = 10000000000,
           curve_k = 10000000000000000000000000, stx_reserve = 198000000,
           tokens_sold = 19415571680722,
           graduation_stx = 100000000, fee_bps = 100, accrued_fees = 2000000,
           graduated = False, created_at = 4, creator_share_bps = 8000\<rparr>),
       balances := [((0, Wallet 2), 19415571680722)]\<rparr>"

text \<open>A state later than the graduation of Scenario A: the buyer passes tokens on.\<close>

definition after_graduation_state :: state where
  "after_graduation_state = exec graduated_state (Wallet 2) 5 (Transfer 0 1000 (Wallet 3))"

section \<open>Outcomes of the primitives\<close>

lemma bind_r_Inr_iff: "bind_r m f = Inr y \<longleftrightarrow> (\<exists>v. m = Inr v \<and> f v = Inr y)"
  by (cases m) (simp_all add: bind_r_def)

lemma asserts_Inr_iff: "asserts b e cont = Inr y \<longleftrightarrow> b \<and> cont = Inr y"
  by (simp add: asserts_def)

lemma add_u_Inr_iff: "add_u a b = Inr v \<longleftrightarrow> a + b \<le> uint_max \<and> v = a + b"
  by (auto simp: add_u_def)

lemma sub_u_Inr_iff: "sub_u a b = Inr v \<longleftrightarrow> b \<le> a \<and> v = a - b"
  by (auto simp: sub_u_def)

lemma mul_u_Inr_iff: "mul_u a b = Inr v \<longleftrightarrow> a * b \<le> uint_max \<and> v = a * b"
  by (auto simp: mul_u_def)

lemma div_u_Inr_iff: "div_u a b = Inr v \<longleftrightarrow> b \<noteq> 0 \<and> v = a div b"
  by (auto simp: div_u_def)

lemma stx_transfer_Inr_iff:
  "stx_transfer amount sender recipient s = Inr s' \<longleftrightarrow>
     amount \<noteq> 0 \<and> sender \<noteq> recipient \<and> amount \<le> stx s sender \<and>
     s' = s\<lparr>stx := (stx s)(sender := stx s sender - amount, recipient := stx s recipient + amount)\<rparr>"
  by (auto simp: stx_transfer_def)

lemma committed_Inr_iff: "committed r = Inr s' \<longleftrightarrow> (\<exists>v. r = Inr (v, s'))"
  by (cases r) (auto simp: committed_def bind_r_def)

section \<open>What a successful call has done\<close>

lemma graduate_internal_Inr_ex:
  assumes "graduate_internal s cid = Inr (b, s')"
  shows "\<exists>c. curves s cid = Some c \<and> \<not> graduated c \<and> graduation_stx c \<le> stx_reserve c \<and>
           s' = s\<lparr>stx := stx s', curves := (curves s)(cid \<mapsto> c\<lparr>graduated := True, accrued_fees := 0\<rparr>)\<rparr>"
  using assms
  by (auto simp: graduate_internal_def bind_r_Inr_iff asserts_Inr_iff stx_transfer_Inr_iff Let_def
      split: option.splits if_splits)

lemma graduate_internal_Inr:
  assumes "graduate_internal s cid = Inr (b, s')"
  obtains c ledger where "curves s cid = Some c" "\<not> graduated c"
    "graduation_stx c \<le> stx_reserve c"
    "s' = s\<lparr>stx := ledger, curves := (curves s)(cid \<mapsto> c\<lparr>graduated := True, accrued_fees := 0\<rparr>)\<rparr>"
  using graduate_internal_Inr_ex [OF assms] by blast

lemma buy_unfold:
  assumes "buy s p cid amt mn = Inr (r, s')"
  obtains c m fee net tr nsr d ntr out s1 sold fees bal b where
    "curves s cid = Some c"
    "mul_u amt (fee_bps c) = Inr m" "div_u m BPS_DENOM = Inr fee" "sub_u amt fee = Inr net"
    "sub_u (total_supply c) (tokens_sold c) = Inr tr" "add_u (stx_reserve c) net = Inr nsr"
    "add_u (virtual_stx c) nsr = Inr d" "div_u (curve_k c) d = Inr ntr" "sub_u tr ntr = Inr out"
    "\<not> graduated c" "0 < amt" "0 < tr" "0 < out" "mn \<le> out"
    "stx_transfer amt p LaunchpadContract s = Inr s1"
    "add_u (tokens_sold c) out = Inr sold" "add_u (accrued_fees c) fee = Inr fees"
    "add_u (get_balance s cid p) out = Inr bal"
    "(if graduation_stx c \<le> nsr
      then graduate_internal
        (s1\<lparr>curves := (curves s1)(cid \<mapsto> c\<lparr>stx_reserve := nsr, tokens_sold := sold, accrued_fees := fees\<rparr>),
            balances := balance_set (balances s1) (cid, p) bal\<rparr>) cid
      else Inr (True, s1\<lparr>curves := (curves s1)(cid \<mapsto> c\<lparr>stx_reserve := nsr, tokens_sold := sold, accrued_fees := fees\<rparr>),
            balances := balance_set (balances s1) (cid, p) bal\<rparr>)) = Inr (b, s')"
    "r = (out, fee)"
proof -
  from assms obtain c where c: "curves s cid = Some c"
    by (auto simp: buy_def split: option.splits)
  show thesis
    using assms c that [of c]
    apply (simp add: buy_def bind_r_Inr_iff asserts_Inr_iff Let_def split: prod.splits cong: if_cong)
    apply (elim exE conjE)
    apply (drule sym [of "(_, _)" r])
    apply blast
    done
qed

lemma sell_unfold:
  assumes "sell s p cid amt mn = Inr (r, s')"
  obtains c seller_bal tr ntr q nsr gross m fee stx_out s1 sold fees bal where
    "curves s cid = Some c" "balance_get (balances s) (cid, p) = Some seller_bal"
    "sub_u (total_supply c) (tokens_sold c) = Inr tr" "add_u tr amt = Inr ntr"
    "div_u (curve_k c) ntr = Inr q" "sub_u q (virtual_stx c) = Inr nsr"
    "sub_u (stx_reserve c) nsr = Inr gross" "mul_u gross (fee_bps c) = Inr m"
    "div_u m BPS_DENOM = Inr fee" "sub_u gross fee = Inr stx_out"
    "\<not> graduated c" "0 < amt" "amt \<le> seller_bal" "0 < stx_out" "mn \<le> stx_out"
    "stx_transfer stx_out LaunchpadContract p s = Inr s1"
    "sub_u (tokens_sold c) amt = Inr sold" "add_u (accrued_fees c) fee = Inr fees"
    "sub_u seller_bal amt = Inr bal"
    "s' = s1\<lparr>curves := (curves s1)(cid \<mapsto> c\<lparr>stx_reserve := nsr, tokens_sold := sold, accrued_fees := fees\<rparr>),
            balances := balance_set (balances s1) (cid, p) bal\<rparr>"
    "r = (stx_out, fee)"
proof -
  from assms obtain c where c: "curves s cid = Some c"
    by (auto simp: sell_def split: option.splits)
  from assms c obtain sb where sb: "balance_get (balances s) (cid, p) = Some sb"
    by (auto simp: sell_def Let_def split: option.splits)
  show thesis
    using assms c sb that [of c sb]
    apply (simp add: sell_def bind_r_Inr_iff asserts_Inr_iff Let_def split: prod.splits cong: if_cong)
    apply (elim exE conjE)
    apply (drule sym [of "(_, _)" r])
    apply blast
    done
qed


lemma buy_effect:
  assumes "buy s p cid amt mn = Inr (r, s')"
  obtains c fee out ledger where
    "curves s cid = Some c" "r = (out, fee)"
    "fee = amt * fee_bps c div BPS_DENOM" "fee \<le> amt"
    "tokens_sold c \<le> total_supply c"
    "0 < virtual_stx c + (stx_reserve c + (amt - fee))"
    "curve_k c div (virtual_stx c + (stx_reserve c + (amt - fee))) \<le> total_supply c - tokens_sold c"
    "out = total_supply c - tokens_sold c - curve_k c div (virtual_stx c + (stx_reserve c + (amt - fee)))"
    "\<not> graduated c" "0 < amt" "0 < out" "mn \<le> out" "amt \<le> stx s p"
    "s' = s\<lparr>stx := ledger,
            curves := (curves s)(cid \<mapsto> c\<lparr>stx_reserve := stx_reserve c + (amt - fee),
                tokens_sold := tokens_sold c + out,
                accrued_fees := (if graduation_stx c \<le> stx_reserve c + (amt - fee) then 0
                                 else accrued_fees c + fee),
                graduated := (graduation_stx c \<le> stx_reserve c + (amt - fee))\<rparr>),
            balances := balance_set (balances s) (cid, p) (get_balance s cid p + out)\<rparr>"
proof -
  from assms obtain c m fee net tr nsr d ntr out s1 sold fees bal b where u:
    "curves s cid = Some c"
    "mul_u amt (fee_bps c) = Inr m" "div_u m BPS_DENOM = Inr fee" "sub_u amt fee = Inr net"
    "sub_u (total_supply c) (tokens_sold c) = Inr tr" "add_u (stx_reserve c) net = Inr nsr"
    "add_u (virtual_stx c) nsr = Inr d" "div_u (curve_k c) d = Inr ntr" "sub_u tr ntr = Inr out"
    "\<not> graduated c" "0 < amt" "0 < tr" "0 < out" "mn \<le> out"
    "stx_transfer amt p LaunchpadContract s = Inr s1"
    "add_u (tokens_sold c) out = Inr sold" "add_u (accrued_fees c) fee = Inr fees"
    "add_u (get_balance s cid p) out = Inr bal"
    "(if graduation_stx c \<le> nsr
      then graduate_internal
        (s1\<lparr>curves := (curves s1)(cid \<mapsto> c\<lparr>stx_reserve := nsr, tokens_sold := sold, accrued_fees := fees\<rparr>),
            balances := balance_set (balances s1) (cid, p) bal\<rparr>) cid
      else Inr (True, s1\<lparr>curves := (curves s1)(cid \<mapsto> c\<lparr>stx_reserve := nsr, tokens_sold := sold, accrued_fees := fees\<rparr>),
            balances := balance_set (balances s1) (cid, p) bal\<rparr>)) = Inr (b, s')"
    "r = (out, fee)"
    by (rule buy_unfold)
  have m: "m = amt * fee_bps c" using u(2) by (simp add: mul_u_Inr_iff)
  have fee: "fee = amt * fee_bps c div BPS_DENOM" using u(3) m by (simp add: div_u_Inr_iff)
  have net: "fee \<le> amt" "net = amt - fee" using u(4) by (simp_all add: sub_u_Inr_iff)
  have tr: "tokens_sold c \<le> total_supply c" "tr = total_supply c - tokens_sold c"
    using u(5) by (simp_all add: sub_u_Inr_iff)
  have nsr: "nsr = stx_reserve c + (amt - fee)" using u(6) net by (simp add: add_u_Inr_iff)
  have d: "d = virtual_stx c + (stx_reserve c + (amt - fee))" using u(7) nsr by (simp add: add_u_Inr_iff)
  have ntr: "0 < d" "ntr = curve_k c div d" using u(8) by (simp_all add: div_u_Inr_iff)
  have out: "ntr \<le> tr" "out = tr - ntr" using u(9) by (simp_all add: sub_u_Inr_iff)
  have s1: "s1 = s\<lparr>stx := (stx s)(p := stx s p - amt,
              LaunchpadContract := stx s LaunchpadContract + amt)\<rparr>" "amt \<le> stx s p"
    using u(15) by (simp_all add: stx_transfer_Inr_iff)
  have sold: "sold = tokens_sold c + out" using u(16) by (simp add: add_u_Inr_iff)
  have fees: "fees = accrued_fees c + fee" using u(17) by (simp add: add_u_Inr_iff)
  have bal: "bal = get_balance s cid p + out" using u(18) by (simp add: add_u_Inr_iff)
  have st: "\<exists>ledger. s' = s\<lparr>stx := ledger,
            curves := (curves s)(cid \<mapsto> c\<lparr>stx_reserve := nsr,
                tokens_sold := sold,
                accrued_fees := (if graduation_stx c \<le> nsr then 0 else fees),
                graduated := (graduation_stx c \<le> nsr)\<rparr>),
            balances := balance_set (balances s) (cid, p) bal\<rparr>"
  proof (cases "graduation_stx c \<le> nsr")
    case True
    with u(19) have "graduate_internal
        (s1\<lparr>curves := (curves s1)(cid \<mapsto> c\<lparr>stx_reserve := nsr, tokens_sold := sold, accrued_fees := fees\<rparr>),
            balances := balance_set (balances s1) (cid, p) bal\<rparr>) cid = Inr (b, s')" by simp
    then obtain c' f where "s' = (s1\<lparr>curves := (curves s1)(cid \<mapsto> c\<lparr>stx_reserve := nsr, tokens_sold := sold, accrued_fees := fees\<rparr>),
            balances := balance_set (balances s1) (cid, p) bal\<rparr>)\<lparr>stx := f,
          curves := (curves s1)(cid \<mapsto> c\<lparr>stx_reserve := nsr, tokens_sold := sold, accrued_fees := fees,
            graduated := True, accrued_fees := 0\<rparr>)\<rparr>"
      by (rule graduate_internal_Inr) auto
    with True s1(1) show ?thesis by (cases s, cases c) simp
  next
    case False
    with u(19) s1(1) u(10) show ?thesis by (cases s, cases c) auto
  qed
  then obtain ledger where st': "s' = s\<lparr>stx := ledger,
            curves := (curves s)(cid \<mapsto> c\<lparr>stx_reserve := nsr,
                tokens_sold := sold,
                accrued_fees := (if graduation_stx c \<le> nsr then 0 else fees),
                graduated := (graduation_stx c \<le> nsr)\<rparr>),
            balances := balance_set (balances s) (cid, p) bal\<rparr>" ..
  show thesis
    using that [of c out fee ledger] u(1) u(20) fee net(1) tr(1) ntr(1) out(1) out(2) u(10) u(11) u(13) u(14)
      s1(2) st'
    unfolding d ntr(2) tr(2) nsr sold fees bal by simp
qed


lemma sell_effect:
  assumes "sell s p cid amt mn = Inr (r, s')"
  obtains c seller_bal fee stx_out ledger where
    "curves s cid = Some c" "balance_get (balances s) (cid, p) = Some seller_bal"
    "r = (stx_out, fee)"
    "tokens_sold c \<le> total_supply c" "amt \<le> tokens_sold c" "amt \<le> seller_bal"
    "0 < amt" "\<not> graduated c"
    "virtual_stx c \<le> curve_k c div (total_supply c - tokens_sold c + amt)"
    "curve_k c div (total_supply c - tokens_sold c + amt) - virtual_stx c \<le> stx_reserve c"
    "fee = (stx_reserve c - (curve_k c div (total_supply c - tokens_sold c + amt) - virtual_stx c))
             * fee_bps c div BPS_DENOM"
    "fee \<le> stx_reserve c - (curve_k c div (total_supply c - tokens_sold c + amt) - virtual_stx c)"
    "stx_out = stx_reserve c - (curve_k c div (total_supply c - tokens_sold c + amt) - virtual_stx c) - fee"
    "0 < stx_out" "mn \<le> stx_out"
    "s' = s\<lparr>stx := ledger,
            curves := (curves s)(cid \<mapsto> c\<lparr>
                stx_reserve := curve_k c div (total_supply c - tokens_sold c + amt) - virtual_stx c,
                tokens_sold := tokens_sold c - amt,
                accrued_fees := accrued_fees c + fee\<rparr>),
            balances := balance_set (balances s) (cid, p) (seller_bal - amt)\<rparr>"
proof -
  from assms obtain c seller_bal tr ntr q nsr gross m fee stx_out s1 sold fees bal where u:
    "curves s cid = Some c" "balance_get (balances s) (cid, p) = Some seller_bal"
    "sub_u (total_supply c) (tokens_sold c) = Inr tr" "add_u tr amt = Inr ntr"
    "div_u (curve_k c) ntr = Inr q" "sub_u q (virtual_stx c) = Inr nsr"
    "sub_u (stx_reserve c) nsr = Inr gross" "mul_u gross (fee_bps c) = Inr m"
    "div_u m BPS_DENOM = Inr fee" "sub_u gross fee = Inr stx_out"
    "\<not> graduated c" "0 < amt" "amt \<le> seller_bal" "0 < stx_out" "mn \<le> stx_out"
    "stx_transfer stx_out LaunchpadContract p s = Inr s1"
    "sub_u (tokens_sold c) amt = Inr sold" "add_u (accrued_fees c) fee = Inr fees"
    "sub_u seller_bal amt = Inr bal"
    "s' = s1\<lparr>curves := (curves s1)(cid \<mapsto> c\<lparr>stx_reserve := nsr, tokens_sold := sold, accrued_fees := fees\<rparr>),
            balances := balance_set (balances s1) (cid, p) bal\<rparr>"
    "r = (stx_out, fee)"
    by (rule sell_unfold)
  have tr: "tokens_sold c \<le> total_supply c" "tr = total_supply c - tokens_sold c"
    using u(3) by (simp_all add: sub_u_Inr_iff)
  have ntr: "ntr = total_supply c - tokens_sold c + amt"
    using u(4) unfolding tr(2) by (simp add: add_u_Inr_iff)
  have q: "q = curve_k c div (total_supply c - tokens_sold c + amt)"
    using u(5) unfolding ntr by (simp add: div_u_Inr_iff)
  have nsr0: "virtual_stx c \<le> q" "nsr = q - virtual_stx c"
    using u(6) by (simp_all add: sub_u_Inr_iff)
  have nsr: "nsr = curve_k c div (total_supply c - tokens_sold c + amt) - virtual_stx c"
    using nsr0(2) unfolding q .
  have gross0: "nsr \<le> stx_reserve c" "gross = stx_reserve c - nsr"
    using u(7) by (simp_all add: sub_u_Inr_iff)
  have gross: "gross = stx_reserve c -
      (curve_k c div (total_supply c - tokens_sold c + amt) - virtual_stx c)"
    using gross0(2) unfolding nsr .
  have m: "m = gross * fee_bps c" using u(8) by (simp add: mul_u_Inr_iff)
  have fee0: "fee = m div BPS_DENOM" using u(9) by (simp add: div_u_Inr_iff)
  have out0: "fee \<le> gross" "stx_out = gross - fee" using u(10) by (simp_all add: sub_u_Inr_iff)
  have s1: "s1 = s\<lparr>stx := (stx s)(LaunchpadContract := stx s LaunchpadContract - stx_out,
              p := stx s p + stx_out)\<rparr>"
    using u(16) by (simp add: stx_transfer_Inr_iff)
  have sold: "amt \<le> tokens_sold c" "sold = tokens_sold c - amt"
    using u(17) by (simp_all add: sub_u_Inr_iff)
  have fees: "fees = accrued_fees c + fee" using u(18) by (simp add: add_u_Inr_iff)
  have bal: "bal = seller_bal - amt" using u(19) by (simp add: sub_u_Inr_iff)
  have st: "s' = s\<lparr>stx := stx s1,
            curves := (curves s)(cid \<mapsto> c\<lparr>stx_reserve := nsr, tokens_sold := sold,
                accrued_fees := fees\<rparr>),
            balances := balance_set (balances s) (cid, p) bal\<rparr>"
    unfolding u(20) s1 by simp
  show thesis
  proof (rule that [of c seller_bal stx_out fee "stx s1"])
    show "curves s cid = Some c" by (rule u(1))
    show "balance_get (balances s) (cid, p) = Some seller_bal" by (rule u(2))
    show "r = (stx_out, fee)" by (rule u(21))
    show "tokens_sold c \<le> total_supply c" by (rule tr(1))
    show "amt \<le> tokens_sold c" by (rule sold(1))
    show "amt \<le> seller_bal" by (rule u(13))
    show "0 < amt" by (rule u(12))
    show "\<not> graduated c" by (rule u(11))
    show "virtual_stx c \<le> curve_k c div (total_supply c - tokens_sold c + amt)"
      using nsr0(1) unfolding q .
    show "curve_k c div (total_supply c - tokens_sold c + amt) - virtual_stx c \<le> stx_reserve c"
      using gross0(1) unfolding nsr .
    show "fee = (stx_reserve c - (curve_k c div (total_supply c - tokens_sold c + amt) - virtual_stx c))
             * fee_bps c div BPS_DENOM"
      using fee0 unfolding m gross .
    show "fee \<le> stx_reserve c - (curve_k c div (total_supply c - tokens_sold c + amt) - virtual_stx c)"
      using out0(1) unfolding gross .
    show "stx_out = stx_reserve c - (curve_k c div (total_supply c - tokens_sold c + amt) - virtual_stx c) - fee"
      using out0(2) unfolding gross .
    show "0 < stx_out" by (rule u(14))
    show "mn \<le> stx_out" by (rule u(15))
    show "s' = s\<lparr>stx := stx s1,
            curves := (curves s)(cid \<mapsto> c\<lparr>
                stx_reserve := curve_k c div (total_supply c - tokens_sold c + amt) - virtual_stx c,
                tokens_sold := tokens_sold c - amt,
                accrued_fees := accrued_fees c + fee\<rparr>),
            balances := balance_set (balances s) (cid, p) (seller_bal - amt)\<rparr>"
      using st unfolding nsr sold(2) fees bal .
  qed
qed

lemma transfer_effect:
  assumes "transfer s p cid amt rcp = Inr (r, s')"
  obtains sender_bal where
    "balance_get (balances s) (cid, p) = Some sender_bal" "curves s cid \<noteq> None"
    "0 < amt" "p \<noteq> rcp" "amt \<le> sender_bal"
    "s' = s\<lparr>balances := balance_set (balance_set (balances s) (cid, p) (sender_bal - amt))
                 (cid, rcp) (get_balance s cid rcp + amt)\<rparr>"
proof -
  from assms obtain sb where sb: "balance_get (balances s) (cid, p) = Some sb"
    by (auto simp: transfer_def split: option.splits)
  show thesis
    using assms sb that [of sb]
    by (simp add: transfer_def bind_r_Inr_iff asserts_Inr_iff sub_u_Inr_iff add_u_Inr_iff Let_def)
qed


lemma launch_effect:
  assumes "launch s p h nm symb = Inr (r, s')"
  shows "r = total_curves s \<and> is_registered s p \<and> agent_curve s p = None \<and>
     0 < default_total_supply s \<and> 0 < default_virtual_stx s \<and>
     s' = s\<lparr>curves := (curves s)(total_curves s \<mapsto>
                   \<lparr> creator = p, curve_name = nm, curve_symbol = symb,
                     total_supply = default_total_supply s,
                     virtual_stx = default_virtual_stx s,
                     curve_k = default_virtual_stx s * default_total_supply s,
                     stx_reserve = 0, tokens_sold = 0,
                     graduation_stx = default_graduation_stx s,
                     fee_bps = default_fee_bps s, accrued_fees = 0,
                     graduated = False, created_at = h,
                     creator_share_bps = default_creator_share_bps s \<rparr>),
               agent_curve := (agent_curve s)(p \<mapsto> total_curves s),
               total_curves := total_curves s + 1\<rparr>"
  using assms
  by (auto simp: launch_def bind_r_Inr_iff asserts_Inr_iff mul_u_Inr_iff add_u_Inr_iff Let_def)


lemma pay_via_curve_effect:
  assumes "pay_via_curve s p h cid amt nonce mn = Inr (r, s')"
  obtains s1 out fee where
    "receipts s nonce = None" "0 < amt" "buy s p cid amt mn = Inr ((out, fee), s1)"
    "r = (out, fee)"
    "s' = s1\<lparr>receipts := (receipts s1)(nonce \<mapsto>
                  \<lparr> payer = p, receipt_curve_id = cid,
                    receipt_stx_amount = amt, tokens_received = out,
                    receipt_fee = fee, receipt_block = h \<rparr>),
             total_payments := total_payments s1 + 1,
             total_volume_stx := total_volume_stx s1 + amt\<rparr>"
  using assms
  by (auto simp: pay_via_curve_def bind_r_Inr_iff asserts_Inr_iff add_u_Inr_iff Let_def split: prod.splits)

section \<open>The balance list\<close>

lemma balance_get_set:
  "balance_get (balance_set bs key v) key' = (if key' = key then Some v else balance_get bs key')"
  by (induction bs) auto

lemma balance_set_keys: "fst ` set (balance_set bs key v) = insert key (fst ` set bs)"
  by (induction bs key v rule: balance_set.induct) auto

lemma balance_set_distinct: "distinct (map fst bs) \<Longrightarrow> distinct (map fst (balance_set bs key v))"
proof (induction bs)
  case Nil
  then show ?case by simp
next
  case (Cons e bs)
  obtain k' v' where e: "e = (k', v')" by (cases e)
  show ?case
  proof (cases "k' = key")
    case True
    with Cons.prems e show ?thesis by simp
  next
    case False
    have "fst ` set (balance_set bs key v) = insert key (fst ` set bs)"
      by (rule balance_set_keys)
    with Cons False e show ?thesis by auto
  qed
qed

lemma balance_get_None: "balance_get bs key = None \<longleftrightarrow> key \<notin> fst ` set bs"
  by (induction bs key rule: balance_get.induct) force+

lemma curve_total_set:
  "curve_total (balance_set bs (c, h) v) cid +
     (if c = cid then (case balance_get bs (c, h) of None \<Rightarrow> 0 | Some a \<Rightarrow> a) else 0)
   = curve_total bs cid + (if c = cid then v else 0)"
  by (induction bs) (auto simp: curve_total_def)

lemma curve_total_other:
  "c \<noteq> cid \<Longrightarrow> curve_total (balance_set bs (c, h) v) cid = curve_total bs cid"
  using curve_total_set [of bs c h v cid] by simp

lemma curve_total_same:
  "curve_total (balance_set bs (cid, h) v) cid +
     (case balance_get bs (cid, h) of None \<Rightarrow> 0 | Some a \<Rightarrow> a) = curve_total bs cid + v"
  using curve_total_set [of bs cid h v cid] by simp

lemma curve_total_no_key:
  "\<forall>e \<in> set bs. fst (fst e) \<noteq> cid \<Longrightarrow> curve_total bs cid = 0"
  by (induction bs) (auto simp: curve_total_def)

lemma holders_sum:
  "distinct (map fst bs) \<Longrightarrow>
   sum_list (map (\<lambda>h. case balance_get bs (cid, h) of None \<Rightarrow> 0 | Some a \<Rightarrow> a)
     (map (\<lambda>e. snd (fst e)) (filter (\<lambda>e. fst (fst e) = cid) bs))) = curve_total bs cid"
proof (induction bs)
  case Nil
  then show ?case by (simp add: curve_total_def)
next
  case (Cons e bs)
  let ?H = "map (\<lambda>e. snd (fst e)) (filter (\<lambda>e. fst (fst e) = cid) bs)"
  let ?G = "\<lambda>bs' h'. case balance_get bs' (cid, h') of None \<Rightarrow> 0 | Some a \<Rightarrow> a"
  obtain c h v where e: "e = ((c, h), v)" by (cases e) auto
  from Cons.prems e have nin: "(c, h) \<notin> fst ` set bs" and d: "distinct (map fst bs)" by auto
  have same: "map (?G (e # bs)) ?H = map (?G bs) ?H"
  proof (rule map_cong [OF refl])
    fix h' assume "h' \<in> set ?H"
    then obtain e' where "e' \<in> set bs" "fst (fst e') = cid" "h' = snd (fst e')" by auto
    then have "(cid, h') \<in> fst ` set bs" by (metis image_eqI prod.collapse)
    with nin have "(c, h) \<noteq> (cid, h')" by auto
    then show "?G (e # bs) h' = ?G bs h'" using e by auto
  qed
  have IH: "sum_list (map (?G bs) ?H) = curve_total bs cid" by (rule Cons.IH [OF d])
  show ?case
  proof (cases "c = cid")
    case True
    have 1: "map (\<lambda>e. snd (fst e)) (filter (\<lambda>e. fst (fst e) = cid) (e # bs)) = h # ?H"
      using True e by simp
    have 2: "?G (e # bs) h = v" using e True by simp
    have 3: "curve_total (e # bs) cid = v + curve_total bs cid"
      using e True by (simp add: curve_total_def)
    have "sum_list (map (?G (e # bs)) (h # ?H)) = v + sum_list (map (?G bs) ?H)"
      unfolding list.map sum_list.Cons same 2 ..
    then show ?thesis unfolding 1 3 IH .
  next
    case False
    have 1: "map (\<lambda>e. snd (fst e)) (filter (\<lambda>e. fst (fst e) = cid) (e # bs)) = ?H"
      using False e by simp
    have 3: "curve_total (e # bs) cid = curve_total bs cid"
      using e False by (simp add: curve_total_def)
    show ?thesis unfolding 1 3 same IH ..
  qed
qed

lemma holders_distinct:
  "distinct (map fst bs) \<Longrightarrow>
   distinct (map (\<lambda>e. snd (fst e)) (filter (\<lambda>e. fst (fst e) = cid) bs))"
proof (induction bs)
  case Nil
  then show ?case by simp
next
  case (Cons e bs)
  obtain c h v where e: "e = ((c, h), v)" by (cases e) auto
  from Cons.prems e have nin: "(c, h) \<notin> fst ` set bs" and d: "distinct (map fst bs)" by auto
  have "h \<notin> (\<lambda>e. snd (fst e)) ` {x \<in> set bs. fst (fst x) = c}"
  proof
    assume "h \<in> (\<lambda>e. snd (fst e)) ` {x \<in> set bs. fst (fst x) = c}"
    then obtain e' where "e' \<in> set bs" "fst (fst e') = c" "h = snd (fst e')" by auto
    then have "(c, h) \<in> fst ` set bs" by (metis image_eqI prod.collapse)
    with nin show False by simp
  qed
  with Cons.IH [OF d] e show ?case by auto
qed

section \<open>The state invariant\<close>

lemma state_ok_frame:
  "state_ok s \<Longrightarrow> curves s' = curves s \<Longrightarrow> balances s' = balances s \<Longrightarrow>
   total_curves s' = total_curves s \<Longrightarrow> state_ok s'"
  by (simp add: state_ok_def)

lemma curve_ok_buy:
  assumes "curve_ok c"
    and "ntr = curve_k c div (virtual_stx c + nsr)"
    and "ntr \<le> total_supply c - tokens_sold c"
    and "out = total_supply c - tokens_sold c - ntr"
    and "g \<longrightarrow> graduation_stx c \<le> nsr \<and> f = 0"
  shows "curve_ok (c\<lparr>stx_reserve := nsr, tokens_sold := tokens_sold c + out,
            accrued_fees := f, graduated := g\<rparr>)"
proof -
  from assms(1) have le: "tokens_sold c \<le> total_supply c" by (simp add: curve_ok_def)
  with assms(3,4) have "total_supply c - (tokens_sold c + out) = ntr" by simp
  with assms(1,2,5) le assms(3,4) show ?thesis by (auto simp: curve_ok_def)
qed

lemma curve_ok_sell:
  assumes "curve_ok c" and "amt \<le> tokens_sold c"
    and "q = curve_k c div (total_supply c - tokens_sold c + amt)"
    and "virtual_stx c \<le> q" and "\<not> graduated c"
  shows "curve_ok (c\<lparr>stx_reserve := q - virtual_stx c, tokens_sold := tokens_sold c - amt,
            accrued_fees := f\<rparr>)"
proof -
  from assms(1) have le: "tokens_sold c \<le> total_supply c" by (simp add: curve_ok_def)
  with assms(2) have "total_supply c - (tokens_sold c - amt) = total_supply c - tokens_sold c + amt"
    by simp
  with assms le show ?thesis by (auto simp: curve_ok_def)
qed

lemma curve_ok_launch:
  assumes "0 < vs" and "0 < ts"
  shows "curve_ok \<lparr> creator = p, curve_name = nm, curve_symbol = symb,
                     total_supply = ts, virtual_stx = vs, curve_k = vs * ts,
                     stx_reserve = 0, tokens_sold = 0, graduation_stx = g,
                     fee_bps = fb, accrued_fees = 0, graduated = False, created_at = h,
                     creator_share_bps = cs \<rparr>"
  using assms by (simp add: curve_ok_def)

lemma curve_ok_graduate:
  "curve_ok c \<Longrightarrow> graduation_stx c \<le> stx_reserve c \<Longrightarrow>
   curve_ok (c\<lparr>graduated := True, accrued_fees := 0\<rparr>)"
  by (auto simp: curve_ok_def)

lemma state_ok_curve_update:
  assumes ok: "state_ok s" and c: "curves s cid = Some c" and c': "curve_ok c'"
    and sold: "tokens_sold c' = tokens_sold c"
  shows "state_ok (s\<lparr>stx := ledger, curves := (curves s)(cid \<mapsto> c')\<rparr>)"
  using assms by (auto simp: state_ok_def)

lemma state_ok_balances:
  assumes ok: "state_ok s" and c: "curves s cid = Some c" and c': "curve_ok c'"
    and d: "distinct (map fst bs')"
    and keys: "\<forall>e \<in> set bs'. fst (fst e) = cid \<or> fst e \<in> fst ` set (balances s)"
    and others: "\<forall>cid'. cid' \<noteq> cid \<longrightarrow> curve_total bs' cid' = curve_total (balances s) cid'"
    and total: "curve_total bs' cid = tokens_sold c'"
  shows "state_ok (s\<lparr>stx := ledger, curves := (curves s)(cid \<mapsto> c'), balances := bs'\<rparr>)"
proof -
  from ok c have lt: "cid < total_curves s" by (simp add: state_ok_def)
  have k: "\<forall>e \<in> set bs'. fst (fst e) < total_curves s"
  proof
    fix e assume "e \<in> set bs'"
    with keys have "fst (fst e) = cid \<or> fst e \<in> fst ` set (balances s)" by simp
    with ok lt show "fst (fst e) < total_curves s" by (auto simp: state_ok_def)
  qed
  have o: "\<And>cid' c''. cid' \<noteq> cid \<Longrightarrow> curves s cid' = Some c'' \<Longrightarrow>
      curve_total bs' cid' = tokens_sold c''"
    using ok others by (simp add: state_ok_def)
  show ?thesis
    unfolding state_ok_def
    using ok lt c' total k o d by (auto simp: state_ok_def)
qed

lemma state_ok_trade:
  assumes ok: "state_ok s" and c: "curves s cid = Some c" and c': "curve_ok c'"
    and total: "curve_total (balance_set (balances s) (cid, p) b) cid = tokens_sold c'"
  shows "state_ok (s\<lparr>stx := ledger, curves := (curves s)(cid \<mapsto> c'),
            balances := balance_set (balances s) (cid, p) b\<rparr>)"
proof (rule state_ok_balances [OF ok c c' _ _ _ total])
  from ok show "distinct (map fst (balance_set (balances s) (cid, p) b))"
    by (simp add: balance_set_distinct state_ok_def)
  show "\<forall>e\<in>set (balance_set (balances s) (cid, p) b).
       fst (fst e) = cid \<or> fst e \<in> fst ` set (balances s)"
  proof
    fix e assume "e \<in> set (balance_set (balances s) (cid, p) b)"
    then have "fst e \<in> fst ` set (balance_set (balances s) (cid, p) b)" by simp
    then have "fst e = (cid, p) \<or> fst e \<in> fst ` set (balances s)"
      unfolding balance_set_keys by simp
    then show "fst (fst e) = cid \<or> fst e \<in> fst ` set (balances s)" by auto
  qed
  show "\<forall>cid'. cid' \<noteq> cid \<longrightarrow>
      curve_total (balance_set (balances s) (cid, p) b) cid' = curve_total (balances s) cid'"
    by (simp add: curve_total_other)
qed

lemma state_ok_buy:
  assumes ok: "state_ok s" and b: "buy s p cid amt mn = Inr (r, s')"
  shows "state_ok s'"
proof -
  from b obtain c fee out ledger where e:
    "curves s cid = Some c"
    "curve_k c div (virtual_stx c + (stx_reserve c + (amt - fee))) \<le> total_supply c - tokens_sold c"
    "out = total_supply c - tokens_sold c - curve_k c div (virtual_stx c + (stx_reserve c + (amt - fee)))"
    "s' = s\<lparr>stx := ledger,
            curves := (curves s)(cid \<mapsto> c\<lparr>stx_reserve := stx_reserve c + (amt - fee),
                tokens_sold := tokens_sold c + out,
                accrued_fees := (if graduation_stx c \<le> stx_reserve c + (amt - fee) then 0
                                 else accrued_fees c + fee),
                graduated := (graduation_stx c \<le> stx_reserve c + (amt - fee))\<rparr>),
            balances := balance_set (balances s) (cid, p) (get_balance s cid p + out)\<rparr>"
    by (rule buy_effect)
  from ok e(1) have cok: "curve_ok c" and ct: "curve_total (balances s) cid = tokens_sold c"
    by (simp_all add: state_ok_def)
  have c': "curve_ok (c\<lparr>stx_reserve := stx_reserve c + (amt - fee),
                tokens_sold := tokens_sold c + out,
                accrued_fees := (if graduation_stx c \<le> stx_reserve c + (amt - fee) then 0
                                 else accrued_fees c + fee),
                graduated := (graduation_stx c \<le> stx_reserve c + (amt - fee))\<rparr>)"
    by (rule curve_ok_buy [OF cok refl e(2) e(3)]) simp
  have "curve_total (balance_set (balances s) (cid, p) (get_balance s cid p + out)) cid
          + get_balance s cid p = curve_total (balances s) cid + (get_balance s cid p + out)"
    unfolding get_balance_def by (rule curve_total_same)
  with ct have total: "curve_total (balance_set (balances s) (cid, p) (get_balance s cid p + out)) cid
      = tokens_sold (c\<lparr>stx_reserve := stx_reserve c + (amt - fee),
                tokens_sold := tokens_sold c + out,
                accrued_fees := (if graduation_stx c \<le> stx_reserve c + (amt - fee) then 0
                                 else accrued_fees c + fee),
                graduated := (graduation_stx c \<le> stx_reserve c + (amt - fee))\<rparr>)"
    by simp
  show ?thesis unfolding e(4) by (rule state_ok_trade [OF ok e(1) c' total])
qed

lemma state_ok_sell:
  assumes ok: "state_ok s" and b: "sell s p cid amt mn = Inr (r, s')"
  shows "state_ok s'"
proof -
  from b obtain c seller_bal fee ledger where e:
    "curves s cid = Some c" "balance_get (balances s) (cid, p) = Some seller_bal"
    "amt \<le> tokens_sold c" "amt \<le> seller_bal" "\<not> graduated c"
    "virtual_stx c \<le> curve_k c div (total_supply c - tokens_sold c + amt)"
    "s' = s\<lparr>stx := ledger,
            curves := (curves s)(cid \<mapsto> c\<lparr>
                stx_reserve := curve_k c div (total_supply c - tokens_sold c + amt) - virtual_stx c,
                tokens_sold := tokens_sold c - amt,
                accrued_fees := accrued_fees c + fee\<rparr>),
            balances := balance_set (balances s) (cid, p) (seller_bal - amt)\<rparr>"
    by (rule sell_effect)
  from ok e(1) have cok: "curve_ok c" and ct: "curve_total (balances s) cid = tokens_sold c"
    by (simp_all add: state_ok_def)
  have c': "curve_ok (c\<lparr>
                stx_reserve := curve_k c div (total_supply c - tokens_sold c + amt) - virtual_stx c,
                tokens_sold := tokens_sold c - amt,
                accrued_fees := accrued_fees c + fee\<rparr>)"
    by (rule curve_ok_sell [OF cok e(3) refl e(6) e(5)])
  have "curve_total (balance_set (balances s) (cid, p) (seller_bal - amt)) cid
          + seller_bal = curve_total (balances s) cid + (seller_bal - amt)"
    using curve_total_same [of "balances s" cid p "seller_bal - amt"] e(2) by simp
  with ct e(3) e(4) have total: "curve_total (balance_set (balances s) (cid, p) (seller_bal - amt)) cid
      = tokens_sold (c\<lparr>
                stx_reserve := curve_k c div (total_supply c - tokens_sold c + amt) - virtual_stx c,
                tokens_sold := tokens_sold c - amt,
                accrued_fees := accrued_fees c + fee\<rparr>)"
    by simp
  show ?thesis unfolding e(7) by (rule state_ok_trade [OF ok e(1) c' total])
qed

lemma state_ok_transfer:
  assumes ok: "state_ok s" and b: "transfer s p cid amt rcp = Inr (r, s')"
  shows "state_ok s'"
proof -
  from b obtain sender_bal where e:
    "balance_get (balances s) (cid, p) = Some sender_bal" "curves s cid \<noteq> None"
    "p \<noteq> rcp" "amt \<le> sender_bal"
    "s' = s\<lparr>balances := balance_set (balance_set (balances s) (cid, p) (sender_bal - amt))
                 (cid, rcp) (get_balance s cid rcp + amt)\<rparr>"
    by (rule transfer_effect)
  from e(2) obtain c where c: "curves s cid = Some c" by auto
  from ok c have cok: "curve_ok c" and ct: "curve_total (balances s) cid = tokens_sold c"
    by (simp_all add: state_ok_def)
  let ?b1 = "balance_set (balances s) (cid, p) (sender_bal - amt)"
  let ?b2 = "balance_set ?b1 (cid, rcp) (get_balance s cid rcp + amt)"
  have t1: "curve_total ?b1 cid + sender_bal = curve_total (balances s) cid + (sender_bal - amt)"
    using curve_total_same [of "balances s" cid p "sender_bal - amt"] e(1) by simp
  have g: "(case balance_get ?b1 (cid, rcp) of None \<Rightarrow> 0 | Some a \<Rightarrow> a) = get_balance s cid rcp"
    using e(3) by (simp add: balance_get_set get_balance_def)
  have t2: "curve_total ?b2 cid + get_balance s cid rcp
      = curve_total ?b1 cid + (get_balance s cid rcp + amt)"
    using curve_total_same [of ?b1 cid rcp "get_balance s cid rcp + amt"] unfolding g .
  from t1 t2 e(4) ct have total: "curve_total ?b2 cid = tokens_sold c" by simp
  from ok have d: "distinct (map fst ?b2)"
    by (simp add: balance_set_distinct state_ok_def)
  have keys: "\<forall>e\<in>set ?b2. fst (fst e) = cid \<or> fst e \<in> fst ` set (balances s)"
  proof
    fix e assume "e \<in> set ?b2"
    then have "fst e \<in> fst ` set ?b2" by simp
    then have "fst e = (cid, rcp) \<or> fst e = (cid, p) \<or> fst e \<in> fst ` set (balances s)"
      unfolding balance_set_keys by auto
    then show "fst (fst e) = cid \<or> fst e \<in> fst ` set (balances s)" by auto
  qed
  have others: "\<forall>cid'. cid' \<noteq> cid \<longrightarrow> curve_total ?b2 cid' = curve_total (balances s) cid'"
    by (simp add: curve_total_other)
  have "state_ok (s\<lparr>stx := stx s, curves := (curves s)(cid \<mapsto> c), balances := ?b2\<rparr>)"
    by (rule state_ok_balances [OF ok c cok d keys others total])
  moreover have "(curves s)(cid \<mapsto> c) = curves s" using c by (rule map_upd_triv)
  ultimately show ?thesis unfolding e(5) by simp
qed

lemma state_ok_graduate_internal:
  assumes ok: "state_ok s" and b: "graduate_internal s cid = Inr (r, s')"
  shows "state_ok s'"
proof -
  from b obtain c ledger where e: "curves s cid = Some c" "graduation_stx c \<le> stx_reserve c"
    "s' = s\<lparr>stx := ledger, curves := (curves s)(cid \<mapsto> c\<lparr>graduated := True, accrued_fees := 0\<rparr>)\<rparr>"
    by (rule graduate_internal_Inr)
  from ok e(1) have cok: "curve_ok c" by (simp add: state_ok_def)
  have c': "curve_ok (c\<lparr>graduated := True, accrued_fees := 0\<rparr>)"
    by (rule curve_ok_graduate [OF cok e(2)])
  show ?thesis unfolding e(3)
    by (rule state_ok_curve_update [OF ok e(1) c']) simp
qed

lemma state_ok_launch:
  assumes ok: "state_ok s" and b: "launch s p h nm symb = Inr (r, s')"
  shows "state_ok s'"
proof -
  let ?c = "\<lparr> creator = p, curve_name = nm, curve_symbol = symb,
                     total_supply = default_total_supply s,
                     virtual_stx = default_virtual_stx s,
                     curve_k = default_virtual_stx s * default_total_supply s,
                     stx_reserve = 0, tokens_sold = 0,
                     graduation_stx = default_graduation_stx s,
                     fee_bps = default_fee_bps s, accrued_fees = 0,
                     graduated = False, created_at = h,
                     creator_share_bps = default_creator_share_bps s \<rparr>"
  from launch_effect [OF b] have pos: "0 < default_total_supply s" "0 < default_virtual_stx s"
    and s': "s' = s\<lparr>curves := (curves s)(total_curves s \<mapsto> ?c),
               agent_curve := (agent_curve s)(p \<mapsto> total_curves s),
               total_curves := total_curves s + 1\<rparr>"
    by simp_all
  have cok: "curve_ok ?c" by (rule curve_ok_launch [OF pos(2) pos(1)])
  from ok have "\<forall>e \<in> set (balances s). fst (fst e) \<noteq> total_curves s"
    by (auto simp: state_ok_def)
  then have z: "curve_total (balances s) (total_curves s) = 0" by (rule curve_total_no_key)
  show ?thesis
    unfolding s' state_ok_def using ok cok z by (auto simp: state_ok_def less_Suc_eq)
qed

lemma state_ok_pay_via_curve:
  assumes ok: "state_ok s" and b: "pay_via_curve s p h cid amt nonce mn = Inr (r, s')"
  shows "state_ok s'"
proof -
  from b obtain s1 out fee where e: "buy s p cid amt mn = Inr ((out, fee), s1)"
    "s' = s1\<lparr>receipts := (receipts s1)(nonce \<mapsto>
                  \<lparr> payer = p, receipt_curve_id = cid,
                    receipt_stx_amount = amt, tokens_received = out,
                    receipt_fee = fee, receipt_block = h \<rparr>),
             total_payments := total_payments s1 + 1,
             total_volume_stx := total_volume_stx s1 + amt\<rparr>"
    by (rule pay_via_curve_effect)
  have "state_ok s1" by (rule state_ok_buy [OF ok e(1)])
  then show ?thesis unfolding e(2) by (rule state_ok_frame) simp_all
qed

lemma other_calls_frame:
  assumes "run s p h c = Inr s'"
    and "c = RegisterAgent nm url price astx asip \<or> c = SetDefaults a1 a2 a3 a4 a5 \<or>
         c = SetProtocolFeeRecipient q \<or> c = TransferAdmin q \<or> c = AcceptAdmin \<or>
         c = RouterTransferAdmin q \<or> c = RouterAcceptAdmin"
  shows "curves s' = curves s \<and> balances s' = balances s \<and> total_curves s' = total_curves s \<and>
         receipts s' = receipts s \<and> total_payments s' = total_payments s \<and>
         total_volume_stx s' = total_volume_stx s \<and> stx s' = stx s"
  using assms
  by (auto simp: committed_Inr_iff register_agent_def set_defaults_def
      set_protocol_fee_recipient_def transfer_admin_def accept_admin_def
      router_transfer_admin_def router_accept_admin_def
      bind_r_Inr_iff asserts_Inr_iff add_u_Inr_iff split: option.splits if_splits)

lemma state_ok_run:
  assumes ok: "state_ok s" and r: "run s p h c = Inr s'"
  shows "state_ok s'"
proof (cases c)
  case (Launch nm symb)
  with r ok show ?thesis by (auto simp: committed_Inr_iff dest: state_ok_launch)
next
  case (Buy cid amt mn)
  with r ok show ?thesis by (auto simp: committed_Inr_iff dest: state_ok_buy)
next
  case (Sell cid amt mn)
  with r ok show ?thesis by (auto simp: committed_Inr_iff dest: state_ok_sell)
next
  case (Transfer cid amt rcp)
  with r ok show ?thesis by (auto simp: committed_Inr_iff dest: state_ok_transfer)
next
  case (Graduate cid)
  with r ok show ?thesis
    by (auto simp: committed_Inr_iff graduate_def bind_r_Inr_iff dest: state_ok_graduate_internal)
next
  case (PayViaCurve cid amt n mn)
  with r ok show ?thesis by (auto simp: committed_Inr_iff dest: state_ok_pay_via_curve)
next
  case (RegisterAgent nm url price astx asip)
  with r other_calls_frame [OF r, of nm url price astx asip] ok show ?thesis
    by (auto intro: state_ok_frame)
next
  case (SetDefaults a1 a2 a3 a4 a5)
  with r other_calls_frame [OF r, of _ _ _ _ _ a1 a2 a3 a4 a5] ok show ?thesis
    by (auto intro: state_ok_frame)
next
  case (SetProtocolFeeRecipient q)
  with r other_calls_frame [OF r, of _ _ _ _ _ _ _ _ _ _ q] ok show ?thesis
    by (auto intro: state_ok_frame)
next
  case (TransferAdmin q)
  with r other_calls_frame [OF r, of _ _ _ _ _ _ _ _ _ _ q] ok show ?thesis
    by (auto intro: state_ok_frame)
next
  case AcceptAdmin
  with r other_calls_frame [OF r] ok show ?thesis
    by (auto intro: state_ok_frame)
next
  case (RouterTransferAdmin q)
  with r other_calls_frame [OF r, of _ _ _ _ _ _ _ _ _ _ q] ok show ?thesis
    by (auto intro: state_ok_frame)
next
  case RouterAcceptAdmin
  with r other_calls_frame [OF r] ok show ?thesis
    by (auto intro: state_ok_frame)
qed

lemma state_ok_exec: "state_ok s \<Longrightarrow> state_ok (exec s p h c)"
  by (cases "run s p h c") (auto simp: exec_def dest: state_ok_run)

lemma state_ok_initial: "state_ok (initial_state ledger deployer)"
  by (simp add: state_ok_def initial_state_def)

lemma reachable_state_ok: "reachable s \<Longrightarrow> state_ok s"
  by (induction rule: reachable.induct) (simp_all add: state_ok_initial state_ok_exec)

section \<open>Evaluating the concrete histories\<close>

lemmas arith_defs = add_u_def sub_u_def mul_u_def div_u_def uint_max_def bind_r_def asserts_def
  Let_def BPS_DENOM_def PRICE_SCALE_def MAX_FEE_BPS_def MAX_CREATOR_SHARE_BPS_def
  REGISTRY_MAX_NAME_LEN_def STATUS_ACTIVE_def

lemmas err_defs = ERR_NOT_REGISTERED_def ERR_ALREADY_LAUNCHED_def ERR_CURVE_NOT_FOUND_def
  ERR_GRADUATED_def ERR_ZERO_AMOUNT_def ERR_INSUFFICIENT_BALANCE_def ERR_SLIPPAGE_def
  ERR_NOT_ADMIN_def ERR_OVERFLOW_def ERR_SELF_TRANSFER_def ERR_INVALID_PARAMS_def
  ERR_NOT_GRADUATED_def ERR_SOLD_OUT_def ERR_INVALID_FEE_def ERR_NONCE_USED_def
  ROUTER_ERR_ZERO_AMOUNT_def ERR_UNAUTHORIZED_def ERR_ALREADY_REGISTERED_def
  ERR_NAME_TOO_LONG_def

lemmas call_defs = exec_def committed_def register_agent_def launch_def buy_def sell_def
  transfer_def graduate_def graduate_internal_def set_defaults_def pay_via_curve_def
  stx_transfer_def get_balance_def is_registered_def

lemma registered_state_eq:
  "registered_state = \<lparr> stx = wallet_funds,
       agents = [Wallet 1 \<mapsto> \<lparr> agent_name = ''TestAgent'',
                  description_url = ''https://example.com/agent'', status = 1,
                  registered_at = 1, total_tasks = 0, total_earned = 0,
                  price_per_task = 1000000, accepts_stx = True, accepts_sip010 = False \<rparr>],
       total_agents = 1,
       total_curves = 0, admin = Wallet 0, pending_admin = None,
       protocol_fee_recipient = Wallet 0,
       default_total_supply = 1000000000000000,
       default_virtual_stx = 10000000000,
       default_graduation_stx = 16667000000,
       default_fee_bps = 100,
       default_creator_share_bps = 8000,
       curves = Map.empty, balances = [], agent_curve = Map.empty,
       router_admin = Wallet 0, router_pending_admin = None,
       total_payments = 0, total_volume_stx = 0, receipts = Map.empty \<rparr>"
  by (simp add: registered_state_def initial_state_def call_defs arith_defs err_defs)

lemma launched_state_eq:
  "launched_state = \<lparr> stx = wallet_funds,
       agents = [Wallet 1 \<mapsto> \<lparr> agent_name = ''TestAgent'',
                  description_url = ''https://example.com/agent'', status = 1,
                  registered_at = 1, total_tasks = 0, total_earned = 0,
                  price_per_task = 1000000, accepts_stx = True, accepts_sip010 = False \<rparr>],
       total_agents = 1,
       total_curves = 1, admin = Wallet 0, pending_admin = None,
       protocol_fee_recipient = Wallet 0,
       default_total_supply = 1000000000000000,
       default_virtual_stx = 10000000000,
       default_graduation_stx = 16667000000,
       default_fee_bps = 100,
       default_creator_share_bps = 8000,
       curves = [0 \<mapsto> \<lparr>creator = Wallet 1, curve_name = ''TestToken'', curve_symbol = ''TST'',
           total_supply = 1000000000000000, virtual_stx = 10000000000,
           curve_k = 10000000000000000000000000, stx_reserve = 0, tokens_sold = 0,
           graduation_stx = 16667000000, fee_bps = 100, accrued_fees = 0,
           graduated = False, created_at = 2, creator_share_bps = 8000\<rparr>],
       balances = [], agent_curve = [Wallet 1 \<mapsto> 0],
       router_admin = Wallet 0, router_pending_admin = None,
       total_payments = 0, total_volume_stx = 0, receipts = Map.empty \<rparr>"
  by (simp add: launched_state_def registered_state_eq call_defs arith_defs err_defs)

lemma traded_state_curve:
  "curves traded_state 0 = Some \<lparr>creator = Wallet 1, curve_name = ''TestToken'', curve_symbol = ''TST'',
           total_supply = 1000000000000000, virtual_stx = 10000000000,
           curve_k = 10000000000000000000000000, stx_reserve = 990000,
           tokens_sold = 98990199971,
           graduation_stx = 16667000000, fee_bps = 100, accrued_fees = 10000,
           graduated = False, created_at = 2, creator_share_bps = 8000\<rparr>"
  by (simp add: traded_state_def launched_state_eq call_defs arith_defs err_defs wallet_funds_def)

lemma traded_state_balances:
  "balances traded_state = [((0, Wallet 2), 98990198971), ((0, Wallet 3), 1000)]"
  by (simp add: traded_state_def launched_state_eq call_defs arith_defs err_defs wallet_funds_def)

lemma reachable_registered: "reachable registered_state"
  unfolding registered_state_def by (intro reachable.intros)

lemma reachable_launched: "reachable launched_state"
  unfolding launched_state_def by (intro reachable.step reachable_registered)

lemma reachable_traded: "reachable traded_state"
  unfolding traded_state_def by (intro reachable.step reachable_launched)

section \<open>How a call changes the curve table\<close>

lemma curves_step_trade:
  assumes "curves s cid0 = Some c0" and "\<not> graduated c0"
    and "curves s' = (curves s)(cid0 \<mapsto>
          c0\<lparr>stx_reserve := sr, tokens_sold := sold, accrued_fees := fees, graduated := g\<rparr>)"
  shows "curves s' = curves s \<or>
     (\<exists>cid0 c0 sr sold fees g. curves s cid0 = Some c0 \<and> \<not> graduated c0 \<and>
        curves s' = (curves s)(cid0 \<mapsto>
          c0\<lparr>stx_reserve := sr, tokens_sold := sold, accrued_fees := fees, graduated := g\<rparr>)) \<or>
     (\<exists>c_new. curves s (total_curves s) = None \<and>
        curves s' = (curves s)(total_curves s \<mapsto> c_new))"
  using assms by blast

lemma curves_step:
  assumes ok: "state_ok s" and r: "run s p h call = Inr s'"
  shows "curves s' = curves s \<or>
     (\<exists>cid0 c0 sr sold fees g. curves s cid0 = Some c0 \<and> \<not> graduated c0 \<and>
        curves s' = (curves s)(cid0 \<mapsto>
          c0\<lparr>stx_reserve := sr, tokens_sold := sold, accrued_fees := fees, graduated := g\<rparr>)) \<or>
     (\<exists>c_new. curves s (total_curves s) = None \<and>
        curves s' = (curves s)(total_curves s \<mapsto> c_new))"
proof (cases call)
  case (Launch nm symb)
  with r obtain v where "launch s p h nm symb = Inr (v, s')" by (auto simp: committed_Inr_iff)
  from launch_effect [OF this] obtain c_new where
    "curves s' = (curves s)(total_curves s \<mapsto> c_new)" by (cases s) auto
  moreover from ok have "curves s (total_curves s) = None"
    by (cases "curves s (total_curves s)") (auto simp: state_ok_def)
  ultimately show ?thesis by blast
next
  case (Buy cid amt mn)
  with r obtain v where b: "buy s p cid amt mn = Inr (v, s')" by (auto simp: committed_Inr_iff)
  from b obtain c fee out ledger where "curves s cid = Some c" "\<not> graduated c"
    "s' = s\<lparr>stx := ledger,
            curves := (curves s)(cid \<mapsto> c\<lparr>stx_reserve := stx_reserve c + (amt - fee),
                tokens_sold := tokens_sold c + out,
                accrued_fees := (if graduation_stx c \<le> stx_reserve c + (amt - fee) then 0
                                 else accrued_fees c + fee),
                graduated := (graduation_stx c \<le> stx_reserve c + (amt - fee))\<rparr>),
            balances := balance_set (balances s) (cid, p) (get_balance s cid p + out)\<rparr>"
    by (rule buy_effect)
  then have "curves s cid = Some c" "\<not> graduated c"
    "curves s' = (curves s)(cid \<mapsto> c\<lparr>stx_reserve := stx_reserve c + (amt - fee),
                tokens_sold := tokens_sold c + out,
                accrued_fees := (if graduation_stx c \<le> stx_reserve c + (amt - fee) then 0
                                 else accrued_fees c + fee),
                graduated := (graduation_stx c \<le> stx_reserve c + (amt - fee))\<rparr>)"
    by simp_all
  then show ?thesis by (rule curves_step_trade)
next
  case (Sell cid amt mn)
  with r obtain v where b: "sell s p cid amt mn = Inr (v, s')" by (auto simp: committed_Inr_iff)
  from b obtain c seller_bal fee ledger where e: "curves s cid = Some c" "\<not> graduated c"
    "s' = s\<lparr>stx := ledger,
            curves := (curves s)(cid \<mapsto> c\<lparr>
                stx_reserve := curve_k c div (total_supply c - tokens_sold c + amt) - virtual_stx c,
                tokens_sold := tokens_sold c - amt,
                accrued_fees := accrued_fees c + fee\<rparr>),
            balances := balance_set (balances s) (cid, p) (seller_bal - amt)\<rparr>"
    by (rule sell_effect)
  have "c\<lparr>stx_reserve := curve_k c div (total_supply c - tokens_sold c + amt) - virtual_stx c,
                tokens_sold := tokens_sold c - amt,
                accrued_fees := accrued_fees c + fee\<rparr>
      = c\<lparr>stx_reserve := curve_k c div (total_supply c - tokens_sold c + amt) - virtual_stx c,
                tokens_sold := tokens_sold c - amt,
                accrued_fees := accrued_fees c + fee, graduated := False\<rparr>"
    using e(2) by (cases c) simp
  then have "curves s' = (curves s)(cid \<mapsto>
      c\<lparr>stx_reserve := curve_k c div (total_supply c - tokens_sold c + amt) - virtual_stx c,
                tokens_sold := tokens_sold c - amt,
                accrued_fees := accrued_fees c + fee, graduated := False\<rparr>)"
    unfolding e(3) by simp
  with e(1) e(2) show ?thesis by (rule curves_step_trade)
next
  case (Transfer cid amt rcp)
  with r obtain v where b: "transfer s p cid amt rcp = Inr (v, s')"
    by (auto simp: committed_Inr_iff)
  then show ?thesis by (rule transfer_effect) simp
next
  case (Graduate cid)
  with r obtain v where b: "graduate_internal s cid = Inr (v, s')"
    by (auto simp: committed_Inr_iff graduate_def bind_r_Inr_iff)
  from b obtain c ledger where e: "curves s cid = Some c" "\<not> graduated c"
    "s' = s\<lparr>stx := ledger, curves := (curves s)(cid \<mapsto> c\<lparr>graduated := True, accrued_fees := 0\<rparr>)\<rparr>"
    by (rule graduate_internal_Inr)
  have "c\<lparr>graduated := True, accrued_fees := 0\<rparr>
      = c\<lparr>stx_reserve := stx_reserve c, tokens_sold := tokens_sold c, accrued_fees := 0,
          graduated := True\<rparr>"
    by (cases c) simp
  moreover have "curves s' = (curves s)(cid \<mapsto> c\<lparr>graduated := True, accrued_fees := 0\<rparr>)"
    unfolding e(3) by simp
  ultimately have "curves s' = (curves s)(cid \<mapsto>
      c\<lparr>stx_reserve := stx_reserve c, tokens_sold := tokens_sold c, accrued_fees := 0,
          graduated := True\<rparr>)"
    by (simp only:)
  with e(1) e(2) show ?thesis by (rule curves_step_trade)
next
  case (PayViaCurve cid amt n mn)
  with r obtain v where "pay_via_curve s p h cid amt n mn = Inr (v, s')"
    by (auto simp: committed_Inr_iff)
  then obtain s1 out fee where b: "buy s p cid amt mn = Inr ((out, fee), s1)"
    and s': "curves s' = curves s1"
    by (rule pay_via_curve_effect) simp
  from b obtain c fee' out' ledger where "curves s cid = Some c" "\<not> graduated c"
    "s1 = s\<lparr>stx := ledger,
            curves := (curves s)(cid \<mapsto> c\<lparr>stx_reserve := stx_reserve c + (amt - fee'),
                tokens_sold := tokens_sold c + out',
                accrued_fees := (if graduation_stx c \<le> stx_reserve c + (amt - fee') then 0
                                 else accrued_fees c + fee'),
                graduated := (graduation_stx c \<le> stx_reserve c + (amt - fee'))\<rparr>),
            balances := balance_set (balances s) (cid, p) (get_balance s cid p + out')\<rparr>"
    by (rule buy_effect)
  with s' have "curves s cid = Some c" "\<not> graduated c"
    "curves s' = (curves s)(cid \<mapsto> c\<lparr>stx_reserve := stx_reserve c + (amt - fee'),
                tokens_sold := tokens_sold c + out',
                accrued_fees := (if graduation_stx c \<le> stx_reserve c + (amt - fee') then 0
                                 else accrued_fees c + fee'),
                graduated := (graduation_stx c \<le> stx_reserve c + (amt - fee'))\<rparr>)"
    by simp_all
  then show ?thesis by (rule curves_step_trade)
next
  case (RegisterAgent nm url price astx asip)
  with other_calls_frame [OF r, of nm url price astx asip] show ?thesis by simp
next
  case (SetDefaults a1 a2 a3 a4 a5)
  with other_calls_frame [OF r, of _ _ _ _ _ a1 a2 a3 a4 a5] show ?thesis by simp
next
  case (SetProtocolFeeRecipient q)
  with other_calls_frame [OF r, of _ _ _ _ _ _ _ _ _ _ q] show ?thesis by simp
next
  case (TransferAdmin q)
  with other_calls_frame [OF r, of _ _ _ _ _ _ _ _ _ _ q] show ?thesis by simp
next
  case AcceptAdmin
  with other_calls_frame [OF r] show ?thesis by simp
next
  case (RouterTransferAdmin q)
  with other_calls_frame [OF r, of _ _ _ _ _ _ _ _ _ _ q] show ?thesis by simp
next
  case RouterAcceptAdmin
  with other_calls_frame [OF r] show ?thesis by simp
qed

lemma curve_frame_run:
  assumes ok: "state_ok s" and r: "run s p h call = Inr s'" and c: "curves s cid = Some c"
  shows "\<exists>c'. curves s' cid = Some c' \<and> curve_k c' = curve_k c \<and>
     total_supply c' = total_supply c \<and> virtual_stx c' = virtual_stx c \<and>
     creator c' = creator c \<and> graduation_stx c' = graduation_stx c \<and>
     fee_bps c' = fee_bps c \<and> creator_share_bps c' = creator_share_bps c \<and>
     (graduated c \<longrightarrow> c' = c)"
  using curves_step [OF ok r] c by (elim disjE exE conjE) (auto split: if_splits)

lemma curve_frame_exec:
  assumes ok: "state_ok s" and c: "curves s cid = Some c"
  shows "\<exists>c'. curves (exec s p h call) cid = Some c' \<and> curve_k c' = curve_k c \<and>
     total_supply c' = total_supply c \<and> virtual_stx c' = virtual_stx c \<and>
     creator c' = creator c \<and> graduation_stx c' = graduation_stx c \<and>
     fee_bps c' = fee_bps c \<and> creator_share_bps c' = creator_share_bps c \<and>
     (graduated c \<longrightarrow> c' = c)"
proof (cases "run s p h call")
  case (Inl e)
  with c show ?thesis by (simp add: exec_def)
next
  case (Inr s')
  from curve_frame_run [OF ok Inr c] Inr show ?thesis by (simp add: exec_def)
qed

section \<open>Graduation\<close>

lemma graduate_internal_payout:
  assumes g: "graduate_internal s cid = Inr (b, s1)" and c: "curves s cid = Some c"
  shows "accrued_fees c * creator_share_bps c div BPS_DENOM \<le> accrued_fees c \<and>
     (\<forall>q. stx s1 q + (if q = LaunchpadContract then accrued_fees c else 0)
        = stx s q
          + (if q = creator c then accrued_fees c * creator_share_bps c div BPS_DENOM else 0)
          + (if q = protocol_fee_recipient s
             then accrued_fees c - accrued_fees c * creator_share_bps c div BPS_DENOM else 0))"
proof -
  define fees where "fees = accrued_fees c"
  define share where "share = accrued_fees c * creator_share_bps c div BPS_DENOM"
  from g c obtain s_a s_b where
    le: "share \<le> fees"
    and a: "(if 0 < share then stx_transfer share LaunchpadContract (creator c) s else Inr s) = Inr s_a"
    and b: "(if 0 < fees - share
             then stx_transfer (fees - share) LaunchpadContract (protocol_fee_recipient s) s_a
             else Inr s_a) = Inr s_b"
    and s1: "stx s1 = stx s_b"
    unfolding fees_def share_def
    by (auto simp: graduate_internal_def bind_r_Inr_iff asserts_Inr_iff mul_u_Inr_iff
        div_u_Inr_iff sub_u_Inr_iff Let_def)
  have sa: "\<forall>q. stx s_a q + (if q = LaunchpadContract then share else 0)
        = stx s q + (if q = creator c then share else 0)"
    using a by (auto simp: stx_transfer_Inr_iff split: if_splits)
  have sb: "\<forall>q. stx s_b q + (if q = LaunchpadContract then fees - share else 0)
        = stx s_a q + (if q = protocol_fee_recipient s then fees - share else 0)"
    using b by (auto simp: stx_transfer_Inr_iff split: if_splits)
  have "\<forall>q. stx s1 q + (if q = LaunchpadContract then fees else 0)
        = stx s q + (if q = creator c then share else 0)
          + (if q = protocol_fee_recipient s then fees - share else 0)"
  proof
    fix q
    from sa have 1: "stx s_a q + (if q = LaunchpadContract then share else 0)
        = stx s q + (if q = creator c then share else 0)" ..
    from sb have 2: "stx s_b q + (if q = LaunchpadContract then fees - share else 0)
        = stx s_a q + (if q = protocol_fee_recipient s then fees - share else 0)" ..
    from 1 2 le show "stx s1 q + (if q = LaunchpadContract then fees else 0)
        = stx s q + (if q = creator c then share else 0)
          + (if q = protocol_fee_recipient s then fees - share else 0)"
      unfolding s1 by (simp split: if_splits)
  qed
  with le show ?thesis unfolding fees_def share_def by simp
qed

lemma graduate_internal_graduated:
  assumes c: "curves s cid = Some c" and g: "graduated c"
    and r: "graduation_stx c \<le> stx_reserve c" and f: "accrued_fees c = 0"
  shows "graduate_internal s cid = Inl ERR_GRADUATED"
  using assms
  by (simp add: graduate_internal_def bind_r_def asserts_def mul_u_def div_u_def sub_u_def
      BPS_DENOM_def uint_max_def)

lemma graduate_graduated:
  assumes "graduate_internal s cid = Inl ERR_GRADUATED"
  shows "graduate s cid = Inl ERR_GRADUATED" and "exec s p h (Graduate cid) = s"
  using assms by (simp_all add: graduate_def bind_r_def exec_def committed_def)

lemma state_ok_evolves: "evolves s s' \<Longrightarrow> state_ok s \<Longrightarrow> state_ok s'"
  by (induction rule: evolves.induct) (simp_all add: state_ok_exec)

lemma graduated_frozen:
  assumes "evolves s s'" and "state_ok s" and "curves s cid = Some c" and "graduated c"
  shows "curves s' cid = Some c"
  using assms
proof (induction rule: evolves.induct)
  case (here s)
  then show ?case by simp
next
  case (later s s' p h call)
  then have c': "curves s' cid = Some c" by simp
  from later have ok: "state_ok s'" by (simp add: state_ok_evolves)
  from curve_frame_exec [OF ok c', of p h call] later.prems(3) show ?case by auto
qed

section \<open>What a buy returns and writes\<close>

lemma buy_quote_agrees:
  assumes "buy s p cid amt mn = Inr (r, s')"
  shows "get_buy_quote s cid amt = Inr r"
proof -
  from assms obtain c m fee net tr nsr d ntr out where
    "curves s cid = Some c"
    "mul_u amt (fee_bps c) = Inr m" "div_u m BPS_DENOM = Inr fee" "sub_u amt fee = Inr net"
    "sub_u (total_supply c) (tokens_sold c) = Inr tr" "add_u (stx_reserve c) net = Inr nsr"
    "add_u (virtual_stx c) nsr = Inr d" "div_u (curve_k c) d = Inr ntr" "sub_u tr ntr = Inr out"
    "r = (out, fee)"
    by (rule buy_unfold)
  then show ?thesis by (simp add: get_buy_quote_def bind_r_def)
qed

text \<open>
  What a buy that returned \<open>ok\<close> has computed and written.
\<close>

lemma buy_ok_effect:
  assumes "buy s p cid amt mn = Inr ((out, fee), s')" and "curves s cid = Some c"
  shows "\<not> graduated c \<and> 0 < amt \<and>
     fee = amt * fee_bps c div 10000 \<and>
     out = (total_supply c - tokens_sold c)
             - curve_k c div (virtual_stx c + (stx_reserve c + (amt - fee))) \<and>
     0 < out \<and> mn \<le> out \<and>
     get_balance s' cid p = get_balance s cid p + out \<and>
     curves s' cid = Some (c\<lparr>
        stx_reserve := stx_reserve c + (amt - fee),
        tokens_sold := tokens_sold c + out,
        accrued_fees := (if graduation_stx c \<le> stx_reserve c + (amt - fee) then 0
                         else accrued_fees c + fee),
        graduated := (graduation_stx c \<le> stx_reserve c + (amt - fee))\<rparr>) \<and>
     get_buy_quote s cid amt = Inr (out, fee)"
proof -
  from assms(1) obtain c0 fee0 out0 ledger where e:
    "curves s cid = Some c0" "(out, fee) = (out0, fee0)"
    "fee0 = amt * fee_bps c0 div BPS_DENOM"
    "out0 = total_supply c0 - tokens_sold c0
        - curve_k c0 div (virtual_stx c0 + (stx_reserve c0 + (amt - fee0)))"
    "\<not> graduated c0" "0 < amt" "0 < out0" "mn \<le> out0"
    "s' = s\<lparr>stx := ledger,
            curves := (curves s)(cid \<mapsto> c0\<lparr>stx_reserve := stx_reserve c0 + (amt - fee0),
                tokens_sold := tokens_sold c0 + out0,
                accrued_fees := (if graduation_stx c0 \<le> stx_reserve c0 + (amt - fee0) then 0
                                 else accrued_fees c0 + fee0),
                graduated := (graduation_stx c0 \<le> stx_reserve c0 + (amt - fee0))\<rparr>),
            balances := balance_set (balances s) (cid, p) (get_balance s cid p + out0)\<rparr>"
    by (rule buy_effect)
  from e(1) assms(2) have c0: "c0 = c" by simp
  from e(2) have eq: "out0 = out" "fee0 = fee" by simp_all
  have bal: "get_balance s' cid p = get_balance s cid p + out"
    unfolding e(9) eq by (simp add: get_balance_def balance_get_set)
  have cur: "curves s' cid = Some (c\<lparr>
        stx_reserve := stx_reserve c + (amt - fee),
        tokens_sold := tokens_sold c + out,
        accrued_fees := (if graduation_stx c \<le> stx_reserve c + (amt - fee) then 0
                         else accrued_fees c + fee),
        graduated := (graduation_stx c \<le> stx_reserve c + (amt - fee))\<rparr>)"
    unfolding e(9) eq c0 by simp
  have q: "get_buy_quote s cid amt = Inr (out, fee)"
    by (rule buy_quote_agrees [OF assms(1)])
  from e(3) have f: "fee = amt * fee_bps c div 10000"
    unfolding eq c0 by (simp add: BPS_DENOM_def)
  from e(4) have o: "out = (total_supply c - tokens_sold c)
             - curve_k c div (virtual_stx c + (stx_reserve c + (amt - fee)))"
    unfolding eq c0 .
  from e(5) have g: "\<not> graduated c" unfolding c0 .
  from e(7) e(8) have p: "0 < out" "mn \<le> out" unfolding eq .
  from g e(6) f o p bal cur q show ?thesis by blast
qed

section \<open>When a buy and a graduation succeed\<close>

lemma bind_r_ok: "bind_r (Inr v) f = f v"
  by (simp add: bind_r_def)

lemma share_le:
  fixes a b :: nat
  assumes "b \<le> 10000"
  shows "a * b div 10000 \<le> a"
proof -
  from assms have "a * b \<le> a * 10000" by (rule mult_le_mono2)
  then have "a * b div 10000 \<le> a * 10000 div 10000" by (rule div_le_mono)
  then show ?thesis by simp
qed

text \<open>
  \<open>graduate-internal\<close> succeeds on a curve that has reached its threshold and is not
  graduated, as soon as the two transfers out of the contract can be made.
\<close>

lemma graduate_internal_total:
  assumes c: "curves s cid = Some c"
    and r: "graduation_stx c \<le> stx_reserve c" and g: "\<not> graduated c"
    and cr: "creator c \<noteq> LaunchpadContract"
    and rc: "protocol_fee_recipient s \<noteq> LaunchpadContract"
    and b: "creator_share_bps c \<le> 10000"
    and m: "accrued_fees c * creator_share_bps c \<le> uint_max"
    and h: "accrued_fees c \<le> stx s LaunchpadContract"
  shows "\<exists>s'. graduate_internal s cid = Inr (True, s')"
proof -
  define fees where "fees = accrued_fees c"
  define share where "share = accrued_fees c * creator_share_bps c div 10000"
  have le: "share \<le> fees" unfolding share_def fees_def using b by (rule share_le)
  from h have h': "fees \<le> stx s LaunchpadContract" unfolding fees_def .
  have 1: "mul_u (accrued_fees c) (creator_share_bps c)
      = Inr (accrued_fees c * creator_share_bps c)"
    using m by (simp add: mul_u_def)
  have 2: "div_u (accrued_fees c * creator_share_bps c) BPS_DENOM = Inr share"
    by (simp add: div_u_def BPS_DENOM_def share_def)
  have 3: "sub_u (accrued_fees c) share = Inr (fees - share)"
    using le by (simp add: sub_u_def fees_def)
  obtain s_a where a: "(if 0 < share then stx_transfer share LaunchpadContract (creator c) s
      else Inr s) = Inr s_a"
    and sa: "fees - share \<le> stx s_a LaunchpadContract"
    and ra: "protocol_fee_recipient s_a = protocol_fee_recipient s"
    using le h' cr by (cases "0 < share") (auto simp: stx_transfer_def)
  obtain s_b where sb: "(if 0 < fees - share
      then stx_transfer (fees - share) LaunchpadContract (protocol_fee_recipient s) s_a
      else Inr s_a) = Inr s_b"
    using sa rc by (cases "0 < fees - share") (auto simp: stx_transfer_def)
  show ?thesis
    using r g a sb
    by (simp add: graduate_internal_def c 1 2 3 bind_r_ok asserts_def Let_def)
qed

text \<open>
  The steps of \<open>buy\<close> up to the graduation check: when the five validations pass,
  the payer can pay and every intermediate value stays in the 128-bit range, \<open>buy\<close>
  takes the payment, writes the curve and the buyer's balance, and then either is done
  or, if the new reserve has reached the threshold, runs \<open>graduate-internal\<close> on the
  state just written.
\<close>

lemma buy_steps:
  assumes c: "curves s cid = Some c"
    and fee: "fee = amt * fee_bps c div 10000"
    and nr: "nr = stx_reserve c + (amt - fee)"
    and out: "out = (total_supply c - tokens_sold c) - curve_k c div (virtual_stx c + nr)"
    and pool: "pool = accrued_fees c + fee"
    and v1: "\<not> graduated c" and v2: "0 < amt" and v3: "0 < total_supply c - tokens_sold c"
    and v4: "0 < out" and v5: "mn \<le> out"
    and f1: "p \<noteq> LaunchpadContract" and f2: "amt \<le> stx s p"
    and r1: "amt * fee_bps c \<le> uint_max" and r2: "fee \<le> amt"
    and r3: "0 < virtual_stx c + nr" and r4: "virtual_stx c + nr \<le> uint_max"
    and r5: "tokens_sold c + out \<le> uint_max" and r6: "pool \<le> uint_max"
    and r7: "get_balance s cid p + out \<le> uint_max"
    and s3: "s3 = s\<lparr>stx := (stx s)(p := stx s p - amt,
                      LaunchpadContract := stx s LaunchpadContract + amt),
                  curves := (curves s)(cid \<mapsto>
                    c\<lparr>stx_reserve := nr, tokens_sold := tokens_sold c + out,
                      accrued_fees := pool\<rparr>),
                  balances := balance_set (balances s) (cid, p) (get_balance s cid p + out)\<rparr>"
  shows "buy s p cid amt mn
      = bind_r (if graduation_stx c \<le> nr then graduate_internal s3 cid else Inr (True, s3))
          (\<lambda>(_, s4). Inr ((out, fee), s4))"
proof -
  have 1: "mul_u amt (fee_bps c) = Inr (amt * fee_bps c)"
    using r1 by (simp add: mul_u_def)
  have 2: "div_u (amt * fee_bps c) BPS_DENOM = Inr fee"
    by (simp add: div_u_def BPS_DENOM_def fee)
  have 3: "sub_u amt fee = Inr (amt - fee)"
    using r2 by (simp add: sub_u_def)
  have 4: "sub_u (total_supply c) (tokens_sold c) = Inr (total_supply c - tokens_sold c)"
    using v3 by (simp add: sub_u_def)
  have 5: "add_u (stx_reserve c) (amt - fee) = Inr nr"
    using r4 by (simp add: add_u_def nr)
  have 6: "add_u (virtual_stx c) nr = Inr (virtual_stx c + nr)"
    using r4 by (simp add: add_u_def)
  have 7: "div_u (curve_k c) (virtual_stx c + nr) = Inr (curve_k c div (virtual_stx c + nr))"
    using r3 by (simp add: div_u_def)
  have 8: "sub_u (total_supply c - tokens_sold c) (curve_k c div (virtual_stx c + nr)) = Inr out"
    using v4 by (simp add: sub_u_def out)
  have 9: "stx_transfer amt p LaunchpadContract s
      = Inr (s\<lparr>stx := (stx s)(p := stx s p - amt,
                      LaunchpadContract := stx s LaunchpadContract + amt)\<rparr>)"
    using v2 f1 f2 by (simp add: stx_transfer_def)
  have 10: "add_u (tokens_sold c) out = Inr (tokens_sold c + out)"
    using r5 by (simp add: add_u_def)
  have 11: "add_u (accrued_fees c) fee = Inr pool"
    using r6 by (simp add: add_u_def pool)
  have 12: "add_u (get_balance s cid p) out = Inr (get_balance s cid p + out)"
    using r7 by (simp add: add_u_def)
  show ?thesis
    using v1 v2 v3 v4 v5
    by (simp add: buy_def c 1 2 3 4 5 6 7 8 9 10 11 12 bind_r_ok asserts_def Let_def s3)
qed

text \<open>
  So \<open>buy\<close> succeeds under these conditions when, should the new reserve reach the
  threshold, the graduation payout can be made.
\<close>

lemma buy_total:
  assumes c: "curves s cid = Some c"
    and fee: "fee = amt * fee_bps c div 10000"
    and nr: "nr = stx_reserve c + (amt - fee)"
    and out: "out = (total_supply c - tokens_sold c) - curve_k c div (virtual_stx c + nr)"
    and pool: "pool = accrued_fees c + fee"
    and v1: "\<not> graduated c" and v2: "0 < amt" and v3: "0 < total_supply c - tokens_sold c"
    and v4: "0 < out" and v5: "mn \<le> out"
    and f1: "p \<noteq> LaunchpadContract" and f2: "amt \<le> stx s p"
    and r1: "amt * fee_bps c \<le> uint_max" and r2: "fee \<le> amt"
    and r3: "0 < virtual_stx c + nr" and r4: "virtual_stx c + nr \<le> uint_max"
    and r5: "tokens_sold c + out \<le> uint_max" and r6: "pool \<le> uint_max"
    and r7: "get_balance s cid p + out \<le> uint_max"
    and g: "graduation_stx c \<le> nr \<longrightarrow>
        creator c \<noteq> LaunchpadContract \<and> protocol_fee_recipient s \<noteq> LaunchpadContract \<and>
        creator_share_bps c \<le> 10000 \<and> pool * creator_share_bps c \<le> uint_max \<and>
        accrued_fees c \<le> stx s LaunchpadContract"
  shows "\<exists>s'. buy s p cid amt mn = Inr ((out, fee), s')"
proof -
  define s3 where "s3 = s\<lparr>stx := (stx s)(p := stx s p - amt,
                      LaunchpadContract := stx s LaunchpadContract + amt),
                  curves := (curves s)(cid \<mapsto>
                    c\<lparr>stx_reserve := nr, tokens_sold := tokens_sold c + out,
                      accrued_fees := pool\<rparr>),
                  balances := balance_set (balances s) (cid, p) (get_balance s cid p + out)\<rparr>"
  have b: "buy s p cid amt mn
      = bind_r (if graduation_stx c \<le> nr then graduate_internal s3 cid else Inr (True, s3))
          (\<lambda>(_, s4). Inr ((out, fee), s4))"
    by (rule buy_steps [OF c fee nr out pool v1 v2 v3 v4 v5 f1 f2 r1 r2 r3 r4 r5 r6 r7 s3_def])
  show ?thesis
  proof (cases "graduation_stx c \<le> nr")
    case False
    with b show ?thesis by (simp add: bind_r_ok)
  next
    case True
    with g have p: "creator c \<noteq> LaunchpadContract"
      "protocol_fee_recipient s \<noteq> LaunchpadContract" "creator_share_bps c \<le> 10000"
      "pool * creator_share_bps c \<le> uint_max" "accrued_fees c \<le> stx s LaunchpadContract"
      by simp_all
    let ?c3 = "c\<lparr>stx_reserve := nr, tokens_sold := tokens_sold c + out, accrued_fees := pool\<rparr>"
    have c3: "curves s3 cid = Some ?c3" by (simp add: s3_def)
    have h: "accrued_fees ?c3 \<le> stx s3 LaunchpadContract"
      using p(5) r2 f1 by (simp add: s3_def pool)
    have "\<exists>s'. graduate_internal s3 cid = Inr (True, s')"
      by (rule graduate_internal_total [OF c3]) (use True v1 p h in \<open>simp_all add: s3_def\<close>)
    then obtain s4 where "graduate_internal s3 cid = Inr (True, s4)" ..
    with b True show ?thesis by (simp add: bind_r_ok)
  qed
qed

text \<open>
  The STX ledger after a buy that graduates the curve: the payer has paid the amount to
  the contract, and the contract has paid the fee pool, which includes the fee of this
  buy, to the issuer and the protocol recipient.
\<close>

lemma buy_graduation_payout:
  assumes b: "buy s p cid amt mn = Inr ((out, fee), s')" and c: "curves s cid = Some c"
    and t: "graduation_stx c \<le> stx_reserve c + (amt - fee)"
  shows "(accrued_fees c + fee) * creator_share_bps c div 10000 \<le> accrued_fees c + fee \<and>
     (\<forall>q. stx s' q + (if q = LaunchpadContract then accrued_fees c + fee else 0)
             + (if q = p then amt else 0)
        = stx s q + (if q = LaunchpadContract then amt else 0)
          + (if q = creator c
             then (accrued_fees c + fee) * creator_share_bps c div 10000 else 0)
          + (if q = protocol_fee_recipient s
             then accrued_fees c + fee
                    - (accrued_fees c + fee) * creator_share_bps c div 10000 else 0))"
proof -
  from b obtain c0 m fee0 net tr nsr d ntr out0 s1 sold fees bal b0 where u:
    "curves s cid = Some c0"
    "mul_u amt (fee_bps c0) = Inr m" "div_u m BPS_DENOM = Inr fee0" "sub_u amt fee0 = Inr net"
    "sub_u (total_supply c0) (tokens_sold c0) = Inr tr" "add_u (stx_reserve c0) net = Inr nsr"
    "add_u (virtual_stx c0) nsr = Inr d" "div_u (curve_k c0) d = Inr ntr"
    "sub_u tr ntr = Inr out0"
    "\<not> graduated c0" "0 < amt" "0 < tr" "0 < out0" "mn \<le> out0"
    "stx_transfer amt p LaunchpadContract s = Inr s1"
    "add_u (tokens_sold c0) out0 = Inr sold" "add_u (accrued_fees c0) fee0 = Inr fees"
    "add_u (get_balance s cid p) out0 = Inr bal"
    "(if graduation_stx c0 \<le> nsr
      then graduate_internal
        (s1\<lparr>curves := (curves s1)(cid \<mapsto> c0\<lparr>stx_reserve := nsr, tokens_sold := sold, accrued_fees := fees\<rparr>),
            balances := balance_set (balances s1) (cid, p) bal\<rparr>) cid
      else Inr (True, s1\<lparr>curves := (curves s1)(cid \<mapsto> c0\<lparr>stx_reserve := nsr, tokens_sold := sold, accrued_fees := fees\<rparr>),
            balances := balance_set (balances s1) (cid, p) bal\<rparr>)) = Inr (b0, s')"
    "(out, fee) = (out0, fee0)"
    by (rule buy_unfold)
  from u(1) c have c0: "c0 = c" by simp
  from u(20) have fe: "fee0 = fee" by simp
  from u(4) have net: "net = amt - fee" unfolding fe by (simp add: sub_u_Inr_iff)
  from u(6) have nsr: "nsr = stx_reserve c + (amt - fee)"
    unfolding c0 net by (auto simp: add_u_Inr_iff)
  from u(17) have fees: "fees = accrued_fees c + fee"
    unfolding c0 fe by (auto simp: add_u_Inr_iff)
  from u(15) have pl: "p \<noteq> LaunchpadContract" and le: "amt \<le> stx s p"
    and s1: "s1 = s\<lparr>stx := (stx s)(p := stx s p - amt,
                      LaunchpadContract := stx s LaunchpadContract + amt)\<rparr>"
    by (simp_all add: stx_transfer_Inr_iff)
  define s3 where "s3 = s1\<lparr>curves := (curves s1)(cid \<mapsto>
        c\<lparr>stx_reserve := nsr, tokens_sold := sold, accrued_fees := fees\<rparr>),
      balances := balance_set (balances s1) (cid, p) bal\<rparr>"
  define c3 where "c3 = c\<lparr>stx_reserve := nsr, tokens_sold := sold, accrued_fees := fees\<rparr>"
  from u(19) t have gi: "graduate_internal s3 cid = Inr (b0, s')"
    unfolding c0 nsr s3_def by simp
  have cs3: "curves s3 cid = Some c3" by (simp add: s3_def c3_def)
  have sel: "accrued_fees c3 = fees" "creator_share_bps c3 = creator_share_bps c"
    "creator c3 = creator c" "protocol_fee_recipient s3 = protocol_fee_recipient s"
    by (simp_all add: c3_def s3_def s1)
  note raw = graduate_internal_payout [OF gi cs3, unfolded sel BPS_DENOM_def]
  from raw have sh: "fees * creator_share_bps c div 10000 \<le> fees" ..
  from raw have led: "\<forall>q. stx s' q + (if q = LaunchpadContract then fees else 0)
        = stx s3 q
          + (if q = creator c then fees * creator_share_bps c div 10000 else 0)
          + (if q = protocol_fee_recipient s
             then fees - fees * creator_share_bps c div 10000 else 0)" ..
  have st: "stx s3 q + (if q = p then amt else 0)
      = stx s q + (if q = LaunchpadContract then amt else 0)" for q
    using pl le by (simp add: s3_def s1)
  have "stx s' q + (if q = LaunchpadContract then fees else 0) + (if q = p then amt else 0)
        = stx s q + (if q = LaunchpadContract then amt else 0)
          + (if q = creator c then fees * creator_share_bps c div 10000 else 0)
          + (if q = protocol_fee_recipient s
             then fees - fees * creator_share_bps c div 10000 else 0)" for q
  proof -
    from led have "stx s' q + (if q = LaunchpadContract then fees else 0)
        = stx s3 q
          + (if q = creator c then fees * creator_share_bps c div 10000 else 0)
          + (if q = protocol_fee_recipient s
             then fees - fees * creator_share_bps c div 10000 else 0)" ..
    with st [of q] show ?thesis by linarith
  qed
  with sh show ?thesis unfolding fees by blast
qed

section \<open>A curve below its threshold until it graduates\<close>

lemma threshold_ok_curve:
  assumes "threshold_ok s" and "curves s cid = Some c" and "\<not> graduated c"
  shows "stx_reserve c < graduation_stx c"
  using assms unfolding threshold_ok_def by blast

lemma threshold_ok_update:
  assumes ok: "threshold_ok s" and d: "default_graduation_stx s' = default_graduation_stx s"
    and cs: "curves s' = (curves s)(cid \<mapsto> c')"
    and c': "\<not> graduated c' \<Longrightarrow> stx_reserve c' < graduation_stx c'"
  shows "threshold_ok s'"
  using assms unfolding threshold_ok_def by (auto split: if_splits)

lemma threshold_ok_same:
  assumes ok: "threshold_ok s" and d: "0 < default_graduation_stx s'"
    and cs: "curves s' = curves s"
  shows "threshold_ok s'"
  using assms unfolding threshold_ok_def by simp

lemma threshold_ok_buy:
  assumes ok: "threshold_ok s" and b: "buy s p cid amt mn = Inr (r, s')"
  shows "threshold_ok s'"
proof -
  from b obtain c fee out ledger where e: "curves s cid = Some c"
    "s' = s\<lparr>stx := ledger,
            curves := (curves s)(cid \<mapsto> c\<lparr>stx_reserve := stx_reserve c + (amt - fee),
                tokens_sold := tokens_sold c + out,
                accrued_fees := (if graduation_stx c \<le> stx_reserve c + (amt - fee) then 0
                                 else accrued_fees c + fee),
                graduated := (graduation_stx c \<le> stx_reserve c + (amt - fee))\<rparr>),
            balances := balance_set (balances s) (cid, p) (get_balance s cid p + out)\<rparr>"
    by (rule buy_effect)
  show ?thesis
    by (rule threshold_ok_update [OF ok, where cid = cid and
          c' = "c\<lparr>stx_reserve := stx_reserve c + (amt - fee),
                tokens_sold := tokens_sold c + out,
                accrued_fees := (if graduation_stx c \<le> stx_reserve c + (amt - fee) then 0
                                 else accrued_fees c + fee),
                graduated := (graduation_stx c \<le> stx_reserve c + (amt - fee))\<rparr>"])
      (simp_all add: e(2))
qed

lemma threshold_ok_sell:
  assumes ok: "threshold_ok s" and b: "sell s p cid amt mn = Inr (r, s')"
  shows "threshold_ok s'"
proof -
  from b obtain c seller_bal fee ledger where e: "curves s cid = Some c" "\<not> graduated c"
    "curve_k c div (total_supply c - tokens_sold c + amt) - virtual_stx c \<le> stx_reserve c"
    "s' = s\<lparr>stx := ledger,
            curves := (curves s)(cid \<mapsto> c\<lparr>
                stx_reserve := curve_k c div (total_supply c - tokens_sold c + amt) - virtual_stx c,
                tokens_sold := tokens_sold c - amt,
                accrued_fees := accrued_fees c + fee\<rparr>),
            balances := balance_set (balances s) (cid, p) (seller_bal - amt)\<rparr>"
    by (rule sell_effect)
  from threshold_ok_curve [OF ok e(1) e(2)] e(3)
  have lt: "curve_k c div (total_supply c - tokens_sold c + amt) - virtual_stx c
      < graduation_stx c"
    by simp
  show ?thesis
    by (rule threshold_ok_update [OF ok, where cid = cid and
          c' = "c\<lparr>stx_reserve :=
                  curve_k c div (total_supply c - tokens_sold c + amt) - virtual_stx c,
                tokens_sold := tokens_sold c - amt,
                accrued_fees := accrued_fees c + fee\<rparr>"])
      (simp_all add: e(4) lt)
qed

lemma threshold_ok_launch:
  assumes ok: "threshold_ok s" and b: "launch s p h nm symb = Inr (r, s')"
  shows "threshold_ok s'"
proof -
  from ok have d: "0 < default_graduation_stx s" unfolding threshold_ok_def by simp
  from launch_effect [OF b] have e:
    "s' = s\<lparr>curves := (curves s)(total_curves s \<mapsto>
                   \<lparr> creator = p, curve_name = nm, curve_symbol = symb,
                     total_supply = default_total_supply s,
                     virtual_stx = default_virtual_stx s,
                     curve_k = default_virtual_stx s * default_total_supply s,
                     stx_reserve = 0, tokens_sold = 0,
                     graduation_stx = default_graduation_stx s,
                     fee_bps = default_fee_bps s, accrued_fees = 0,
                     graduated = False, created_at = h,
                     creator_share_bps = default_creator_share_bps s \<rparr>),
               agent_curve := (agent_curve s)(p \<mapsto> total_curves s),
               total_curves := total_curves s + 1\<rparr>"
    by simp
  show ?thesis
    by (rule threshold_ok_update [OF ok, where cid = "total_curves s" and
          c' = "\<lparr> creator = p, curve_name = nm, curve_symbol = symb,
                     total_supply = default_total_supply s,
                     virtual_stx = default_virtual_stx s,
                     curve_k = default_virtual_stx s * default_total_supply s,
                     stx_reserve = 0, tokens_sold = 0,
                     graduation_stx = default_graduation_stx s,
                     fee_bps = default_fee_bps s, accrued_fees = 0,
                     graduated = False, created_at = h,
                     creator_share_bps = default_creator_share_bps s \<rparr>"])
      (simp_all add: e d)
qed

lemma threshold_ok_graduate_internal:
  assumes ok: "threshold_ok s" and b: "graduate_internal s cid = Inr (r, s')"
  shows "threshold_ok s'"
proof -
  from b obtain c ledger where e:
    "s' = s\<lparr>stx := ledger, curves := (curves s)(cid \<mapsto> c\<lparr>graduated := True, accrued_fees := 0\<rparr>)\<rparr>"
    by (rule graduate_internal_Inr)
  show ?thesis
    by (rule threshold_ok_update [OF ok, where cid = cid and
          c' = "c\<lparr>graduated := True, accrued_fees := 0\<rparr>"])
      (simp_all add: e)
qed

lemma threshold_ok_other:
  assumes ok: "threshold_ok s" and r: "run s p h c = Inr s'"
    and o: "c = RegisterAgent nm url price astx asip \<or> c = SetDefaults a1 a2 a3 a4 a5 \<or>
         c = SetProtocolFeeRecipient q \<or> c = TransferAdmin q \<or> c = AcceptAdmin \<or>
         c = RouterTransferAdmin q \<or> c = RouterAcceptAdmin"
  shows "threshold_ok s'"
proof -
  from ok have d: "0 < default_graduation_stx s" unfolding threshold_ok_def by simp
  from other_calls_frame [OF r o] have cs: "curves s' = curves s" by simp
  from r o d have "0 < default_graduation_stx s'"
    by (auto simp: committed_Inr_iff register_agent_def set_defaults_def
      set_protocol_fee_recipient_def transfer_admin_def accept_admin_def
      router_transfer_admin_def router_accept_admin_def
      bind_r_Inr_iff asserts_Inr_iff add_u_Inr_iff split: option.splits if_splits)
  with ok show ?thesis using cs by (rule threshold_ok_same)
qed

lemma threshold_ok_run:
  assumes ok: "threshold_ok s" and r: "run s p h c = Inr s'"
  shows "threshold_ok s'"
proof (cases c)
  case (Launch nm symb)
  with r ok show ?thesis by (auto simp: committed_Inr_iff dest: threshold_ok_launch)
next
  case (Buy cid amt mn)
  with r ok show ?thesis by (auto simp: committed_Inr_iff dest: threshold_ok_buy)
next
  case (Sell cid amt mn)
  with r ok show ?thesis by (auto simp: committed_Inr_iff dest: threshold_ok_sell)
next
  case (Transfer cid amt rcp)
  with r obtain v where b: "transfer s p cid amt rcp = Inr (v, s')"
    by (auto simp: committed_Inr_iff)
  from b obtain bal where "s' = s\<lparr>balances := bal\<rparr>" by (rule transfer_effect)
  with ok show ?thesis by (simp add: threshold_ok_def)
next
  case (Graduate cid)
  with r ok show ?thesis
    by (auto simp: committed_Inr_iff graduate_def bind_r_Inr_iff
        dest: threshold_ok_graduate_internal)
next
  case (PayViaCurve cid amt n mn)
  with r obtain v where "pay_via_curve s p h cid amt n mn = Inr (v, s')"
    by (auto simp: committed_Inr_iff)
  then obtain s1 out fee rs tp tv where b: "buy s p cid amt mn = Inr ((out, fee), s1)"
    and s': "s' = s1\<lparr>receipts := rs, total_payments := tp, total_volume_stx := tv\<rparr>"
    by (rule pay_via_curve_effect)
  from threshold_ok_buy [OF ok b] s' show ?thesis by (simp add: threshold_ok_def)
next
  case (RegisterAgent nm url price astx asip)
  with threshold_ok_other [OF ok r, of nm url price astx asip] show ?thesis by simp
next
  case (SetDefaults a1 a2 a3 a4 a5)
  with threshold_ok_other [OF ok r, of _ _ _ _ _ a1 a2 a3 a4 a5] show ?thesis by simp
next
  case (SetProtocolFeeRecipient q)
  with threshold_ok_other [OF ok r, of _ _ _ _ _ _ _ _ _ _ q] show ?thesis by simp
next
  case (TransferAdmin q)
  with threshold_ok_other [OF ok r, of _ _ _ _ _ _ _ _ _ _ q] show ?thesis by simp
next
  case AcceptAdmin
  with threshold_ok_other [OF ok r] show ?thesis by simp
next
  case (RouterTransferAdmin q)
  with threshold_ok_other [OF ok r, of _ _ _ _ _ _ _ _ _ _ q] show ?thesis by simp
next
  case RouterAcceptAdmin
  with threshold_ok_other [OF ok r] show ?thesis by simp
qed

lemma threshold_ok_exec: "threshold_ok s \<Longrightarrow> threshold_ok (exec s p h c)"
  by (cases "run s p h c") (auto simp: exec_def dest: threshold_ok_run)

lemma reachable_threshold_ok: "reachable s \<Longrightarrow> threshold_ok s"
proof (induction rule: reachable.induct)
  case (init ledger deployer)
  show ?case by (simp add: threshold_ok_def initial_state_def)
next
  case (step s p h c)
  then show ?case by (simp add: threshold_ok_exec)
qed

text \<open>
  Hence the public \<open>graduate\<close> never succeeds on a reachable state: a curve there is
  either graduated already or still below its threshold.
\<close>

lemma graduate_never_first:
  assumes "reachable s"
  shows "graduate s cid \<noteq> Inr r"
proof
  assume "graduate s cid = Inr r"
  then obtain b s' where g: "graduate_internal s cid = Inr (b, s')"
    by (auto simp: graduate_def bind_r_Inr_iff)
  from g obtain c ledger where e: "curves s cid = Some c" "\<not> graduated c"
    "graduation_stx c \<le> stx_reserve c"
    by (rule graduate_internal_Inr)
  from threshold_ok_curve [OF reachable_threshold_ok [OF assms] e(1) e(2)] e(3)
  show False by simp
qed

section \<open>Curve parameters stay in range\<close>

lemma params_ok_curve:
  assumes "params_ok s" and "curves s cid = Some c"
  shows "fee_bps c \<le> 500" and "creator_share_bps c \<le> 10000" and "curve_k c \<le> uint_max"
  using assms unfolding params_ok_def MAX_FEE_BPS_def MAX_CREATOR_SHARE_BPS_def by blast+

lemma params_ok_update:
  assumes ok: "params_ok s"
    and d: "default_fee_bps s' = default_fee_bps s"
      "default_creator_share_bps s' = default_creator_share_bps s"
    and cs: "curves s' = (curves s)(cid \<mapsto> c')"
    and c': "fee_bps c' \<le> MAX_FEE_BPS" "creator_share_bps c' \<le> MAX_CREATOR_SHARE_BPS"
      "curve_k c' \<le> uint_max"
  shows "params_ok s'"
  using assms unfolding params_ok_def by (auto split: if_splits)

lemma params_ok_trade:
  assumes ok: "params_ok s" and c: "curves s cid = Some c"
    and d: "default_fee_bps s' = default_fee_bps s"
      "default_creator_share_bps s' = default_creator_share_bps s"
    and cs: "curves s' = (curves s)(cid \<mapsto> c')"
    and c': "fee_bps c' = fee_bps c" "creator_share_bps c' = creator_share_bps c"
      "curve_k c' = curve_k c"
  shows "params_ok s'"
proof (rule params_ok_update [OF ok d cs])
  from ok c have "fee_bps c \<le> MAX_FEE_BPS" "creator_share_bps c \<le> MAX_CREATOR_SHARE_BPS"
    "curve_k c \<le> uint_max"
    unfolding params_ok_def by blast+
  then show "fee_bps c' \<le> MAX_FEE_BPS" "creator_share_bps c' \<le> MAX_CREATOR_SHARE_BPS"
    "curve_k c' \<le> uint_max"
    unfolding c' .
qed

lemma params_ok_buy:
  assumes ok: "params_ok s" and b: "buy s p cid amt mn = Inr (r, s')"
  shows "params_ok s'"
proof -
  from b obtain c fee out ledger where e: "curves s cid = Some c"
    "s' = s\<lparr>stx := ledger,
            curves := (curves s)(cid \<mapsto> c\<lparr>stx_reserve := stx_reserve c + (amt - fee),
                tokens_sold := tokens_sold c + out,
                accrued_fees := (if graduation_stx c \<le> stx_reserve c + (amt - fee) then 0
                                 else accrued_fees c + fee),
                graduated := (graduation_stx c \<le> stx_reserve c + (amt - fee))\<rparr>),
            balances := balance_set (balances s) (cid, p) (get_balance s cid p + out)\<rparr>"
    by (rule buy_effect)
  show ?thesis
    by (rule params_ok_trade [OF ok e(1), where
          c' = "c\<lparr>stx_reserve := stx_reserve c + (amt - fee),
                tokens_sold := tokens_sold c + out,
                accrued_fees := (if graduation_stx c \<le> stx_reserve c + (amt - fee) then 0
                                 else accrued_fees c + fee),
                graduated := (graduation_stx c \<le> stx_reserve c + (amt - fee))\<rparr>"])
      (simp_all add: e(2))
qed

lemma params_ok_sell:
  assumes ok: "params_ok s" and b: "sell s p cid amt mn = Inr (r, s')"
  shows "params_ok s'"
proof -
  from b obtain c seller_bal fee ledger where e: "curves s cid = Some c"
    "s' = s\<lparr>stx := ledger,
            curves := (curves s)(cid \<mapsto> c\<lparr>
                stx_reserve := curve_k c div (total_supply c - tokens_sold c + amt) - virtual_stx c,
                tokens_sold := tokens_sold c - amt,
                accrued_fees := accrued_fees c + fee\<rparr>),
            balances := balance_set (balances s) (cid, p) (seller_bal - amt)\<rparr>"
    by (rule sell_effect)
  show ?thesis
    by (rule params_ok_trade [OF ok e(1), where
          c' = "c\<lparr>stx_reserve :=
                  curve_k c div (total_supply c - tokens_sold c + amt) - virtual_stx c,
                tokens_sold := tokens_sold c - amt,
                accrued_fees := accrued_fees c + fee\<rparr>"])
      (simp_all add: e(2))
qed

lemma params_ok_graduate_internal:
  assumes ok: "params_ok s" and b: "graduate_internal s cid = Inr (r, s')"
  shows "params_ok s'"
proof -
  from b obtain c ledger where e: "curves s cid = Some c"
    "s' = s\<lparr>stx := ledger, curves := (curves s)(cid \<mapsto> c\<lparr>graduated := True, accrued_fees := 0\<rparr>)\<rparr>"
    by (rule graduate_internal_Inr)
  show ?thesis
    by (rule params_ok_trade [OF ok e(1), where
          c' = "c\<lparr>graduated := True, accrued_fees := 0\<rparr>"])
      (simp_all add: e(2))
qed

lemma launch_k_range:
  assumes "launch s p h nm symb = Inr (r, s')"
  shows "default_virtual_stx s * default_total_supply s \<le> uint_max"
  using assms
  by (auto simp: launch_def bind_r_Inr_iff asserts_Inr_iff mul_u_Inr_iff add_u_Inr_iff Let_def)

lemma params_ok_launch:
  assumes ok: "params_ok s" and b: "launch s p h nm symb = Inr (r, s')"
  shows "params_ok s'"
proof -
  from ok have d: "default_fee_bps s \<le> MAX_FEE_BPS"
    "default_creator_share_bps s \<le> MAX_CREATOR_SHARE_BPS"
    unfolding params_ok_def by simp_all
  from launch_effect [OF b] have e:
    "s' = s\<lparr>curves := (curves s)(total_curves s \<mapsto>
                   \<lparr> creator = p, curve_name = nm, curve_symbol = symb,
                     total_supply = default_total_supply s,
                     virtual_stx = default_virtual_stx s,
                     curve_k = default_virtual_stx s * default_total_supply s,
                     stx_reserve = 0, tokens_sold = 0,
                     graduation_stx = default_graduation_stx s,
                     fee_bps = default_fee_bps s, accrued_fees = 0,
                     graduated = False, created_at = h,
                     creator_share_bps = default_creator_share_bps s \<rparr>),
               agent_curve := (agent_curve s)(p \<mapsto> total_curves s),
               total_curves := total_curves s + 1\<rparr>"
    by simp
  show ?thesis
    by (rule params_ok_update [OF ok, where cid = "total_curves s" and
          c' = "\<lparr> creator = p, curve_name = nm, curve_symbol = symb,
                     total_supply = default_total_supply s,
                     virtual_stx = default_virtual_stx s,
                     curve_k = default_virtual_stx s * default_total_supply s,
                     stx_reserve = 0, tokens_sold = 0,
                     graduation_stx = default_graduation_stx s,
                     fee_bps = default_fee_bps s, accrued_fees = 0,
                     graduated = False, created_at = h,
                     creator_share_bps = default_creator_share_bps s \<rparr>"])
      (simp_all add: e d launch_k_range [OF b])
qed

lemma params_ok_other:
  assumes ok: "params_ok s" and r: "run s p h c = Inr s'"
    and o: "c = RegisterAgent nm url price astx asip \<or> c = SetDefaults a1 a2 a3 a4 a5 \<or>
         c = SetProtocolFeeRecipient q \<or> c = TransferAdmin q \<or> c = AcceptAdmin \<or>
         c = RouterTransferAdmin q \<or> c = RouterAcceptAdmin"
  shows "params_ok s'"
proof -
  from ok have d: "default_fee_bps s \<le> MAX_FEE_BPS"
    "default_creator_share_bps s \<le> MAX_CREATOR_SHARE_BPS"
    unfolding params_ok_def by simp_all
  from other_calls_frame [OF r o] have cs: "curves s' = curves s" by simp
  from r o d have "default_fee_bps s' \<le> MAX_FEE_BPS \<and>
      default_creator_share_bps s' \<le> MAX_CREATOR_SHARE_BPS"
    by (auto simp: committed_Inr_iff register_agent_def set_defaults_def
      set_protocol_fee_recipient_def transfer_admin_def accept_admin_def
      router_transfer_admin_def router_accept_admin_def
      bind_r_Inr_iff asserts_Inr_iff add_u_Inr_iff split: option.splits if_splits)
  with ok cs show ?thesis unfolding params_ok_def by simp
qed

lemma params_ok_run:
  assumes ok: "params_ok s" and r: "run s p h c = Inr s'"
  shows "params_ok s'"
proof (cases c)
  case (Launch nm symb)
  with r ok show ?thesis by (auto simp: committed_Inr_iff dest: params_ok_launch)
next
  case (Buy cid amt mn)
  with r ok show ?thesis by (auto simp: committed_Inr_iff dest: params_ok_buy)
next
  case (Sell cid amt mn)
  with r ok show ?thesis by (auto simp: committed_Inr_iff dest: params_ok_sell)
next
  case (Transfer cid amt rcp)
  with r obtain v where b: "transfer s p cid amt rcp = Inr (v, s')"
    by (auto simp: committed_Inr_iff)
  from b obtain bal where "s' = s\<lparr>balances := bal\<rparr>" by (rule transfer_effect)
  with ok show ?thesis by (simp add: params_ok_def)
next
  case (Graduate cid)
  with r ok show ?thesis
    by (auto simp: committed_Inr_iff graduate_def bind_r_Inr_iff
        dest: params_ok_graduate_internal)
next
  case (PayViaCurve cid amt n mn)
  with r obtain v where "pay_via_curve s p h cid amt n mn = Inr (v, s')"
    by (auto simp: committed_Inr_iff)
  then obtain s1 out fee rs tp tv where b: "buy s p cid amt mn = Inr ((out, fee), s1)"
    and s': "s' = s1\<lparr>receipts := rs, total_payments := tp, total_volume_stx := tv\<rparr>"
    by (rule pay_via_curve_effect)
  from params_ok_buy [OF ok b] s' show ?thesis by (simp add: params_ok_def)
next
  case (RegisterAgent nm url price astx asip)
  with params_ok_other [OF ok r, of nm url price astx asip] show ?thesis by simp
next
  case (SetDefaults a1 a2 a3 a4 a5)
  with params_ok_other [OF ok r, of _ _ _ _ _ a1 a2 a3 a4 a5] show ?thesis by simp
next
  case (SetProtocolFeeRecipient q)
  with params_ok_other [OF ok r, of _ _ _ _ _ _ _ _ _ _ q] show ?thesis by simp
next
  case (TransferAdmin q)
  with params_ok_other [OF ok r, of _ _ _ _ _ _ _ _ _ _ q] show ?thesis by simp
next
  case AcceptAdmin
  with params_ok_other [OF ok r] show ?thesis by simp
next
  case (RouterTransferAdmin q)
  with params_ok_other [OF ok r, of _ _ _ _ _ _ _ _ _ _ q] show ?thesis by simp
next
  case RouterAcceptAdmin
  with params_ok_other [OF ok r] show ?thesis by simp
qed

lemma params_ok_exec: "params_ok s \<Longrightarrow> params_ok (exec s p h c)"
  by (cases "run s p h c") (auto simp: exec_def dest: params_ok_run)

lemma reachable_params_ok: "reachable s \<Longrightarrow> params_ok s"
proof (induction rule: reachable.induct)
  case (init ledger deployer)
  show ?case
    by (simp add: params_ok_def initial_state_def MAX_FEE_BPS_def MAX_CREATOR_SHARE_BPS_def)
next
  case (step s p h c)
  then show ?case by (simp add: params_ok_exec)
qed

text \<open>A holder's balance is part of the sum over the holders of the curve.\<close>

lemma balance_get_le_total:
  assumes "balance_get bs (cid, p) = Some v"
  shows "v \<le> curve_total bs cid"
  using assms
proof (induction bs)
  case Nil
  then show ?case by simp
next
  case (Cons e bs)
  obtain k w where e: "e = (k, w)" by (cases e)
  show ?case
  proof (cases "k = (cid, p)")
    case True
    with Cons.prems e show ?thesis by (simp add: curve_total_def)
  next
    case False
    with Cons.prems e have "balance_get bs (cid, p) = Some v" by simp
    from Cons.IH [OF this] e show ?thesis by (simp add: curve_total_def)
  qed
qed

lemma get_balance_le_sold:
  assumes ok: "state_ok s" and c: "curves s cid = Some c"
  shows "get_balance s cid p \<le> tokens_sold c"
proof -
  from ok c have t: "curve_total (balances s) cid = tokens_sold c"
    unfolding state_ok_def by blast
  show ?thesis
  proof (cases "balance_get (balances s) (cid, p)")
    case None
    then show ?thesis by (simp add: get_balance_def)
  next
    case (Some v)
    from balance_get_le_total [OF Some] t Some show ?thesis by (simp add: get_balance_def)
  qed
qed

text \<open>
  In a reachable state these bounds make four of the range conditions of \<open>buy\<close> hold
  by themselves: the fee does not exceed the amount, the divisor is not zero, and the
  new \<open>tokens-sold\<close> and the buyer's new balance stay below the total supply, which is
  at most \<open>k\<close>.
\<close>

lemma reachable_buy_ranges:
  assumes rs: "reachable s" and c: "curves s cid = Some c"
    and out: "out = (total_supply c - tokens_sold c) - x"
  shows "amt * fee_bps c div 10000 \<le> amt \<and> 0 < virtual_stx c + y \<and>
     tokens_sold c + out \<le> uint_max \<and> get_balance s cid p + out \<le> uint_max \<and>
     creator_share_bps c \<le> 10000"
proof -
  from rs have ok: "state_ok s" by (rule reachable_state_ok)
  from ok c have cok: "curve_ok c" unfolding state_ok_def by blast
  from rs have pk: "params_ok s" by (rule reachable_params_ok)
  from params_ok_curve [OF pk c] have b: "fee_bps c \<le> 500" "creator_share_bps c \<le> 10000"
    "curve_k c \<le> uint_max" .
  from b(1) have "fee_bps c \<le> 10000" by simp
  then have 1: "amt * fee_bps c div 10000 \<le> amt" by (rule share_le)
  from cok have vs: "0 < virtual_stx c" and le: "tokens_sold c \<le> total_supply c"
    and k: "curve_k c = virtual_stx c * total_supply c"
    unfolding curve_ok_def by blast+
  from vs have 2: "0 < virtual_stx c + y" by simp
  from vs have "1 * total_supply c \<le> virtual_stx c * total_supply c"
    by (intro mult_le_mono1) simp
  then have "total_supply c \<le> curve_k c" unfolding k by simp
  from this b(3) have ts: "total_supply c \<le> uint_max" by (rule order_trans)
  from le have so: "tokens_sold c + out \<le> total_supply c" unfolding out by simp
  with ts have 3: "tokens_sold c + out \<le> uint_max" by simp
  from get_balance_le_sold [OF ok c, of p] so
  have "get_balance s cid p + out \<le> total_supply c" by simp
  with ts have 4: "get_balance s cid p + out \<le> uint_max" by simp
  from 1 2 3 4 b(2) show ?thesis by blast
qed

section \<open>Scenario A: a buy that graduates the curve\<close>

lemma scenario_A_state_eq:
  "scenario_A_state = \<lparr> stx = wallet_funds,
       agents = [Wallet 1 \<mapsto> \<lparr> agent_name = ''TestAgent'',
                  description_url = ''https://example.com/agent'', status = 1,
                  registered_at = 1, total_tasks = 0, total_earned = 0,
                  price_per_task = 1000000, accepts_stx = True, accepts_sip010 = False \<rparr>],
       total_agents = 1,
       total_curves = 1, admin = Wallet 0, pending_admin = None,
       protocol_fee_recipient = Wallet 0,
       default_total_supply = 1000000000000000,
       default_virtual_stx = 10000000000,
       default_graduation_stx = 100000000,
       default_fee_bps = 100,
       default_creator_share_bps = 8000,
       curves = [0 \<mapsto> \<lparr>creator = Wallet 1, curve_name = ''TestToken'', curve_symbol = ''TST'',
           total_supply = 1000000000000000, virtual_stx = 10000000000,
           curve_k = 10000000000000000000000000, stx_reserve = 0, tokens_sold = 0,
           graduation_stx = 100000000, fee_bps = 100, accrued_fees = 0,
           graduated = False, created_at = 3, creator_share_bps = 8000\<rparr>],
       balances = [], agent_curve = [Wallet 1 \<mapsto> 0],
       router_admin = Wallet 0, router_pending_admin = None,
       total_payments = 0, total_volume_stx = 0, receipts = Map.empty \<rparr>"
  by (simp add: scenario_A_state_def registered_state_eq call_defs arith_defs err_defs)

lemma scenario_A_buy_value:
  "map_sum id fst (buy scenario_A_state (Wallet 2) 0 200000000 0)
     = Inr (19415571680722, 2000000)"
  by (simp add: scenario_A_state_eq call_defs arith_defs err_defs wallet_funds_def)

lemma scenario_A_buy_curve:
  "curves (exec scenario_A_state (Wallet 2) 4 (Buy 0 200000000 0)) 0 =
     Some \<lparr>creator = Wallet 1, curve_name = ''TestToken'', curve_symbol = ''TST'',
           total_supply = 1000000000000000, virtual_stx = 10000000000,
           curve_k = 10000000000000000000000000, stx_reserve = 198000000,
           tokens_sold = 19415571680722,
           graduation_stx = 100000000, fee_bps = 100, accrued_fees = 0,
           graduated = True, created_at = 3, creator_share_bps = 8000\<rparr>"
  by (simp add: scenario_A_state_eq call_defs arith_defs err_defs wallet_funds_def)

lemma scenario_A_buy_ledger:
  "stx (exec scenario_A_state (Wallet 2) 4 (Buy 0 200000000 0)) (Wallet 1) = 100000001600000 \<and>
   stx (exec scenario_A_state (Wallet 2) 4 (Buy 0 200000000 0)) (Wallet 0) = 100000000400000 \<and>
   stx (exec scenario_A_state (Wallet 2) 4 (Buy 0 200000000 0)) (Wallet 2) = 99999800000000 \<and>
   stx (exec scenario_A_state (Wallet 2) 4 (Buy 0 200000000 0)) LaunchpadContract = 198000000"
  by (simp add: scenario_A_state_eq call_defs arith_defs err_defs wallet_funds_def)

lemma self_recipient_state_eq:
  "self_recipient_state = \<lparr> stx = wallet_funds,
       agents = [Wallet 1 \<mapsto> \<lparr> agent_name = ''TestAgent'',
                  description_url = ''https://example.com/agent'', status = 1,
                  registered_at = 1, total_tasks = 0, total_earned = 0,
                  price_per_task = 1000000, accepts_stx = True, accepts_sip010 = False \<rparr>],
       total_agents = 1,
       total_curves = 1, admin = Wallet 0, pending_admin = None,
       protocol_fee_recipient = LaunchpadContract,
       default_total_supply = 1000000000000000,
       default_virtual_stx = 10000000000,
       default_graduation_stx = 100000000,
       default_fee_bps = 100,
       default_creator_share_bps = 8000,
       curves = [0 \<mapsto> \<lparr>creator = Wallet 1, curve_name = ''TestToken'', curve_symbol = ''TST'',
           total_supply = 1000000000000000, virtual_stx = 10000000000,
           curve_k = 10000000000000000000000000, stx_reserve = 0, tokens_sold = 0,
           graduation_stx = 100000000, fee_bps = 100, accrued_fees = 0,
           graduated = False, created_at = 4, creator_share_bps = 8000\<rparr>],
       balances = [], agent_curve = [Wallet 1 \<mapsto> 0],
       router_admin = Wallet 0, router_pending_admin = None,
       total_payments = 0, total_volume_stx = 0, receipts = Map.empty \<rparr>"
  by (simp add: self_recipient_state_def registered_state_eq call_defs arith_defs err_defs
      set_protocol_fee_recipient_def)

lemma reachable_scenario_A: "reachable scenario_A_state"
  unfolding scenario_A_state_def by (intro reachable.step reachable_registered)

lemma reachable_self_recipient: "reachable self_recipient_state"
  unfolding self_recipient_state_def by (intro reachable.step reachable_registered)

lemma reachable_graduated: "reachable graduated_state"
  unfolding graduated_state_def by (intro reachable.step reachable_scenario_A)

lemma tiny_state_eq:
  "tiny_state = \<lparr> stx = wallet_funds,
       agents = [Wallet 1 \<mapsto> \<lparr> agent_name = ''TestAgent'',
                  description_url = ''https://example.com/agent'', status = 1,
                  registered_at = 1, total_tasks = 0, total_earned = 0,
                  price_per_task = 1000000, accepts_stx = True, accepts_sip010 = False \<rparr>],
       total_agents = 1,
       total_curves = 1, admin = Wallet 0, pending_admin = None,
       protocol_fee_recipient = Wallet 0,
       default_total_supply = 1,
       default_virtual_stx = 1,
       default_graduation_stx = 1000000,
       default_fee_bps = 0,
       default_creator_share_bps = 0,
       curves = [0 \<mapsto> \<lparr>creator = Wallet 1, curve_name = ''TestToken'', curve_symbol = ''TST'',
           total_supply = 1, virtual_stx = 1,
           curve_k = 1, stx_reserve = 0, tokens_sold = 0,
           graduation_stx = 1000000, fee_bps = 0, accrued_fees = 0,
           graduated = False, created_at = 3, creator_share_bps = 0\<rparr>],
       balances = [], agent_curve = [Wallet 1 \<mapsto> 0],
       router_admin = Wallet 0, router_pending_admin = None,
       total_payments = 0, total_volume_stx = 0, receipts = Map.empty \<rparr>"
  by (simp add: tiny_state_def registered_state_eq call_defs arith_defs err_defs)

section \<open>Token conservation\<close>

text \<open>
  Claim C10. In every state reachable from deployment by any sequence of public calls,
  and for every curve, the balances recorded for that curve sum to the curve's
  \<open>tokens-sold\<close>: the recorded holders are pairwise distinct, their balances add up to
  \<open>tokens-sold\<close>, and every other principal has balance zero.
\<close>

theorem token_conservation:
  assumes "reachable s" and "curves s cid = Some c"
  shows "distinct (holders s cid) \<and>
         sum_list (map (get_balance s cid) (holders s cid)) = tokens_sold c \<and>
         (\<forall>h. h \<notin> set (holders s cid) \<longrightarrow> get_balance s cid h = 0)"
proof -
  from assms(1) have ok: "state_ok s" by (rule reachable_state_ok)
  then have d: "distinct (map fst (balances s))" by (simp add: state_ok_def)
  from ok assms(2) have ct: "curve_total (balances s) cid = tokens_sold c"
    by (simp add: state_ok_def)
  have 1: "distinct (holders s cid)"
    unfolding holders_def by (rule holders_distinct [OF d])
  have "sum_list (map (\<lambda>h. case balance_get (balances s) (cid, h) of None \<Rightarrow> 0 | Some a \<Rightarrow> a)
     (map (\<lambda>e. snd (fst e)) (filter (\<lambda>e. fst (fst e) = cid) (balances s))))
       = curve_total (balances s) cid"
    by (rule holders_sum [OF d])
  then have 2: "sum_list (map (get_balance s cid) (holders s cid)) = tokens_sold c"
    unfolding holders_def get_balance_def ct .
  have 3: "get_balance s cid h = 0" if "h \<notin> set (holders s cid)" for h
  proof -
    have "(cid, h) \<notin> fst ` set (balances s)"
    proof
      assume "(cid, h) \<in> fst ` set (balances s)"
      then obtain e where "e \<in> set (balances s)" "fst e = (cid, h)" by auto
      then have "h \<in> set (holders s cid)" by (force simp: holders_def)
      with that show False by simp
    qed
    then have "balance_get (balances s) (cid, h) = None" by (simp add: balance_get_None)
    then show ?thesis by (simp add: get_balance_def)
  qed
  from 1 2 3 show ?thesis by blast
qed

theorem token_conservation_witness:
  "reachable traded_state \<and> holders traded_state 0 = [Wallet 2, Wallet 3] \<and>
   get_balance traded_state 0 (Wallet 2) + get_balance traded_state 0 (Wallet 3) = 98990199971 \<and>
   get_balance traded_state 0 (Wallet 1) = 0"
  using token_conservation [OF reachable_traded traded_state_curve]
  by (simp add: reachable_traded holders_def traded_state_balances)

section \<open>The constant-product invariant\<close>

lemma curve_ok_floor:
  "curve_ok c \<Longrightarrow>
   total_supply c - tokens_sold c = curve_k c div (virtual_stx c + stx_reserve c) \<or>
   virtual_stx c + stx_reserve c = curve_k c div (total_supply c - tokens_sold c)"
  unfolding curve_ok_def by blast

lemma curve_ok_k: "curve_ok c \<Longrightarrow> curve_k c = virtual_stx c * total_supply c"
  unfolding curve_ok_def by blast

lemma curve_ok_sold: "curve_ok c \<Longrightarrow> tokens_sold c \<le> total_supply c"
  unfolding curve_ok_def by blast

lemma curve_ok_pos: "curve_ok c \<Longrightarrow> 0 < virtual_stx c"
  unfolding curve_ok_def by blast

lemma curve_ok_product:
  assumes "curve_ok c"
  shows "(virtual_stx c + stx_reserve c) * (total_supply c - tokens_sold c) \<le> curve_k c"
proof -
  from assms have "total_supply c - tokens_sold c = curve_k c div (virtual_stx c + stx_reserve c) \<or>
      virtual_stx c + stx_reserve c = curve_k c div (total_supply c - tokens_sold c)"
    by (rule curve_ok_floor)
  then show ?thesis
  proof
    assume "total_supply c - tokens_sold c = curve_k c div (virtual_stx c + stx_reserve c)"
    then show ?thesis by simp
  next
    assume "virtual_stx c + stx_reserve c = curve_k c div (total_supply c - tokens_sold c)"
    then show ?thesis by simp
  qed
qed

lemma curve_ok_rounding:
  assumes "curve_ok c"
  shows "curve_k c - (virtual_stx c + stx_reserve c) * (total_supply c - tokens_sold c)
           < max (virtual_stx c + stx_reserve c) (total_supply c - tokens_sold c)"
proof -
  let ?a = "virtual_stx c + stx_reserve c" and ?t = "total_supply c - tokens_sold c"
  from curve_ok_pos [OF assms] have a: "0 < ?a" by simp
  from assms have "?t = curve_k c div ?a \<or> ?a = curve_k c div ?t"
    by (rule curve_ok_floor)
  then show ?thesis
  proof
    assume t: "?t = curve_k c div ?a"
    have "curve_k c - ?a * (curve_k c div ?a) = curve_k c mod ?a"
      by (simp add: minus_mult_div_eq_mod)
    moreover have "curve_k c mod ?a < ?a" using a by simp
    ultimately have "curve_k c - ?a * ?t < ?a" using t by simp
    then show ?thesis by simp
  next
    assume e: "?a = curve_k c div ?t"
    with a have t: "0 < ?t" by (cases "?t = 0") simp_all
    have "curve_k c - (curve_k c div ?t) * ?t = curve_k c mod ?t"
      by (simp add: minus_div_mult_eq_mod)
    moreover have "curve_k c mod ?t < ?t" using t by simp
    ultimately have "curve_k c - ?a * ?t < ?t" using e by simp
    then show ?thesis by simp
  qed
qed

lemma bought_state_curve:
  "curves bought_state 0 = Some \<lparr>creator = Wallet 1, curve_name = ''TestToken'', curve_symbol = ''TST'',
           total_supply = 1000000000000000, virtual_stx = 10000000000,
           curve_k = 10000000000000000000000000, stx_reserve = 990000,
           tokens_sold = 98990199971,
           graduation_stx = 16667000000, fee_bps = 100, accrued_fees = 10000,
           graduated = False, created_at = 2, creator_share_bps = 8000\<rparr>"
  by (simp add: bought_state_def launched_state_eq call_defs arith_defs err_defs wallet_funds_def)

lemma reachable_bought: "reachable bought_state"
  unfolding bought_state_def by (intro reachable.step reachable_launched)

text \<open>
  Claim C1. In every state reachable by public calls, every curve has
  \<open>k = virtual-stx * total-supply\<close> (the value computed at launch) and
  \<open>tokens-sold \<le> total-supply\<close>, and the product
  \<open>(virtual-stx + stx-reserve) * (total-supply - tokens-sold)\<close> equals \<open>k\<close> up to the
  floor rounding of the last trade: it never exceeds \<open>k\<close>, and either the token
  reserve is the floor of \<open>k / (virtual-stx + stx-reserve)\<close> (as a buy leaves it) or
  \<open>virtual-stx + stx-reserve\<close> is the floor of \<open>k / token-reserve\<close> (as a sell leaves
  it), so the gap is smaller than the larger of the two factors. Whatever call comes
  next, by whomever and whether it succeeds or not, the curve still exists afterwards
  with the same \<open>k\<close>, \<open>total-supply\<close> and \<open>virtual-stx\<close>.
\<close>

theorem constant_product_invariant:
  assumes "reachable s" and "curves s cid = Some c"
  shows "curve_k c = virtual_stx c * total_supply c \<and>
     tokens_sold c \<le> total_supply c \<and>
     (virtual_stx c + stx_reserve c) * (total_supply c - tokens_sold c) \<le> curve_k c \<and>
     (total_supply c - tokens_sold c = curve_k c div (virtual_stx c + stx_reserve c) \<or>
      virtual_stx c + stx_reserve c = curve_k c div (total_supply c - tokens_sold c)) \<and>
     curve_k c - (virtual_stx c + stx_reserve c) * (total_supply c - tokens_sold c)
        < max (virtual_stx c + stx_reserve c) (total_supply c - tokens_sold c) \<and>
     (\<exists>c'. curves (exec s p h call) cid = Some c' \<and> curve_k c' = curve_k c \<and>
        total_supply c' = total_supply c \<and> virtual_stx c' = virtual_stx c)"
proof -
  from assms(1) have ok: "state_ok s" by (rule reachable_state_ok)
  with assms(2) have cok: "curve_ok c" by (simp add: state_ok_def)
  from curve_frame_exec [OF ok assms(2), of p h call]
  have "\<exists>c'. curves (exec s p h call) cid = Some c' \<and> curve_k c' = curve_k c \<and>
        total_supply c' = total_supply c \<and> virtual_stx c' = virtual_stx c"
    by blast
  moreover note curve_ok_k [OF cok] curve_ok_sold [OF cok] curve_ok_floor [OF cok]
    curve_ok_product [OF cok] curve_ok_rounding [OF cok]
  ultimately show ?thesis by blast
qed

theorem constant_product_invariant_witness:
  "reachable bought_state \<and>
   (10000000000 + 990000) * (1000000000000000 - 98990199971) \<le> (10000000000000000000000000::nat) \<and>
   (10000000000000000000000000::nat) - (10000000000 + 990000) * (1000000000000000 - 98990199971)
     < max (10000000000 + 990000) (1000000000000000 - 98990199971) \<and>
   (\<exists>c'. curves (exec bought_state (Wallet 2) 4 (Sell 0 1 0)) 0 = Some c' \<and>
      curve_k c' = 10000000000000000000000000 \<and> total_supply c' = 1000000000000000 \<and>
      virtual_stx c' = 10000000000)"
  using constant_product_invariant [OF reachable_bought bought_state_curve, of "Wallet 2" 4 "Sell 0 1 0"]
  by (simp add: reachable_bought)

section \<open>What buy returns and writes\<close>

text \<open>
  Claim C2, as amended. Take a curve \<open>c\<close> and an amount, and write
  \<open>fee = floor(amountIn * feeRateBps / 10000)\<close>, \<open>netIn = amountIn - fee\<close>,
  \<open>newRealReserve = realReserve + netIn\<close>,
  \<open>newTokenReserve = floor(invariantK / (virtualReserve + newRealReserve))\<close>,
  \<open>tokensOut = (totalSupply - tokensSold) - newTokenReserve\<close> and
  \<open>pool = accruedFees + fee\<close>. Suppose the state is reachable and
  \<^item> the listed validations pass: the curve is not graduated, \<open>amountIn > 0\<close>, the
    token reserve is positive, \<open>tokensOut > 0\<close> and \<open>tokensOut >= minTokensOut\<close>;
  \<^item> the payer is not the launchpad contract and holds \<open>amountIn\<close> STX;
  \<^item> the intermediate values fit in 128 bits: \<open>amountIn * feeRateBps\<close>, the divisor
    \<open>virtualReserve + newRealReserve\<close> and \<open>pool\<close> (the other intermediate values fit
    in every reachable state);
  \<^item> if \<open>newRealReserve\<close> reaches the graduation threshold, the graduation payout can
    be made: issuer and protocol fee recipient are not the launchpad contract,
    \<open>pool * issuerFeeShareBps\<close> fits, and the contract holds the fees accrued so far.

  Then \<open>buy\<close> returns \<open>ok (tokensOut, fee)\<close>; in the state it leaves the buyer's
  balance has grown by \<open>tokensOut\<close>, the reserve is \<open>newRealReserve\<close>, \<open>tokensSold\<close>
  has grown by \<open>tokensOut\<close>, and the fee pool is \<open>pool\<close> when \<open>newRealReserve\<close> is
  below the graduation threshold, while otherwise the curve has been graduated in the
  same call and the pool is 0; and the read-only quote on the state before returns the
  same pair.
\<close>

theorem buy_result_and_effect:
  fixes c :: curve and amt :: nat
  defines "fee \<equiv> amt * fee_bps c div 10000"
  defines "new_reserve \<equiv> stx_reserve c + (amt - fee)"
  defines "out \<equiv> (total_supply c - tokens_sold c)
                   - curve_k c div (virtual_stx c + new_reserve)"
  defines "pool \<equiv> accrued_fees c + fee"
  shows
    "reachable s \<and> curves s cid = Some c \<and>
     \<not> graduated c \<and> 0 < amt \<and> 0 < total_supply c - tokens_sold c \<and>
     0 < out \<and> mn \<le> out \<and>
     p \<noteq> LaunchpadContract \<and> amt \<le> stx s p \<and>
     amt * fee_bps c \<le> uint_max \<and> virtual_stx c + new_reserve \<le> uint_max \<and>
     pool \<le> uint_max \<and>
     (graduation_stx c \<le> new_reserve \<longrightarrow>
        creator c \<noteq> LaunchpadContract \<and> protocol_fee_recipient s \<noteq> LaunchpadContract \<and>
        pool * creator_share_bps c \<le> uint_max \<and>
        accrued_fees c \<le> stx s LaunchpadContract)
     \<longrightarrow>
     (\<exists>s'. buy s p cid amt mn = Inr ((out, fee), s') \<and>
        get_balance s' cid p = get_balance s cid p + out \<and>
        curves s' cid = Some (c\<lparr>
          stx_reserve := new_reserve,
          tokens_sold := tokens_sold c + out,
          accrued_fees := (if graduation_stx c \<le> new_reserve then 0 else pool),
          graduated := (graduation_stx c \<le> new_reserve)\<rparr>) \<and>
        get_buy_quote s cid amt = Inr (out, fee))"
proof (intro impI, elim conjE)
  assume rs: "reachable s" and c: "curves s cid = Some c"
    and v: "\<not> graduated c" "0 < amt" "0 < total_supply c - tokens_sold c" "0 < out" "mn \<le> out"
    and f: "p \<noteq> LaunchpadContract" "amt \<le> stx s p"
    and r1: "amt * fee_bps c \<le> uint_max" and r4: "virtual_stx c + new_reserve \<le> uint_max"
    and r6: "pool \<le> uint_max"
    and g0: "graduation_stx c \<le> new_reserve \<longrightarrow>
        creator c \<noteq> LaunchpadContract \<and> protocol_fee_recipient s \<noteq> LaunchpadContract \<and>
        pool * creator_share_bps c \<le> uint_max \<and>
        accrued_fees c \<le> stx s LaunchpadContract"
  have e1: "fee = amt * fee_bps c div 10000" by (simp add: fee_def)
  have e2: "new_reserve = stx_reserve c + (amt - fee)" by (simp add: new_reserve_def)
  have e3: "out = (total_supply c - tokens_sold c) - curve_k c div (virtual_stx c + new_reserve)"
    by (simp add: out_def)
  have e4: "pool = accrued_fees c + fee" by (simp add: pool_def)
  from reachable_buy_ranges [OF rs c e3, where amt = amt and y = new_reserve and p = p]
  have in_range: "amt * fee_bps c div 10000 \<le> amt" "0 < virtual_stx c + new_reserve"
    "tokens_sold c + out \<le> uint_max" "get_balance s cid p + out \<le> uint_max"
    "creator_share_bps c \<le> 10000"
    by blast+
  from in_range(1) have r2: "fee \<le> amt" unfolding e1 .
  note r = r1 r2 in_range(2) r4 in_range(3) r6 in_range(4)
  from g0 in_range(5) have g: "graduation_stx c \<le> new_reserve \<longrightarrow>
        creator c \<noteq> LaunchpadContract \<and> protocol_fee_recipient s \<noteq> LaunchpadContract \<and>
        creator_share_bps c \<le> 10000 \<and> pool * creator_share_bps c \<le> uint_max \<and>
        accrued_fees c \<le> stx s LaunchpadContract"
    by simp
  from buy_total [OF c e1 e2 e3 e4 v f r g]
  obtain s' where b: "buy s p cid amt mn = Inr ((out, fee), s')" ..
  from buy_ok_effect [OF b c]
  have bal: "get_balance s' cid p = get_balance s cid p + out"
    and cur: "curves s' cid = Some (c\<lparr>
        stx_reserve := stx_reserve c + (amt - fee),
        tokens_sold := tokens_sold c + out,
        accrued_fees := (if graduation_stx c \<le> stx_reserve c + (amt - fee) then 0
                         else accrued_fees c + fee),
        graduated := (graduation_stx c \<le> stx_reserve c + (amt - fee))\<rparr>)"
    and q: "get_buy_quote s cid amt = Inr (out, fee)"
    by blast+
  from cur have "curves s' cid = Some (c\<lparr>
          stx_reserve := new_reserve,
          tokens_sold := tokens_sold c + out,
          accrued_fees := (if graduation_stx c \<le> new_reserve then 0 else pool),
          graduated := (graduation_stx c \<le> new_reserve)\<rparr>)"
    unfolding e2 [symmetric] e4 [symmetric] .
  with b bal q show "\<exists>s'. buy s p cid amt mn = Inr ((out, fee), s') \<and>
        get_balance s' cid p = get_balance s cid p + out \<and>
        curves s' cid = Some (c\<lparr>
          stx_reserve := new_reserve,
          tokens_sold := tokens_sold c + out,
          accrued_fees := (if graduation_stx c \<le> new_reserve then 0 else pool),
          graduated := (graduation_stx c \<le> new_reserve)\<rparr>) \<and>
        get_buy_quote s cid amt = Inr (out, fee)"
    by blast
qed

text \<open>
  The theorem at the graduating buy of Scenario A and at the first buy on the default
  curve, which stays below the threshold.
\<close>

theorem buy_result_and_effect_witness:
  "buy scenario_A_state (Wallet 2) 0 200000000 0
     = Inr ((19415571680722, 2000000), graduated_state) \<and>
   get_balance graduated_state 0 (Wallet 2) = 19415571680722 \<and>
   map_option accrued_fees (curves graduated_state 0) = Some 0 \<and>
   map_option graduated (curves graduated_state 0) = Some True \<and>
   get_buy_quote scenario_A_state 0 200000000 = Inr (19415571680722, 2000000) \<and>
   buy launched_state (Wallet 2) 0 1000000 0 = Inr ((98990199971, 10000), bought_state) \<and>
   get_balance bought_state 0 (Wallet 2) = 98990199971 \<and>
   map_option accrued_fees (curves bought_state 0) = Some 10000 \<and>
   map_option graduated (curves bought_state 0) = Some False \<and>
   get_buy_quote launched_state 0 1000000 = Inr (98990199971, 10000)"
proof -
  have a: "curves scenario_A_state 0 =
      Some \<lparr>creator = Wallet 1, curve_name = ''TestToken'', curve_symbol = ''TST'',
           total_supply = 1000000000000000, virtual_stx = 10000000000,
           curve_k = 10000000000000000000000000, stx_reserve = 0, tokens_sold = 0,
           graduation_stx = 100000000, fee_bps = 100, accrued_fees = 0,
           graduated = False, created_at = 3, creator_share_bps = 8000\<rparr>"
    "stx scenario_A_state (Wallet 2) = 100000000000000"
    "protocol_fee_recipient scenario_A_state = Wallet 0"
    "get_balance scenario_A_state 0 (Wallet 2) = 0"
    by (simp_all add: scenario_A_state_eq get_balance_def wallet_funds_def)
  have "\<exists>s'. buy scenario_A_state (Wallet 2) 0 200000000 0
          = Inr ((19415571680722, 2000000), s') \<and>
        get_balance s' 0 (Wallet 2) = 19415571680722 \<and>
        curves s' 0 =
          Some \<lparr>creator = Wallet 1, curve_name = ''TestToken'', curve_symbol = ''TST'',
           total_supply = 1000000000000000, virtual_stx = 10000000000,
           curve_k = 10000000000000000000000000, stx_reserve = 198000000,
           tokens_sold = 19415571680722,
           graduation_stx = 100000000, fee_bps = 100, accrued_fees = 0,
           graduated = True, created_at = 3, creator_share_bps = 8000\<rparr> \<and>
        get_buy_quote scenario_A_state 0 200000000 = Inr (19415571680722, 2000000)"
    using buy_result_and_effect [where s = scenario_A_state and cid = 0 and amt = 200000000
        and mn = 0 and p = "Wallet 2"
        and c = "\<lparr>creator = Wallet 1, curve_name = ''TestToken'', curve_symbol = ''TST'',
           total_supply = 1000000000000000, virtual_stx = 10000000000,
           curve_k = 10000000000000000000000000, stx_reserve = 0, tokens_sold = 0,
           graduation_stx = 100000000, fee_bps = 100, accrued_fees = 0,
           graduated = False, created_at = 3, creator_share_bps = 8000\<rparr>"]
    using reachable_scenario_A
    by (simp add: a uint_max_def)
  then obtain s1 where
    1: "buy scenario_A_state (Wallet 2) 0 200000000 0 = Inr ((19415571680722, 2000000), s1)"
    and p1: "get_balance s1 0 (Wallet 2) = 19415571680722"
      "map_option accrued_fees (curves s1 0) = Some 0"
      "map_option graduated (curves s1 0) = Some True"
      "get_buy_quote scenario_A_state 0 200000000 = Inr (19415571680722, 2000000)"
    by auto
  from 1 have s1: "graduated_state = s1"
    by (simp add: graduated_state_def exec_def committed_def bind_r_def)
  have b: "curves launched_state 0 =
      Some \<lparr>creator = Wallet 1, curve_name = ''TestToken'', curve_symbol = ''TST'',
           total_supply = 1000000000000000, virtual_stx = 10000000000,
           curve_k = 10000000000000000000000000, stx_reserve = 0, tokens_sold = 0,
           graduation_stx = 16667000000, fee_bps = 100, accrued_fees = 0,
           graduated = False, created_at = 2, creator_share_bps = 8000\<rparr>"
    "stx launched_state (Wallet 2) = 100000000000000"
    "get_balance launched_state 0 (Wallet 2) = 0"
    by (simp_all add: launched_state_eq get_balance_def wallet_funds_def)
  have "\<exists>s'. buy launched_state (Wallet 2) 0 1000000 0 = Inr ((98990199971, 10000), s') \<and>
        get_balance s' 0 (Wallet 2) = 98990199971 \<and>
        curves s' 0 =
          Some \<lparr>creator = Wallet 1, curve_name = ''TestToken'', curve_symbol = ''TST'',
           total_supply = 1000000000000000, virtual_stx = 10000000000,
           curve_k = 10000000000000000000000000, stx_reserve = 990000,
           tokens_sold = 98990199971,
           graduation_stx = 16667000000, fee_bps = 100, accrued_fees = 10000,
           graduated = False, created_at = 2, creator_share_bps = 8000\<rparr> \<and>
        get_buy_quote launched_state 0 1000000 = Inr (98990199971, 10000)"
    using buy_result_and_effect [where s = launched_state and cid = 0 and amt = 1000000
        and mn = 0 and p = "Wallet 2"
        and c = "\<lparr>creator = Wallet 1, curve_name = ''TestToken'', curve_symbol = ''TST'',
           total_supply = 1000000000000000, virtual_stx = 10000000000,
           curve_k = 10000000000000000000000000, stx_reserve = 0, tokens_sold = 0,
           graduation_stx = 16667000000, fee_bps = 100, accrued_fees = 0,
           graduated = False, created_at = 2, creator_share_bps = 8000\<rparr>"]
    using reachable_launched
    by (simp add: b uint_max_def)
  then obtain s2 where
    2: "buy launched_state (Wallet 2) 0 1000000 0 = Inr ((98990199971, 10000), s2)"
    and p2: "get_balance s2 0 (Wallet 2) = 98990199971"
      "map_option accrued_fees (curves s2 0) = Some 10000"
      "map_option graduated (curves s2 0) = Some False"
      "get_buy_quote launched_state 0 1000000 = Inr (98990199971, 10000)"
    by auto
  from 2 have s2: "bought_state = s2"
    by (simp add: bought_state_def exec_def committed_def bind_r_def)
  from 1 p1 2 p2 show ?thesis unfolding s1 s2 by simp
qed

text \<open>
  The claim as stated fails in four ways, each a guard or a step of the code, all on
  reachable states.
  (1) A buy that reaches the graduation threshold does not increase the fee pool by the
  fee: in Scenario A the call succeeds with fee \<open>2000000\<close> on a curve whose fee pool was
  0, and the fee pool afterwards is 0, not \<open>0 + 2000000\<close>.
  (2) A buy that passes the five validations is still refused when the payer does not
  hold the amount: \<open>Wallet 2\<close> holds \<open>100000000000000\<close>, and \<open>buy(200000000000000)\<close> on
  the default curve returns \<open>err u1\<close>, the error of \<open>stx-transfer?\<close>; and a buy by the
  launchpad contract itself returns \<open>err u2\<close>.
  (3) It aborts when an intermediate value leaves the 128-bit range: for
  \<open>amountIn = 10^37\<close> the product \<open>amountIn * 100\<close> overflows, and on the curve with
  virtual reserve 1 and no fee the divisor \<open>1 + (2^128 - 1)\<close> overflows.
  (4) It is refused when the graduation it triggers cannot pay: with the protocol fee
  recipient set to the launchpad contract, the buy of Scenario A returns \<open>err u2\<close>.
\<close>

theorem buy_fee_pool_counterexample:
  "map_sum id fst (buy scenario_A_state (Wallet 2) 0 200000000 0)
     = Inr (19415571680722, 2000000) \<and>
   map_option accrued_fees (curves scenario_A_state 0) = Some 0 \<and>
   map_option accrued_fees (curves (exec scenario_A_state (Wallet 2) 4 (Buy 0 200000000 0)) 0)
     \<noteq> Some (0 + 2000000) \<and>
   get_buy_quote launched_state 0 200000000000000 = Inr (999949497500127, 2000000000000) \<and>
   buy launched_state (Wallet 2) 0 200000000000000 0 = Inl (Err 1) \<and>
   buy launched_state LaunchpadContract 0 1000000 0 = Inl (Err 2) \<and>
   buy launched_state (Wallet 2) 0 10000000000000000000000000000000000000 0
     = Inl (Abort ArithmeticOverflow) \<and>
   buy tiny_state (Wallet 2) 0 340282366920938463463374607431768211455 0
     = Inl (Abort ArithmeticOverflow) \<and>
   get_buy_quote self_recipient_state 0 200000000 = Inr (19415571680722, 2000000) \<and>
   buy self_recipient_state (Wallet 2) 0 200000000 0 = Inl (Err 2)"
proof -
  have "map_sum id fst (buy scenario_A_state (Wallet 2) 0 200000000 0)
     = Inr (19415571680722, 2000000) \<and>
   map_option accrued_fees (curves scenario_A_state 0) = Some 0 \<and>
   map_option accrued_fees (curves (exec scenario_A_state (Wallet 2) 4 (Buy 0 200000000 0)) 0)
     \<noteq> Some (0 + 2000000)"
    unfolding scenario_A_buy_value scenario_A_buy_curve
    by (simp add: scenario_A_state_eq)
  moreover have
    "get_buy_quote launched_state 0 200000000000000 = Inr (999949497500127, 2000000000000)"
    by (simp add: launched_state_eq get_buy_quote_def arith_defs)
  moreover have "buy launched_state (Wallet 2) 0 200000000000000 0 = Inl (Err 1)"
    by (simp add: launched_state_eq call_defs arith_defs err_defs wallet_funds_def)
  moreover have "buy launched_state LaunchpadContract 0 1000000 0 = Inl (Err 2)"
    by (simp add: launched_state_eq call_defs arith_defs err_defs wallet_funds_def)
  moreover have "buy launched_state (Wallet 2) 0 10000000000000000000000000000000000000 0
     = Inl (Abort ArithmeticOverflow)"
    by (simp add: launched_state_eq call_defs arith_defs err_defs wallet_funds_def)
  moreover have "buy tiny_state (Wallet 2) 0 340282366920938463463374607431768211455 0
     = Inl (Abort ArithmeticOverflow)"
    by (simp add: tiny_state_eq call_defs arith_defs err_defs wallet_funds_def)
  moreover have
    "get_buy_quote self_recipient_state 0 200000000 = Inr (19415571680722, 2000000)"
    by (simp add: self_recipient_state_eq get_buy_quote_def arith_defs)
  moreover have "buy self_recipient_state (Wallet 2) 0 200000000 0 = Inl (Err 2)"
    by (simp add: self_recipient_state_eq call_defs arith_defs err_defs wallet_funds_def)
  ultimately show ?thesis by blast
qed

section \<open>The router and the agent's minimum price\<close>

text \<open>
  Claim C3 says that \<open>pay-via-curve\<close> rejects an amount below the minimum price the
  issuer registered, before it calls \<open>buy\<close>. The router under verification checks the
  nonce and that the amount is positive, and nothing else: the agent \<open>Wallet 1\<close>
  registered with price per task \<open>1000000\<close> and owns curve 0, and a payment of
  \<open>500000\<close> goes through, buys tokens and records a receipt.
\<close>

theorem pay_below_minimum_price_accepted:
  "map_option creator (curves launched_state 0) = Some (Wallet 1) \<and>
   map_option price_per_task (agents launched_state (Wallet 1)) = Some 1000000 \<and>
   map_sum id fst
     (pay_via_curve launched_state (Wallet 2) 3 0 500000 [0, 0, 1, 94, 0, 0, 0, 0, 0, 0, 0, 0, 0, 0, 0, 0] 0)
     = Inr (49497549872, 5000) \<and>
   map_option receipt_stx_amount
     (verify_payment
        (exec launched_state (Wallet 2) 3
           (PayViaCurve 0 500000 [0, 0, 1, 94, 0, 0, 0, 0, 0, 0, 0, 0, 0, 0, 0, 0] 0))
        [0, 0, 1, 94, 0, 0, 0, 0, 0, 0, 0, 0, 0, 0, 0, 0])
     = Some 500000"
  by (simp add: launched_state_eq verify_payment_def call_defs arith_defs err_defs wallet_funds_def)

section \<open>Receipts are written once\<close>

lemma buy_receipts:
  assumes "buy s p cid amt mn = Inr (r, s')"
  shows "receipts s' = receipts s"
proof -
  from assms obtain c fee out ledger where
    "s' = s\<lparr>stx := ledger,
            curves := (curves s)(cid \<mapsto> c\<lparr>stx_reserve := stx_reserve c + (amt - fee),
                tokens_sold := tokens_sold c + out,
                accrued_fees := (if graduation_stx c \<le> stx_reserve c + (amt - fee) then 0
                                 else accrued_fees c + fee),
                graduated := (graduation_stx c \<le> stx_reserve c + (amt - fee))\<rparr>),
            balances := balance_set (balances s) (cid, p) (get_balance s cid p + out)\<rparr>"
    by (rule buy_effect)
  then show ?thesis by simp
qed

lemma sell_receipts:
  assumes "sell s p cid amt mn = Inr (r, s')"
  shows "receipts s' = receipts s"
proof -
  from assms obtain c seller_bal fee ledger where
    "s' = s\<lparr>stx := ledger,
            curves := (curves s)(cid \<mapsto> c\<lparr>
                stx_reserve := curve_k c div (total_supply c - tokens_sold c + amt) - virtual_stx c,
                tokens_sold := tokens_sold c - amt,
                accrued_fees := accrued_fees c + fee\<rparr>),
            balances := balance_set (balances s) (cid, p) (seller_bal - amt)\<rparr>"
    by (rule sell_effect)
  then show ?thesis by simp
qed

lemma transfer_receipts:
  assumes "transfer s p cid amt rcp = Inr (r, s')"
  shows "receipts s' = receipts s"
proof -
  from assms obtain sender_bal where
    "s' = s\<lparr>balances := balance_set (balance_set (balances s) (cid, p) (sender_bal - amt))
                 (cid, rcp) (get_balance s cid rcp + amt)\<rparr>"
    by (rule transfer_effect)
  then show ?thesis by simp
qed

lemma graduate_internal_receipts:
  assumes "graduate_internal s cid = Inr (r, s')"
  shows "receipts s' = receipts s"
proof -
  from assms obtain c ledger where
    "s' = s\<lparr>stx := ledger, curves := (curves s)(cid \<mapsto> c\<lparr>graduated := True, accrued_fees := 0\<rparr>)\<rparr>"
    by (rule graduate_internal_Inr)
  then show ?thesis by simp
qed

lemma pay_receipt_written:
  assumes "pay_via_curve s p h cid amt nonce mn = Inr (r, s')"
  shows "receipts s nonce = None \<and> receipts s' nonce \<noteq> None \<and>
         (\<forall>n. n \<noteq> nonce \<longrightarrow> receipts s' n = receipts s n)"
proof -
  from assms obtain s1 out fee where e: "receipts s nonce = None"
    "buy s p cid amt mn = Inr ((out, fee), s1)"
    "s' = s1\<lparr>receipts := (receipts s1)(nonce \<mapsto>
                  \<lparr> payer = p, receipt_curve_id = cid,
                    receipt_stx_amount = amt, tokens_received = out,
                    receipt_fee = fee, receipt_block = h \<rparr>),
             total_payments := total_payments s1 + 1,
             total_volume_stx := total_volume_stx s1 + amt\<rparr>"
    by (rule pay_via_curve_effect)
  from buy_receipts [OF e(2)] e(1) show ?thesis unfolding e(3) by simp
qed


lemma receipts_step:
  assumes r: "run s p h call = Inr s'" and n: "receipts s nonce = Some x"
  shows "receipts s' nonce = Some x"
proof (cases call)
  case (Launch nm symb)
  with r obtain v where "launch s p h nm symb = Inr (v, s')" by (auto simp: committed_Inr_iff)
  from launch_effect [OF this] n show ?thesis by (cases s) auto
next
  case (Buy cid amt mn)
  with r obtain v where "buy s p cid amt mn = Inr (v, s')" by (auto simp: committed_Inr_iff)
  from buy_receipts [OF this] n show ?thesis by simp
next
  case (Sell cid amt mn)
  with r obtain v where "sell s p cid amt mn = Inr (v, s')" by (auto simp: committed_Inr_iff)
  then have "receipts s' = receipts s" by (rule sell_receipts)
  with n show ?thesis by simp
next
  case (Transfer cid amt rcp)
  with r obtain v where "transfer s p cid amt rcp = Inr (v, s')"
    by (auto simp: committed_Inr_iff)
  then have "receipts s' = receipts s" by (rule transfer_receipts)
  with n show ?thesis by simp
next
  case (Graduate cid)
  with r obtain v where "graduate_internal s cid = Inr (v, s')"
    by (auto simp: committed_Inr_iff graduate_def bind_r_Inr_iff)
  then have "receipts s' = receipts s" by (rule graduate_internal_receipts)
  with n show ?thesis by simp
next
  case (PayViaCurve cid amt n' mn)
  with r obtain v where "pay_via_curve s p h cid amt n' mn = Inr (v, s')"
    by (auto simp: committed_Inr_iff)
  from pay_receipt_written [OF this] n show ?thesis by (cases "nonce = n'") auto
next
  case (RegisterAgent nm url price astx asip)
  with other_calls_frame [OF r, of nm url price astx asip] n show ?thesis by simp
next
  case (SetDefaults a1 a2 a3 a4 a5)
  with other_calls_frame [OF r, of _ _ _ _ _ a1 a2 a3 a4 a5] n show ?thesis by simp
next
  case (SetProtocolFeeRecipient q)
  with other_calls_frame [OF r, of _ _ _ _ _ _ _ _ _ _ q] n show ?thesis by simp
next
  case (TransferAdmin q)
  with other_calls_frame [OF r, of _ _ _ _ _ _ _ _ _ _ q] n show ?thesis by simp
next
  case AcceptAdmin
  with other_calls_frame [OF r] n show ?thesis by simp
next
  case (RouterTransferAdmin q)
  with other_calls_frame [OF r, of _ _ _ _ _ _ _ _ _ _ q] n show ?thesis by simp
next
  case RouterAcceptAdmin
  with other_calls_frame [OF r] n show ?thesis by simp
qed

lemma receipts_evolves:
  assumes "evolves s s'" and "receipts s nonce = Some x"
  shows "receipts s' nonce = Some x"
  using assms
proof (induction rule: evolves.induct)
  case (here s)
  then show ?case .
next
  case (later s s' p h c)
  then have n: "receipts s' nonce = Some x" by simp
  show ?case
  proof (cases "run s' p h c")
    case (Inl e)
    with n show ?thesis by (simp add: exec_def)
  next
    case (Inr s'')
    from receipts_step [OF Inr n] Inr show ?thesis by (simp add: exec_def)
  qed
qed

lemma pay_used_nonce:
  assumes "receipts s nonce = Some x"
  shows "pay_via_curve s p h cid amt nonce mn = Inl ERR_NONCE_USED"
    and "exec s p h (PayViaCurve cid amt nonce mn) = s"
  using assms by (simp_all add: pay_via_curve_def asserts_def exec_def committed_def bind_r_def)

lemma pay_rejected_any_height:
  assumes "pay_via_curve s p h cid amt nonce mn = Inl e"
  shows "pay_via_curve s p h' cid amt nonce mn = Inl e"
proof (cases "buy s p cid amt mn")
  case (Inl x)
  with assms show ?thesis
    by (simp add: pay_via_curve_def asserts_def bind_r_def split: if_splits)
next
  case (Inr v)
  obtain out fee s1 where "v = ((out, fee), s1)" by (cases v) auto
  with Inr assms show ?thesis
    by (auto simp: pay_via_curve_def asserts_def bind_r_def add_u_def Let_def split: if_splits)
qed

text \<open>
  Claim C4, as amended. Repeating a \<open>payViaCurve\<close> call (same sender, same arguments, same nonce,
  at the same or another block height) leaves the state as it was after the first call. If a call with the nonce is
  accepted, it has recorded a receipt under the nonce, and from then on, in the state
  right after it and in every later state, every call with that nonce, by any sender
  and with any arguments, fails with \<open>ERR-NONCE-USED\<close> and changes nothing (receipts,
  curves, balances, the STX ledger and the payment counters are those of the state
  before it), and the recorded receipt stays as written. The nonce-used outcome needs
  the accepted first call: a call that is itself rejected writes no receipt, so a
  second call with its nonce is judged afresh.
\<close>

theorem replay_rejected:
  "(pay_via_curve s p h cid amt nonce mn = Inr (r, s1) \<longrightarrow>
      verify_payment s1 nonce \<noteq> None \<and>
      (\<forall>s2 p' h' cid' amt' mn'. evolves s1 s2 \<longrightarrow>
         verify_payment s2 nonce = verify_payment s1 nonce \<and>
         pay_via_curve s2 p' h' cid' amt' nonce mn' = Inl ERR_NONCE_USED \<and>
         exec s2 p' h' (PayViaCurve cid' amt' nonce mn') = s2)) \<and>
   exec (exec s p h (PayViaCurve cid amt nonce mn)) p h2 (PayViaCurve cid amt nonce mn)
     = exec s p h (PayViaCurve cid amt nonce mn)"
proof (intro conjI impI allI)
  assume a: "pay_via_curve s p h cid amt nonce mn = Inr (r, s1)"
  from pay_receipt_written [OF this] show "verify_payment s1 nonce \<noteq> None"
    by (simp add: verify_payment_def)
next
  fix s2 p' h' cid' amt' mn'
  assume a: "pay_via_curve s p h cid amt nonce mn = Inr (r, s1)" and e: "evolves s1 s2"
  from pay_receipt_written [OF a] have "receipts s1 nonce \<noteq> None" by simp
  then obtain x where x: "receipts s1 nonce = Some x" by auto
  from receipts_evolves [OF e x] have x2: "receipts s2 nonce = Some x" .
  from x x2 show "verify_payment s2 nonce = verify_payment s1 nonce"
    by (simp add: verify_payment_def)
  from x2 show "pay_via_curve s2 p' h' cid' amt' nonce mn' = Inl ERR_NONCE_USED"
    by (rule pay_used_nonce)
  from x2 show "exec s2 p' h' (PayViaCurve cid' amt' nonce mn') = s2"
    by (rule pay_used_nonce)
next
  show "exec (exec s p h (PayViaCurve cid amt nonce mn)) p h2 (PayViaCurve cid amt nonce mn)
     = exec s p h (PayViaCurve cid amt nonce mn)"
  proof (cases "pay_via_curve s p h cid amt nonce mn")
    case (Inl e)
    from pay_rejected_any_height [OF Inl, of h2] Inl show ?thesis
      by (simp add: exec_def committed_def bind_r_def)
  next
    case (Inr v)
    obtain r' s' where v: "v = (r', s')" by (cases v)
    from Inr v have "pay_via_curve s p h cid amt nonce mn = Inr (r', s')" by simp
    from pay_receipt_written [OF this] have "receipts s' nonce \<noteq> None" by simp
    then obtain x where "receipts s' nonce = Some x" by auto
    from pay_used_nonce(2) [OF this] Inr v show ?thesis
      by (simp add: exec_def committed_def bind_r_def)
  qed
qed

theorem replay_rejected_witness:
  "map_sum id fst (pay_via_curve launched_state (Wallet 2) 3 0 1000000 [0, 0, 0, 100] 0)
     = Inr (98990199971, 10000) \<and>
   pay_via_curve paid_state (Wallet 2) 4 0 1000000 [0, 0, 0, 100] 0 = Inl (Err 1500) \<and>
   exec paid_state (Wallet 3) 5 (PayViaCurve 0 7 [0, 0, 0, 100] 0) = paid_state"
proof -
  have "\<exists>s1. pay_via_curve launched_state (Wallet 2) 3 0 1000000 [0, 0, 0, 100] 0
      = Inr ((98990199971, 10000), s1)"
    by (simp add: launched_state_eq call_defs arith_defs err_defs wallet_funds_def)
  then obtain s1 where
    a: "pay_via_curve launched_state (Wallet 2) 3 0 1000000 [0, 0, 0, 100] 0
      = Inr ((98990199971, 10000), s1)" ..
  then have s1: "paid_state = s1" by (simp add: paid_state_def exec_def committed_def bind_r_def)
  from replay_rejected [of launched_state "Wallet 2" 3 0 1000000 "[0, 0, 0, 100]" 0
      "(98990199971, 10000)" s1] a
  have "\<forall>s2 p' h' cid' amt' mn'. evolves s1 s2 \<longrightarrow>
         pay_via_curve s2 p' h' cid' amt' [0, 0, 0, 100] mn' = Inl ERR_NONCE_USED \<and>
         exec s2 p' h' (PayViaCurve cid' amt' [0, 0, 0, 100] mn') = s2"
    by blast
  with evolves.here [of s1] have
    "pay_via_curve s1 (Wallet 2) 4 0 1000000 [0, 0, 0, 100] 0 = Inl ERR_NONCE_USED"
    "exec s1 (Wallet 3) 5 (PayViaCurve 0 7 [0, 0, 0, 100] 0) = s1"
    by blast+
  with a s1 show ?thesis by (simp add: ERR_NONCE_USED_def)
qed

text \<open>
  The first call of a pair need not be accepted. On the freshly launched curve a payment
  of amount \<open>0\<close> is rejected with \<open>ERR-ZERO-AMOUNT\<close> (\<open>err u1501\<close>) and records nothing;
  the same call again is rejected with \<open>err u1501\<close>, not with \<open>ERR-NONCE-USED\<close>
  (\<open>err u1500\<close>), and a second call with the same nonce and amount \<open>1000000\<close> is accepted
  and counted.
\<close>

theorem replay_after_rejected_call_counterexample:
  "pay_via_curve launched_state (Wallet 2) 3 0 0 [0, 0, 0, 100] 0 = Inl (Err 1501) \<and>
   exec launched_state (Wallet 2) 3 (PayViaCurve 0 0 [0, 0, 0, 100] 0) = launched_state \<and>
   pay_via_curve (exec launched_state (Wallet 2) 3 (PayViaCurve 0 0 [0, 0, 0, 100] 0))
     (Wallet 2) 4 0 0 [0, 0, 0, 100] 0 = Inl (Err 1501) \<and>
   ERR_NONCE_USED = Err 1500 \<and>
   verify_payment (exec launched_state (Wallet 2) 3 (PayViaCurve 0 0 [0, 0, 0, 100] 0))
     [0, 0, 0, 100] = None \<and>
   total_payments (exec launched_state (Wallet 2) 3 (PayViaCurve 0 0 [0, 0, 0, 100] 0)) = 0 \<and>
   total_payments
     (exec (exec launched_state (Wallet 2) 3 (PayViaCurve 0 0 [0, 0, 0, 100] 0))
        (Wallet 2) 4 (PayViaCurve 0 1000000 [0, 0, 0, 100] 0)) = 1"
proof -
  have r: "pay_via_curve launched_state (Wallet 2) h 0 0 [0, 0, 0, 100] 0 = Inl (Err 1501)" for h
    by (simp add: launched_state_eq pay_via_curve_def arith_defs err_defs)
  from r [of 3] have e: "exec launched_state (Wallet 2) 3 (PayViaCurve 0 0 [0, 0, 0, 100] 0)
      = launched_state"
    by (simp add: exec_def committed_def bind_r_def)
  have t: "total_payments (exec launched_state (Wallet 2) 4
      (PayViaCurve 0 1000000 [0, 0, 0, 100] 0)) = 1"
    by (simp add: launched_state_eq call_defs arith_defs err_defs wallet_funds_def)
  have v: "verify_payment launched_state [0, 0, 0, 100] = None"
    by (simp add: launched_state_eq verify_payment_def)
  have z: "total_payments launched_state = 0" by (simp add: launched_state_eq)
  show ?thesis unfolding e using r [of 3] r [of 4] t v z by (simp add: ERR_NONCE_USED_def)
qed

section \<open>Graduating once\<close>

text \<open>
  Claim C5, as amended. Three facts.

  (1) In a reachable state a curve that is not graduated has its reserve below its
  graduation threshold, so the public \<open>graduate\<close> never succeeds there: a curve
  graduates for the first time in the graduation step that \<open>buy\<close> runs in the same
  call when the new reserve reaches the threshold.

  (2) Take a reachable state, a curve \<open>c\<close> and a buy, with \<open>fee\<close>, \<open>newRealReserve\<close>
  and \<open>tokensOut\<close> as \<open>buy\<close> computes them, \<open>pool = accruedFees + fee\<close> the fee pool
  at the moment of graduation and \<open>issuerShare = floor(pool * issuerFeeShareBps / 10000)\<close>.
  Suppose the buy passes its validations, the payer is not the launchpad contract and
  holds the amount, the intermediate values \<open>amountIn * feeRateBps\<close>,
  \<open>virtualReserve + newRealReserve\<close> and \<open>pool\<close> fit in 128 bits, \<open>newRealReserve\<close>
  reaches the threshold, and the payout can be made: issuer and protocol fee recipient
  are not the launchpad contract, \<open>pool * issuerFeeShareBps\<close> fits, and the contract
  holds the fees accrued so far.
  Then the buy succeeds; \<open>issuerShare\<close> and \<open>protocolShare = pool - issuerShare\<close> add up
  to the pool exactly; on the STX ledger the payer has paid the amount to the contract
  and the contract has paid \<open>issuerShare\<close> to the issuer and \<open>protocolShare\<close> to the
  protocol fee recipient; the curve is left with \<open>accrued-fees = 0\<close> and
  \<open>graduated = true\<close>; and in that state and every later one the curve is unchanged
  and every \<open>graduate\<close> call on it returns \<open>ERR-GRADUATED\<close> and leaves the state as it
  is.

  (3) In every reachable state a graduated curve stays exactly as it is through every
  later transaction (so \<open>graduated\<close> never becomes false again and nothing is paid
  again), and every later \<open>graduate\<close> call on it returns \<open>ERR-GRADUATED\<close> with the state
  unchanged.
\<close>

theorem graduate_once:
  fixes c :: curve and amt :: nat
  defines "fee \<equiv> amt * fee_bps c div 10000"
  defines "new_reserve \<equiv> stx_reserve c + (amt - fee)"
  defines "out \<equiv> (total_supply c - tokens_sold c)
                   - curve_k c div (virtual_stx c + new_reserve)"
  defines "pool \<equiv> accrued_fees c + fee"
  defines "issuer_share \<equiv> pool * creator_share_bps c div 10000"
  shows
   "(reachable s \<and> curves s cid = Some c \<and> \<not> graduated c \<longrightarrow>
      stx_reserve c < graduation_stx c \<and> (\<forall>r. graduate s cid \<noteq> Inr r)) \<and>
    (reachable s \<and> curves s cid = Some c \<and>
      \<not> graduated c \<and> 0 < amt \<and> 0 < total_supply c - tokens_sold c \<and>
      0 < out \<and> mn \<le> out \<and>
      p \<noteq> LaunchpadContract \<and> amt \<le> stx s p \<and>
      amt * fee_bps c \<le> uint_max \<and> virtual_stx c + new_reserve \<le> uint_max \<and>
      pool \<le> uint_max \<and>
      graduation_stx c \<le> new_reserve \<and>
      creator c \<noteq> LaunchpadContract \<and> protocol_fee_recipient s \<noteq> LaunchpadContract \<and>
      pool * creator_share_bps c \<le> uint_max \<and>
      accrued_fees c \<le> stx s LaunchpadContract \<longrightarrow>
      (\<exists>s'. buy s p cid amt mn = Inr ((out, fee), s') \<and>
         issuer_share + (pool - issuer_share) = pool \<and>
         (\<forall>q. stx s' q + (if q = LaunchpadContract then pool else 0)
                 + (if q = p then amt else 0)
            = stx s q + (if q = LaunchpadContract then amt else 0)
              + (if q = creator c then issuer_share else 0)
              + (if q = protocol_fee_recipient s then pool - issuer_share else 0)) \<and>
         curves s' cid = Some (c\<lparr>stx_reserve := new_reserve,
            tokens_sold := tokens_sold c + out, accrued_fees := 0, graduated := True\<rparr>) \<and>
         (\<forall>s2 p' h'. evolves s' s2 \<longrightarrow>
            curves s2 cid = curves s' cid \<and>
            graduate s2 cid = Inl ERR_GRADUATED \<and>
            exec s2 p' h' (Graduate cid) = s2))) \<and>
    (reachable s \<and> curves s cid = Some c \<and> graduated c \<and> evolves s s2 \<longrightarrow>
      curves s2 cid = Some c \<and> graduate s2 cid = Inl ERR_GRADUATED \<and>
      exec s2 p' h' (Graduate cid) = s2)"
proof (intro conjI)
  show "reachable s \<and> curves s cid = Some c \<and> \<not> graduated c \<longrightarrow>
      stx_reserve c < graduation_stx c \<and> (\<forall>r. graduate s cid \<noteq> Inr r)"
  proof (intro impI, elim conjE, intro conjI allI)
    assume rs: "reachable s" and c: "curves s cid = Some c" and g: "\<not> graduated c"
    from reachable_threshold_ok [OF rs] c g show "stx_reserve c < graduation_stx c"
      by (rule threshold_ok_curve)
    fix r
    from rs show "graduate s cid \<noteq> Inr r" by (rule graduate_never_first)
  qed
next
  show "reachable s \<and> curves s cid = Some c \<and>
      \<not> graduated c \<and> 0 < amt \<and> 0 < total_supply c - tokens_sold c \<and>
      0 < out \<and> mn \<le> out \<and>
      p \<noteq> LaunchpadContract \<and> amt \<le> stx s p \<and>
      amt * fee_bps c \<le> uint_max \<and> virtual_stx c + new_reserve \<le> uint_max \<and>
      pool \<le> uint_max \<and>
      graduation_stx c \<le> new_reserve \<and>
      creator c \<noteq> LaunchpadContract \<and> protocol_fee_recipient s \<noteq> LaunchpadContract \<and>
      pool * creator_share_bps c \<le> uint_max \<and>
      accrued_fees c \<le> stx s LaunchpadContract \<longrightarrow>
      (\<exists>s'. buy s p cid amt mn = Inr ((out, fee), s') \<and>
         issuer_share + (pool - issuer_share) = pool \<and>
         (\<forall>q. stx s' q + (if q = LaunchpadContract then pool else 0)
                 + (if q = p then amt else 0)
            = stx s q + (if q = LaunchpadContract then amt else 0)
              + (if q = creator c then issuer_share else 0)
              + (if q = protocol_fee_recipient s then pool - issuer_share else 0)) \<and>
         curves s' cid = Some (c\<lparr>stx_reserve := new_reserve,
            tokens_sold := tokens_sold c + out, accrued_fees := 0, graduated := True\<rparr>) \<and>
         (\<forall>s2 p' h'. evolves s' s2 \<longrightarrow>
            curves s2 cid = curves s' cid \<and>
            graduate s2 cid = Inl ERR_GRADUATED \<and>
            exec s2 p' h' (Graduate cid) = s2))"
  proof (intro impI, elim conjE)
    assume rs: "reachable s" and c: "curves s cid = Some c"
      and v: "\<not> graduated c" "0 < amt" "0 < total_supply c - tokens_sold c" "0 < out"
        "mn \<le> out"
      and f: "p \<noteq> LaunchpadContract" "amt \<le> stx s p"
      and r1: "amt * fee_bps c \<le> uint_max" and r4: "virtual_stx c + new_reserve \<le> uint_max"
      and r6: "pool \<le> uint_max"
      and t: "graduation_stx c \<le> new_reserve"
      and g: "creator c \<noteq> LaunchpadContract" "protocol_fee_recipient s \<noteq> LaunchpadContract"
        "pool * creator_share_bps c \<le> uint_max"
        "accrued_fees c \<le> stx s LaunchpadContract"
    have e1: "fee = amt * fee_bps c div 10000" by (simp add: fee_def)
    have e2: "new_reserve = stx_reserve c + (amt - fee)" by (simp add: new_reserve_def)
    have e3: "out = (total_supply c - tokens_sold c) - curve_k c div (virtual_stx c + new_reserve)"
      by (simp add: out_def)
    have e4: "pool = accrued_fees c + fee" by (simp add: pool_def)
    have e5: "issuer_share = pool * creator_share_bps c div 10000" by (simp add: issuer_share_def)
    from reachable_buy_ranges [OF rs c e3, where amt = amt and y = new_reserve and p = p]
    have in_range: "amt * fee_bps c div 10000 \<le> amt" "0 < virtual_stx c + new_reserve"
      "tokens_sold c + out \<le> uint_max" "get_balance s cid p + out \<le> uint_max"
      "creator_share_bps c \<le> 10000"
      by blast+
    from in_range(1) have r2: "fee \<le> amt" unfolding e1 .
    note r = r1 r2 in_range(2) r4 in_range(3) r6 in_range(4)
    from g in_range(5) have g': "graduation_stx c \<le> new_reserve \<longrightarrow>
        creator c \<noteq> LaunchpadContract \<and> protocol_fee_recipient s \<noteq> LaunchpadContract \<and>
        creator_share_bps c \<le> 10000 \<and> pool * creator_share_bps c \<le> uint_max \<and>
        accrued_fees c \<le> stx s LaunchpadContract"
      by simp
    from buy_total [OF c e1 e2 e3 e4 v f r g']
    obtain s' where b: "buy s p cid amt mn = Inr ((out, fee), s')" ..
    from t have t': "graduation_stx c \<le> stx_reserve c + (amt - fee)" unfolding e2 .
    note pay = buy_graduation_payout [OF b c t', folded e4, folded e5]
    from pay have sh: "issuer_share \<le> pool" ..
    then have sum: "issuer_share + (pool - issuer_share) = pool" by simp
    from pay have led: "\<forall>q. stx s' q + (if q = LaunchpadContract then pool else 0)
                 + (if q = p then amt else 0)
            = stx s q + (if q = LaunchpadContract then amt else 0)
              + (if q = creator c then issuer_share else 0)
              + (if q = protocol_fee_recipient s then pool - issuer_share else 0)" ..
    let ?g = "c\<lparr>stx_reserve := new_reserve,
            tokens_sold := tokens_sold c + out, accrued_fees := 0, graduated := True\<rparr>"
    from buy_ok_effect [OF b c] t'
    have "curves s' cid = Some (c\<lparr>stx_reserve := stx_reserve c + (amt - fee),
            tokens_sold := tokens_sold c + out, accrued_fees := 0, graduated := True\<rparr>)"
      by simp
    then have cur: "curves s' cid = Some ?g" unfolding e2 [symmetric] .
    from b have ex: "exec s p 0 (Buy cid amt mn) = s'"
      by (simp add: exec_def committed_def bind_r_def)
    from reachable.step [OF rs, of p 0 "Buy cid amt mn"] have rs': "reachable s'"
      unfolding ex .
    then have ok': "state_ok s'" by (rule reachable_state_ok)
    have after: "\<forall>s2 p' h'. evolves s' s2 \<longrightarrow>
            curves s2 cid = curves s' cid \<and>
            graduate s2 cid = Inl ERR_GRADUATED \<and>
            exec s2 p' h' (Graduate cid) = s2"
    proof (intro allI impI)
      fix s2 p' h'
      assume ev: "evolves s' s2"
      have gg: "graduated ?g" by simp
      have c2: "curves s2 cid = Some ?g" by (rule graduated_frozen [OF ev ok' cur gg])
      have gi: "graduate_internal s2 cid = Inl ERR_GRADUATED"
        by (rule graduate_internal_graduated [OF c2]) (simp_all add: t)
      from c2 cur gi show "curves s2 cid = curves s' cid \<and>
            graduate s2 cid = Inl ERR_GRADUATED \<and>
            exec s2 p' h' (Graduate cid) = s2"
        by (simp add: graduate_graduated)
    qed
    from b sum led cur after show "\<exists>s'. buy s p cid amt mn = Inr ((out, fee), s') \<and>
         issuer_share + (pool - issuer_share) = pool \<and>
         (\<forall>q. stx s' q + (if q = LaunchpadContract then pool else 0)
                 + (if q = p then amt else 0)
            = stx s q + (if q = LaunchpadContract then amt else 0)
              + (if q = creator c then issuer_share else 0)
              + (if q = protocol_fee_recipient s then pool - issuer_share else 0)) \<and>
         curves s' cid = Some (c\<lparr>stx_reserve := new_reserve,
            tokens_sold := tokens_sold c + out, accrued_fees := 0, graduated := True\<rparr>) \<and>
         (\<forall>s2 p' h'. evolves s' s2 \<longrightarrow>
            curves s2 cid = curves s' cid \<and>
            graduate s2 cid = Inl ERR_GRADUATED \<and>
            exec s2 p' h' (Graduate cid) = s2)"
      by blast
  qed
next
  show "reachable s \<and> curves s cid = Some c \<and> graduated c \<and> evolves s s2 \<longrightarrow>
      curves s2 cid = Some c \<and> graduate s2 cid = Inl ERR_GRADUATED \<and>
      exec s2 p' h' (Graduate cid) = s2"
  proof (intro impI, elim conjE)
    assume rs: "reachable s" and c: "curves s cid = Some c" and g: "graduated c"
      and ev: "evolves s s2"
    from rs have ok: "state_ok s" by (rule reachable_state_ok)
    from ok c have cok: "curve_ok c" unfolding state_ok_def by blast
    from g cok have r: "graduation_stx c \<le> stx_reserve c" and f: "accrued_fees c = 0"
      unfolding curve_ok_def by blast+
    have c2: "curves s2 cid = Some c" by (rule graduated_frozen [OF ev ok c g])
    have gi: "graduate_internal s2 cid = Inl ERR_GRADUATED"
      by (rule graduate_internal_graduated [OF c2 g r f])
    from c2 gi show "curves s2 cid = Some c \<and> graduate s2 cid = Inl ERR_GRADUATED \<and>
      exec s2 p' h' (Graduate cid) = s2"
      by (simp add: graduate_graduated)
  qed
qed

lemma after_graduation_evolves: "evolves graduated_state after_graduation_state"
  unfolding after_graduation_state_def by (intro evolves.later evolves.here)

text \<open>
  The theorem on Scenario A: before the buy the curve is below its threshold and
  \<open>graduate\<close> is refused; the buy of \<open>200000000\<close> graduates the curve and pays
  \<open>1600000\<close> to the issuer and \<open>400000\<close> to the protocol fee recipient; afterwards, also
  once the buyer has passed tokens on, \<open>graduate\<close> returns \<open>ERR-GRADUATED\<close>.
\<close>

theorem graduate_once_witness:
  "reachable scenario_A_state \<and>
   graduate scenario_A_state 0 \<noteq> Inr (True, graduated_state) \<and>
   buy scenario_A_state (Wallet 2) 0 200000000 0
     = Inr ((19415571680722, 2000000), graduated_state) \<and>
   stx graduated_state (Wallet 1) = stx scenario_A_state (Wallet 1) + 1600000 \<and>
   stx graduated_state (Wallet 0) = stx scenario_A_state (Wallet 0) + 400000 \<and>
   stx graduated_state (Wallet 2) + 200000000 = stx scenario_A_state (Wallet 2) \<and>
   stx graduated_state LaunchpadContract + 2000000
     = stx scenario_A_state LaunchpadContract + 200000000 \<and>
   map_option accrued_fees (curves graduated_state 0) = Some 0 \<and>
   map_option graduated (curves graduated_state 0) = Some True \<and>
   graduate graduated_state 0 = Inl (Err 1403) \<and>
   exec graduated_state (Wallet 3) 5 (Graduate 0) = graduated_state \<and>
   map_option graduated (curves after_graduation_state 0) = Some True \<and>
   graduate after_graduation_state 0 = Inl (Err 1403) \<and>
   exec after_graduation_state (Wallet 3) 6 (Graduate 0) = after_graduation_state"
proof -
  let ?c = "\<lparr>creator = Wallet 1, curve_name = ''TestToken'', curve_symbol = ''TST'',
           total_supply = 1000000000000000, virtual_stx = 10000000000,
           curve_k = 10000000000000000000000000, stx_reserve = 0, tokens_sold = 0,
           graduation_stx = 100000000, fee_bps = 100, accrued_fees = 0,
           graduated = False, created_at = 3, creator_share_bps = 8000\<rparr>"
  let ?g = "\<lparr>creator = Wallet 1, curve_name = ''TestToken'', curve_symbol = ''TST'',
           total_supply = 1000000000000000, virtual_stx = 10000000000,
           curve_k = 10000000000000000000000000, stx_reserve = 198000000,
           tokens_sold = 19415571680722,
           graduation_stx = 100000000, fee_bps = 100, accrued_fees = 0,
           graduated = True, created_at = 3, creator_share_bps = 8000\<rparr>"
  have a: "curves scenario_A_state 0 = Some ?c"
    "stx scenario_A_state (Wallet 2) = 100000000000000"
    "stx scenario_A_state LaunchpadContract = 0"
    "protocol_fee_recipient scenario_A_state = Wallet 0"
    "get_balance scenario_A_state 0 (Wallet 2) = 0"
    by (simp_all add: scenario_A_state_eq get_balance_def wallet_funds_def)
  note inst = graduate_once [where s = scenario_A_state and cid = 0 and c = ?c
      and amt = 200000000 and mn = 0 and p = "Wallet 2"]
  have 0: "graduate scenario_A_state 0 \<noteq> Inr (True, graduated_state)"
    using inst [THEN conjunct1] reachable_scenario_A a(1) by simp
  have "\<exists>s'. buy scenario_A_state (Wallet 2) 0 200000000 0
          = Inr ((19415571680722, 2000000), s') \<and>
        (\<forall>q. stx s' q + (if q = LaunchpadContract then 2000000 else 0)
                 + (if q = Wallet 2 then 200000000 else 0)
            = stx scenario_A_state q + (if q = LaunchpadContract then 200000000 else 0)
              + (if q = Wallet 1 then 1600000 else 0)
              + (if q = Wallet 0 then 400000 else 0)) \<and>
        curves s' 0 = Some ?g \<and>
        (\<forall>s2 p' h'. evolves s' s2 \<longrightarrow>
            curves s2 0 = curves s' 0 \<and>
            graduate s2 0 = Inl ERR_GRADUATED \<and>
            exec s2 p' h' (Graduate 0) = s2)"
    using inst [THEN conjunct2, THEN conjunct1] reachable_scenario_A
    by (simp add: a uint_max_def cong: if_cong)
  then obtain s1 where
    1: "buy scenario_A_state (Wallet 2) 0 200000000 0 = Inr ((19415571680722, 2000000), s1)"
    and led: "\<forall>q. stx s1 q + (if q = LaunchpadContract then 2000000 else 0)
                 + (if q = Wallet 2 then 200000000 else 0)
            = stx scenario_A_state q + (if q = LaunchpadContract then 200000000 else 0)
              + (if q = Wallet 1 then 1600000 else 0)
              + (if q = Wallet 0 then 400000 else 0)"
    and cur: "curves s1 0 = Some ?g"
    and after: "\<forall>s2 p' h'. evolves s1 s2 \<longrightarrow>
            curves s2 0 = curves s1 0 \<and>
            graduate s2 0 = Inl ERR_GRADUATED \<and>
            exec s2 p' h' (Graduate 0) = s2"
    by blast
  from 1 have s1: "s1 = graduated_state"
    by (simp add: graduated_state_def exec_def committed_def bind_r_def)
  from led [THEN spec, of "Wallet 1"]
  have l1: "stx s1 (Wallet 1) = stx scenario_A_state (Wallet 1) + 1600000" by simp
  from led [THEN spec, of "Wallet 0"]
  have l2: "stx s1 (Wallet 0) = stx scenario_A_state (Wallet 0) + 400000" by simp
  from led [THEN spec, of "Wallet 2"]
  have l3: "stx s1 (Wallet 2) + 200000000 = stx scenario_A_state (Wallet 2)" by simp
  from led [THEN spec, of LaunchpadContract]
  have l4: "stx s1 LaunchpadContract + 2000000
      = stx scenario_A_state LaunchpadContract + 200000000" by simp
  from after evolves.here [of s1]
  have g1: "graduate s1 0 = Inl ERR_GRADUATED"
    "exec s1 (Wallet 3) 5 (Graduate 0) = s1" by blast+
  have gc: "curves graduated_state 0 = Some ?g" using cur unfolding s1 .
  have "curves after_graduation_state 0 = Some ?g \<and>
      graduate after_graduation_state 0 = Inl ERR_GRADUATED \<and>
      exec after_graduation_state (Wallet 3) 6 (Graduate 0) = after_graduation_state"
    using graduate_once [where s = graduated_state and cid = 0 and c = ?g
        and ?s2.0 = after_graduation_state and p' = "Wallet 3" and h' = 6,
        THEN conjunct2, THEN conjunct2]
      reachable_graduated gc after_graduation_evolves
    by simp
  then have 3: "map_option graduated (curves after_graduation_state 0) = Some True"
    "graduate after_graduation_state 0 = Inl ERR_GRADUATED"
    "exec after_graduation_state (Wallet 3) 6 (Graduate 0) = after_graduation_state"
    by simp_all
  from reachable_scenario_A 0 1 l1 l2 l3 l4 cur g1 3 show ?thesis
    unfolding s1 by (simp add: ERR_GRADUATED_def)
qed

text \<open>
  The state \<open>self_recipient_mid_state\<close> is the one on which the buy of \<open>200000000\<close>
  runs \<open>graduate-internal\<close> when the protocol fee recipient is the launchpad contract.
\<close>

lemma self_recipient_mid_is_buy_step:
  "buy self_recipient_state (Wallet 2) 0 200000000 0
     = bind_r (graduate_internal self_recipient_mid_state 0)
         (\<lambda>(_, s4). Inr ((19415571680722, 2000000), s4))"
proof -
  let ?c = "\<lparr>creator = Wallet 1, curve_name = ''TestToken'', curve_symbol = ''TST'',
           total_supply = 1000000000000000, virtual_stx = 10000000000,
           curve_k = 10000000000000000000000000, stx_reserve = 0, tokens_sold = 0,
           graduation_stx = 100000000, fee_bps = 100, accrued_fees = 0,
           graduated = False, created_at = 4, creator_share_bps = 8000\<rparr>"
  have "buy self_recipient_state (Wallet 2) 0 200000000 0
      = bind_r (if graduation_stx ?c \<le> 198000000
                then graduate_internal self_recipient_mid_state 0
                else Inr (True, self_recipient_mid_state))
          (\<lambda>(_, s4). Inr ((19415571680722, 2000000), s4))"
    by (rule buy_steps [where c = ?c and pool = 2000000])
      (simp_all add: self_recipient_state_eq self_recipient_mid_state_def get_balance_def
        uint_max_def wallet_funds_def fun_eq_iff)
  then show ?thesis by simp
qed

text \<open>
  The claim as stated fails when the payout cannot be made. With the protocol fee
  recipient set to the launchpad contract, on the curve whose reserve \<open>198000000\<close> has
  reached the threshold \<open>100000000\<close>, not graduated, with fee pool \<open>2000000\<close>, the
  graduate call returns \<open>err u2\<close> (the error of \<open>stx-transfer?\<close> for a transfer to
  oneself) and nothing is paid or written. On the reachable state before it, the buy
  that would bring the curve there returns \<open>err u2\<close> for that reason, and the curve
  stays as it was.
\<close>

theorem graduation_payout_refused_counterexample:
  "map_option stx_reserve (curves self_recipient_mid_state 0) = Some 198000000 \<and>
   map_option graduation_stx (curves self_recipient_mid_state 0) = Some 100000000 \<and>
   map_option graduated (curves self_recipient_mid_state 0) = Some False \<and>
   map_option accrued_fees (curves self_recipient_mid_state 0) = Some 2000000 \<and>
   protocol_fee_recipient self_recipient_mid_state = LaunchpadContract \<and>
   graduate self_recipient_mid_state 0 = Inl (Err 2) \<and>
   exec self_recipient_mid_state (Wallet 3) 5 (Graduate 0) = self_recipient_mid_state \<and>
   reachable self_recipient_state \<and>
   buy self_recipient_state (Wallet 2) 0 200000000 0 = Inl (Err 2) \<and>
   exec self_recipient_state (Wallet 2) 5 (Buy 0 200000000 0) = self_recipient_state"
proof -
  have m: "map_option stx_reserve (curves self_recipient_mid_state 0) = Some 198000000 \<and>
   map_option graduation_stx (curves self_recipient_mid_state 0) = Some 100000000 \<and>
   map_option graduated (curves self_recipient_mid_state 0) = Some False \<and>
   map_option accrued_fees (curves self_recipient_mid_state 0) = Some 2000000 \<and>
   protocol_fee_recipient self_recipient_mid_state = LaunchpadContract"
    by (simp add: self_recipient_mid_state_def self_recipient_state_eq)
  have g: "graduate self_recipient_mid_state 0 = Inl (Err 2)"
    by (simp add: self_recipient_mid_state_def self_recipient_state_eq call_defs arith_defs
        err_defs wallet_funds_def)
  then have ge: "exec self_recipient_mid_state (Wallet 3) 5 (Graduate 0)
      = self_recipient_mid_state"
    by (simp add: exec_def committed_def bind_r_def)
  have b: "buy self_recipient_state (Wallet 2) 0 200000000 0 = Inl (Err 2)"
    by (simp add: self_recipient_state_eq call_defs arith_defs err_defs wallet_funds_def)
  then have be: "exec self_recipient_state (Wallet 2) 5 (Buy 0 200000000 0)
      = self_recipient_state"
    by (simp add: exec_def committed_def bind_r_def)
  from m g ge reachable_self_recipient b be show ?thesis by blast
qed

section \<open>The price across a trade\<close>










section \<open>Buying and selling back\<close>

text \<open>
  Claim C7, as amended. In every reachable state, if \<open>buy(curveId, amountIn, _)\<close>
  returns \<open>ok (tokensOut, buyFee)\<close> and the same caller then sells exactly
  \<open>tokensOut\<close> and gets \<open>ok (amountOut, sellFee)\<close>, then
  \<open>amountOut + buyFee + sellFee \<le> amountIn\<close>; so \<open>amountOut < amountIn\<close> whenever one
  of the two fees actually charged is positive.
\<close>

theorem round_trip_bound:
  assumes "reachable s"
    and "buy s p cid amt mn = Inr ((out, fee1), s1)"
    and "sell s1 p cid out mn' = Inr ((stx_out, fee2), s2)"
  shows "stx_out + fee1 + fee2 \<le> amt \<and> (0 < fee1 + fee2 \<longrightarrow> stx_out < amt)"
proof -
  from assms(1) have ok: "state_ok s" by (rule reachable_state_ok)
  from assms(2) obtain c fee0 out0 ledger where b:
    "curves s cid = Some c" "(out, fee1) = (out0, fee0)" "fee0 \<le> amt"
    "tokens_sold c \<le> total_supply c"
    "curve_k c div (virtual_stx c + (stx_reserve c + (amt - fee0))) \<le> total_supply c - tokens_sold c"
    "out0 = total_supply c - tokens_sold c
        - curve_k c div (virtual_stx c + (stx_reserve c + (amt - fee0)))"
    "0 < out0"
    "s1 = s\<lparr>stx := ledger,
            curves := (curves s)(cid \<mapsto> c\<lparr>stx_reserve := stx_reserve c + (amt - fee0),
                tokens_sold := tokens_sold c + out0,
                accrued_fees := (if graduation_stx c \<le> stx_reserve c + (amt - fee0) then 0
                                 else accrued_fees c + fee0),
                graduated := (graduation_stx c \<le> stx_reserve c + (amt - fee0))\<rparr>),
            balances := balance_set (balances s) (cid, p) (get_balance s cid p + out0)\<rparr>"
    by (rule buy_effect)
  from b(2) have eq: "out0 = out" "fee0 = fee1" by simp_all
  let ?c1 = "c\<lparr>stx_reserve := stx_reserve c + (amt - fee1),
                tokens_sold := tokens_sold c + out,
                accrued_fees := (if graduation_stx c \<le> stx_reserve c + (amt - fee1) then 0
                                 else accrued_fees c + fee1),
                graduated := (graduation_stx c \<le> stx_reserve c + (amt - fee1))\<rparr>"
  have c1: "curves s1 cid = Some ?c1" unfolding b(8) eq by simp
  from assms(3) obtain c' seller_bal fee' stx_out' ledger' where sl:
    "curves s1 cid = Some c'" "(stx_out, fee2) = (stx_out', fee')"
    "virtual_stx c' \<le> curve_k c' div (total_supply c' - tokens_sold c' + out)"
    "fee' \<le> stx_reserve c' - (curve_k c' div (total_supply c' - tokens_sold c' + out) - virtual_stx c')"
    "stx_out' = stx_reserve c' - (curve_k c' div (total_supply c' - tokens_sold c' + out) - virtual_stx c') - fee'"
    by (rule sell_effect)
  from sl(1) c1 have c': "c' = ?c1" by simp
  from sl(2) have eq2: "stx_out' = stx_out" "fee' = fee2" by simp_all
  let ?tr = "total_supply c - tokens_sold c"
  let ?Q = "curve_k c div ?tr"
  from b(6) b(7) eq have out_le: "out \<le> ?tr" and tr_pos: "0 < ?tr" by simp_all
  have undo: "total_supply ?c1 - tokens_sold ?c1 + out = ?tr"
    using out_le b(4) by simp
  from ok b(1) have cok: "curve_ok c" by (simp add: state_ok_def)
  have "(virtual_stx c + stx_reserve c) * ?tr \<le> curve_k c" by (rule curve_ok_product [OF cok])
  with tr_pos have Q: "virtual_stx c + stx_reserve c \<le> ?Q"
    by (simp add: less_eq_div_iff_mult_less_eq)
  define G where "G = stx_reserve c + (amt - fee1) - (?Q - virtual_stx c)"
  have fee_le: "fee2 \<le> G"
    using sl(4) unfolding c' eq2 undo G_def by simp
  have so: "stx_out = G - fee2"
    using sl(5) unfolding c' eq2 undo G_def by simp
  from Q have "stx_reserve c \<le> ?Q - virtual_stx c" by simp
  then have "G \<le> amt - fee1" unfolding G_def by simp
  with fee_le so have "stx_out + fee2 \<le> amt - fee1" by simp
  moreover from b(3) eq have "fee1 \<le> amt" by simp
  ultimately have "stx_out + fee1 + fee2 \<le> amt" by simp
  then show ?thesis by auto
qed

theorem round_trip_bound_witness:
  "reachable launched_state \<and>
   map_sum id fst (buy launched_state (Wallet 2) 0 1000000 0) = Inr (98990199971, 10000) \<and>
   map_sum id fst (sell bought_state (Wallet 2) 0 98990199971 0) = Inr (980100, 9900) \<and>
   980100 + 10000 + 9900 \<le> (1000000::nat)"
proof -
  have b: "buy launched_state (Wallet 2) 0 1000000 0 = Inr ((98990199971, 10000), bought_state)"
    by (simp add: bought_state_def launched_state_eq call_defs arith_defs err_defs wallet_funds_def)
  obtain s2 where s: "sell bought_state (Wallet 2) 0 98990199971 0 = Inr ((980100, 9900), s2)"
    by (simp add: bought_state_def launched_state_eq call_defs arith_defs err_defs wallet_funds_def)
  from round_trip_bound [OF reachable_launched b s] b s reachable_launched
  show ?thesis by simp
qed

text \<open>
  The claim as stated ties strictness to the fee rate. On the freshly launched default
  curve the rate is 100 bps, yet buying with \<open>amountIn = 1\<close> charges
  \<open>floor(1 * 100 / 10000) = 0\<close>, yields 100000 tokens, and selling them back returns
  exactly 1 with fee 0.
\<close>

theorem round_trip_strictness_counterexample:
  "map_option fee_bps (curves launched_state 0) = Some 100 \<and>
   map_sum id fst (buy launched_state (Wallet 2) 0 1 0) = Inr (100000, 0) \<and>
   map_sum id fst (sell (exec launched_state (Wallet 2) 3 (Buy 0 1 0)) (Wallet 2) 0 100000 0)
     = Inr (1, 0)"
  by (simp add: launched_state_eq call_defs arith_defs err_defs wallet_funds_def)

section \<open>Scenario A, as the specification states it\<close>

text \<open>
  Claim C8. On a fresh curve with total supply \<open>1000000000000000\<close>, virtual reserve
  \<open>10000000000\<close>, fee rate 100 bps, issuer share 8000 bps and graduation threshold
  \<open>100000000\<close>, the single call \<open>buy(amountIn = 200000000)\<close> returns \<open>ok\<close> with fee
  \<open>2000000\<close>, graduates the curve inside the same call (afterwards \<open>graduated\<close> is
  true and \<open>accrued-fees\<close> is 0), and pays \<open>1600000\<close> to the issuer (\<open>Wallet 1\<close>) and
  \<open>400000\<close> to the protocol recipient (\<open>Wallet 0\<close>); the buyer has paid \<open>200000000\<close>
  and the contract keeps the reserve \<open>198000000\<close>.
\<close>

theorem scenario_A_graduating_buy:
  "curves scenario_A_state 0 =
     Some \<lparr>creator = Wallet 1, curve_name = ''TestToken'', curve_symbol = ''TST'',
           total_supply = 1000000000000000, virtual_stx = 10000000000,
           curve_k = 10000000000000000000000000, stx_reserve = 0, tokens_sold = 0,
           graduation_stx = 100000000, fee_bps = 100, accrued_fees = 0,
           graduated = False, created_at = 3, creator_share_bps = 8000\<rparr> \<and>
   protocol_fee_recipient scenario_A_state = Wallet 0 \<and>
   map_sum id fst (buy scenario_A_state (Wallet 2) 0 200000000 0)
     = Inr (19415571680722, 2000000) \<and>
   map_option graduated (curves (exec scenario_A_state (Wallet 2) 4 (Buy 0 200000000 0)) 0)
     = Some True \<and>
   map_option accrued_fees (curves (exec scenario_A_state (Wallet 2) 4 (Buy 0 200000000 0)) 0)
     = Some 0 \<and>
   map_option stx_reserve (curves (exec scenario_A_state (Wallet 2) 4 (Buy 0 200000000 0)) 0)
     = Some 198000000 \<and>
   stx (exec scenario_A_state (Wallet 2) 4 (Buy 0 200000000 0)) (Wallet 1)
     = stx scenario_A_state (Wallet 1) + 1600000 \<and>
   stx (exec scenario_A_state (Wallet 2) 4 (Buy 0 200000000 0)) (Wallet 0)
     = stx scenario_A_state (Wallet 0) + 400000 \<and>
   stx (exec scenario_A_state (Wallet 2) 4 (Buy 0 200000000 0)) (Wallet 2) + 200000000
     = stx scenario_A_state (Wallet 2) \<and>
   stx (exec scenario_A_state (Wallet 2) 4 (Buy 0 200000000 0)) LaunchpadContract
     = stx scenario_A_state LaunchpadContract + 198000000"
  unfolding scenario_A_buy_value scenario_A_buy_curve
  using scenario_A_buy_ledger
  by (simp add: scenario_A_state_eq wallet_funds_def)

section \<open>Runtime errors ahead of the validations\<close>

text \<open>
  Claim C9 says that every public call either succeeds or returns one of the error
  codes, and in particular that no subtraction in the quote computations of \<open>buy\<close>
  and \<open>sell\<close> underflows on a reachable state. The code evaluates the quote in its
  \<open>let\<close> bindings before any \<open>asserts!\<close>, so the following calls on reachable
  states end in a runtime underflow instead of the error code their validations name.
  After one buy of \<open>1000000\<close> on the default curve, \<open>Wallet 2\<close> holds all
  \<open>98990199971\<close> tokens sold; selling one token more than that aborts in
  \<open>(- (/ k new-token-reserve) virtual-stx)\<close> instead of returning
  \<open>ERR-INSUFFICIENT-BALANCE\<close>. After selling one token, \<open>buy\<close> with amount 0 aborts in
  \<open>(- token-reserve new-token-reserve)\<close> instead of returning \<open>ERR-ZERO-AMOUNT\<close>.
  In both cases the state is left as it was.
\<close>

theorem quote_underflow_before_validation:
  "reachable bought_state \<and>
   get_balance bought_state 0 (Wallet 2) = 98990199971 \<and>
   sell bought_state (Wallet 2) 0 98990199972 0 = Inl (Abort ArithmeticUnderflow) \<and>
   exec bought_state (Wallet 2) 4 (Sell 0 98990199972 0) = bought_state \<and>
   map_sum id fst (sell bought_state (Wallet 2) 0 1 0) = Inr (1, 0) \<and>
   reachable (exec bought_state (Wallet 2) 4 (Sell 0 1 0)) \<and>
   buy (exec bought_state (Wallet 2) 4 (Sell 0 1 0)) (Wallet 3) 0 0 0
     = Inl (Abort ArithmeticUnderflow)"
proof -
  have 1: "sell bought_state (Wallet 2) 0 98990199972 0 = Inl (Abort ArithmeticUnderflow)"
    by (simp add: bought_state_def launched_state_eq call_defs arith_defs err_defs wallet_funds_def)
  have 2: "exec bought_state (Wallet 2) 4 (Sell 0 98990199972 0) = bought_state"
    by (simp add: exec_def committed_def bind_r_def 1)
  have 3: "get_balance bought_state 0 (Wallet 2) = 98990199971"
    by (simp add: bought_state_def launched_state_eq call_defs arith_defs err_defs wallet_funds_def)
  have 4: "map_sum id fst (sell bought_state (Wallet 2) 0 1 0) = Inr (1, 0)"
    by (simp add: bought_state_def launched_state_eq call_defs arith_defs err_defs wallet_funds_def)
  have 5: "buy (exec bought_state (Wallet 2) 4 (Sell 0 1 0)) (Wallet 3) 0 0 0
     = Inl (Abort ArithmeticUnderflow)"
    by (simp add: bought_state_def launched_state_eq call_defs arith_defs err_defs wallet_funds_def)
  have 6: "reachable (exec bought_state (Wallet 2) 4 (Sell 0 1 0))"
    by (intro reachable.step reachable_bought)
  from 1 2 3 4 5 6 reachable_bought show ?thesis by simp
qed

end
